theory Spec2Isabelle
  imports Complex_Main "HOL-Library.AList"
begin

section \<open>Python values the pipeline relies on\<close>

text \<open>
  Exceptions of the Python runtime become values of \<open>error\<close>; a function that may raise
  returns \<open>error + 'a\<close> with \<open>Inl\<close> for the exception. \<open>sys.exit(1)\<close> raises
  \<open>SystemExit\<close>.
\<close>

datatype error =
    IOError string
  | ValueError string
  | AttributeError string
  | TypeError string
  | IndexError
  | KeyError string
  | AssertionError string
  | SystemExit int
  | Exception string

type_synonym path = string

subsection \<open>String methods\<close>

definition startswith :: "string \<Rightarrow> string \<Rightarrow> bool" where
  "startswith s p = (take (length p) s = p)"

definition endswith :: "string \<Rightarrow> string \<Rightarrow> bool" where
  "endswith s p = (length p \<le> length s \<and> drop (length s - length p) s = p)"

text \<open>\<open>p in s\<close> for two strings: \<open>p\<close> occurs in \<open>s\<close> as a contiguous run.\<close>

fun contains :: "string \<Rightarrow> string \<Rightarrow> bool" where
  "contains p [] = (p = [])"
| "contains p (c # s) = (startswith (c # s) p \<or> contains p s)"

text \<open>\<open>s.split(sep)\<close> for a one-character separator: never an empty list.\<close>

fun split_char :: "char \<Rightarrow> string \<Rightarrow> string list" where
  "split_char sep [] = [[]]"
| "split_char sep (c # s) =
     (if c = sep then [] # split_char sep s
      else (case split_char sep s of
              [] \<Rightarrow> [[c]]
            | w # ws \<Rightarrow> (c # w) # ws))"

text \<open>\<open>s.split(sep)[0]\<close> for a non-empty separator: the text before its first occurrence.\<close>

fun before_sep :: "string \<Rightarrow> string \<Rightarrow> string" where
  "before_sep sep [] = []"
| "before_sep sep (c # s) = (if startswith (c # s) sep then [] else c # before_sep sep s)"

text \<open>
  \<open>s.replace(old, new)\<close> for a non-empty \<open>old\<close>: occurrences are replaced from the left and
  do not overlap; the counter skips the rest of an occurrence already replaced.
\<close>

fun replace_go :: "string \<Rightarrow> string \<Rightarrow> nat \<Rightarrow> string \<Rightarrow> string" where
  "replace_go old new k [] = []"
| "replace_go old new (Suc k) (c # s) = replace_go old new k s"
| "replace_go old new 0 (c # s) =
     (if startswith (c # s) old then new @ replace_go old new (length old - 1) s
      else c # replace_go old new 0 s)"

definition replace :: "string \<Rightarrow> string \<Rightarrow> string \<Rightarrow> string" where
  "replace s old new = replace_go old new 0 s"

definition is_space :: "char \<Rightarrow> bool" where
  "is_space c = (c \<in> set [CHR '' '', CHR 0x09, CHR 0x0A, CHR 0x0B, CHR 0x0C, CHR 0x0D])"

definition strip :: "string \<Rightarrow> string" where
  "strip s = rev (dropWhile is_space (rev (dropWhile is_space s)))"

subsection \<open>Numbers and text\<close>

definition digit_char :: "nat \<Rightarrow> char" where
  "digit_char d = ''0123456789'' ! d"

function show_nat :: "nat \<Rightarrow> string" where
  "show_nat n = (if n < 10 then [digit_char n] else show_nat (n div 10) @ [digit_char (n mod 10)])"
  by pat_completeness auto
termination
  by (relation "measure (\<lambda>n. n)") auto

declare show_nat.simps [simp del]

text \<open>\<open>"%i" % n\<close> and \<open>"%d" % n\<close>.\<close>

definition show_int :: "int \<Rightarrow> string" where
  "show_int i = (if i < 0 then CHR ''-'' # show_nat (nat (- i)) else show_nat (nat i))"

definition is_digit :: "char \<Rightarrow> bool" where
  "is_digit c = ((48::nat) \<le> of_char c \<and> (of_char c :: nat) \<le> 57)"

definition digit_val :: "char \<Rightarrow> nat" where
  "digit_val c = of_char c - 48"

text \<open>The value of a run of decimal digits, read from the left.\<close>

fun digits_val :: "nat \<Rightarrow> string \<Rightarrow> nat" where
  "digits_val acc [] = acc"
| "digits_val acc (c # s) = digits_val (10 * acc + digit_val c) s"

text \<open>
  \<open>int(s)\<close> in base ten: surrounding whitespace is dropped, then an optional sign and at
  least one digit must make up the whole text; anything else raises \<open>ValueError\<close>
  (\<open>None\<close> here, turned into the exception by the caller).
\<close>

definition py_int :: "string \<Rightarrow> int option" where
  "py_int s =
     (let t = strip s;
          neg = (t \<noteq> [] \<and> hd t = CHR ''-'');
          ds = (if t \<noteq> [] \<and> (hd t = CHR ''-'' \<or> hd t = CHR ''+'') then tl t else t)
      in if ds \<noteq> [] \<and> list_all is_digit ds
         then Some (if neg then - int (digits_val 0 ds) else int (digits_val 0 ds))
         else None)"

subsection \<open>\<open>os.path\<close>\<close>

definition basename :: "path \<Rightarrow> string" where
  "basename p = rev (takeWhile (\<lambda>c. c \<noteq> CHR ''/'') (rev p))"

definition dirname :: "path \<Rightarrow> path" where
  "dirname p =
     (let head = rev (dropWhile (\<lambda>c. c \<noteq> CHR ''/'') (rev p))
      in if head \<noteq> [] \<and> \<not> list_all (\<lambda>c. c = CHR ''/'') head
         then rev (dropWhile (\<lambda>c. c = CHR ''/'') (rev head))
         else head)"

text \<open>\<open>os.path.join(a, b)\<close>: an absolute second component replaces the first.\<close>

definition join :: "path \<Rightarrow> path \<Rightarrow> path" where
  "join a b =
     (if startswith b ''/'' then b
      else if a = [] \<or> endswith a ''/'' then a @ b
      else a @ ''/'' @ b)"

section \<open>The world outside the process\<close>

subsection \<open>Alignment files\<close>

text \<open>
  An alignment record as \<open>pysam\<close> hands it to the pipeline: query name, reference name
  (\<open>None\<close> for a record placed on no reference), position and the list of optional tags,
  each a pair of a two-letter name and a value.
\<close>

datatype tagval = TagInt int | TagFloat real | TagStr string

record aligned_read =
  qname :: string
  rname :: "string option"
  pos :: int
  tags :: "(string \<times> tagval) list"

text \<open>A BAM file: the reference names of its header and its records in file order.\<close>

record bam =
  references :: "string list"
  reads :: "aligned_read list"

subsection \<open>Files, log and commands\<close>

datatype node = BamFile bam | TextFile string | Directory

type_synonym filesystem = "path \<rightharpoonup> node"

datatype level = INFO | WARNING | CRITICAL

text \<open>
  The state a pipeline function works on: the file system, the messages given to the logger
  and the command lines handed to a shell (\<open>os.system\<close>, \<open>subprocess.Popen\<close>), both in
  order. Messages that report elapsed wall-clock time are left out.
\<close>

record world =
  fs :: filesystem
  logged :: "(level \<times> string) list"
  cmds :: "string list"

definition isfile :: "filesystem \<Rightarrow> path \<Rightarrow> bool" where
  "isfile f p = (case f p of Some (BamFile b) \<Rightarrow> True | Some (TextFile t) \<Rightarrow> True | _ \<Rightarrow> False)"

definition logger_info :: "string \<Rightarrow> world \<Rightarrow> world" where
  "logger_info msg w = w\<lparr>logged := logged w @ [(INFO, msg)]\<rparr>"

definition logger_warning :: "string \<Rightarrow> world \<Rightarrow> world" where
  "logger_warning msg w = w\<lparr>logged := logged w @ [(WARNING, msg)]\<rparr>"

definition logger_critical :: "string \<Rightarrow> world \<Rightarrow> world" where
  "logger_critical msg w = w\<lparr>logged := logged w @ [(CRITICAL, msg)]\<rparr>"

text \<open>
  \<open>os.system(cmd)\<close> runs an external tool to completion. What the tool does to the files
  is not the pipeline's code: \<open>shell cmd\<close> is that effect, a parameter of every function
  that starts a tool. The exit status is not looked at by any caller.
\<close>

definition os_system :: "(string \<Rightarrow> filesystem \<Rightarrow> filesystem) \<Rightarrow> string \<Rightarrow> world \<Rightarrow> world" where
  "os_system shell cmd w = w\<lparr>fs := shell cmd (fs w), cmds := cmds w @ [cmd]\<rparr>"

text \<open>\<open>open(p, "w")\<close>, \<open>write\<close>, \<open>close\<close>: the file is created or replaced.\<close>

definition write_text :: "filesystem \<Rightarrow> path \<Rightarrow> string \<Rightarrow> error + filesystem" where
  "write_text f p txt =
     (case f p of
        Some Directory \<Rightarrow> Inl (IOError p)
      | _ \<Rightarrow> Inr (f(p \<mapsto> TextFile txt)))"

subsection \<open>\<open>pysam.Samfile\<close>\<close>

text \<open>
  A file opened for reading holds the header and the records the file had when it was
  opened, and whether the companion index \<open>.bai\<close> was there. Opening fails on a path that
  is no BAM file.
\<close>

record samfile =
  sf_references :: "string list"
  sf_reads :: "aligned_read list"
  sf_index :: bool

definition Samfile_rb :: "filesystem \<Rightarrow> path \<Rightarrow> error + samfile" where
  "Samfile_rb f p =
     (case f p of
        Some (BamFile b) \<Rightarrow>
          Inr \<lparr>sf_references = references b, sf_reads = reads b, sf_index = isfile f (p @ ''.bai'')\<rparr>
      | Some (TextFile t) \<Rightarrow> Inl (ValueError p)
      | Some Directory \<Rightarrow> Inl (IOError p)
      | None \<Rightarrow> Inl (IOError p))"

text \<open>
  \<open>fetch(reference=r, start=None, end=None)\<close>: the records placed on reference \<open>r\<close>.
  An unknown reference name and a file without index raise \<open>ValueError\<close>; an empty name
  selects no region, and every record is returned.
\<close>

definition fetch :: "samfile \<Rightarrow> string \<Rightarrow> error + aligned_read list" where
  "fetch sf reference =
     (if reference \<noteq> [] \<and> reference \<notin> set (sf_references sf) then Inl (ValueError reference)
      else if \<not> sf_index sf then Inl (ValueError ''fetch called on bamfile without index'')
      else if reference = [] then Inr (sf_reads sf)
      else Inr (filter (\<lambda>r. rname r = Some reference) (sf_reads sf)))"

text \<open>
  \<open>pysam.Samfile(p, "wb", template=t)\<close> creates the file with the header of \<open>t\<close> and no
  record; \<open>write\<close> appends one record to it.
\<close>

definition Samfile_wb :: "filesystem \<Rightarrow> path \<Rightarrow> samfile \<Rightarrow> error + filesystem" where
  "Samfile_wb f p template =
     (case f p of
        Some Directory \<Rightarrow> Inl (IOError p)
      | _ \<Rightarrow> Inr (f(p \<mapsto> BamFile \<lparr>references = sf_references template, reads = []\<rparr>)))"

definition Samfile_write :: "filesystem \<Rightarrow> path \<Rightarrow> aligned_read \<Rightarrow> filesystem" where
  "Samfile_write f p r =
     (case f p of
        Some (BamFile b) \<Rightarrow> f(p \<mapsto> BamFile (b\<lparr>reads := reads b @ [r]\<rparr>))
      | _ \<Rightarrow> f)"

subsection \<open>Quantification tables (\<open>pandas.DataFrame\<close>)\<close>

text \<open>
  A table has the four key columns \<open>gene_id\<close>, \<open>exons\<close>, \<open>gene_symbol\<close>, \<open>gene_desc\<close> and
  further named columns; a row is its key and one cell for each further column.
  \<open>pandas.merge(left, right, on=[the four key columns])\<close> is the inner join: one row for
  every pair of a left and a right row with equal keys, carrying the cells of both. A
  column name the two tables share is suffixed \<open>_x\<close> on the left and \<open>_y\<close> on the right.
  The order of the joined rows is the library's; here it is that of the left table.
\<close>

type_synonym key = "string \<times> string \<times> string \<times> string"

datatype cell = CellFloat real | CellInt int | CellStr string

record table =
  columns :: "string list"
  rows :: "(key \<times> cell list) list"

definition suffixed :: "string list \<Rightarrow> string \<Rightarrow> string \<Rightarrow> string" where
  "suffixed shared suffix c = (if c \<in> set shared then c @ suffix else c)"

definition pandas_merge :: "table \<Rightarrow> table \<Rightarrow> table" where
  "pandas_merge left right =
     (let shared = filter (\<lambda>c. c \<in> set (columns right)) (columns left)
      in \<lparr>columns = map (suffixed shared ''_x'') (columns left)
                    @ map (suffixed shared ''_y'') (columns right),
          rows = concat (map (\<lambda>l. map (\<lambda>r. (fst l, snd l @ snd r))
                                      (filter (\<lambda>r. fst r = fst l) (rows right)))
                             (rows left))\<rparr>)"

section \<open>Samples (\<open>Pipeline.py\<close>)\<close>

text \<open>
  The settings are a dictionary of sections, each a dictionary of options with text values;
  an empty text counts as false. The list-valued option \<open>sample_groups\<close> is kept apart, in
  the pipeline record.
\<close>

type_synonym settings = "string \<rightharpoonup> (string \<rightharpoonup> string)"

record SampleRawdata =
  label_rd :: string
  seq_filename :: path
  reads_filename :: path
  settings_info :: "settings option"
  sample_type_rd :: "string option"
  collapsed_seq_filename :: "path option"

text \<open>
  \<open>SampleRawdata.__init__\<close>. The attribute \<open>collapsed_seq_filename\<close> does not exist
  before preprocessing assigns it.
\<close>

definition SampleRawdata_init :: "string \<Rightarrow> path \<Rightarrow> settings option \<Rightarrow> error + SampleRawdata" where
  "SampleRawdata_init lbl seq_fname si =
     (let self = \<lparr>label_rd = lbl, seq_filename = seq_fname, reads_filename = seq_fname,
                  settings_info = si, sample_type_rd = None, collapsed_seq_filename = None\<rparr>
      in case si of
           None \<Rightarrow> Inr self
         | Some info \<Rightarrow>
             (case info ''pipeline'' of
                None \<Rightarrow> Inl (KeyError ''pipeline'')
              | Some sect \<Rightarrow>
                  (case sect ''data_type'' of
                     None \<Rightarrow> Inl (KeyError ''data_type'')
                   | Some dt \<Rightarrow> Inr (self\<lparr>sample_type_rd := Some dt\<rparr>))))"

text \<open>
  The raw data of a sample is one \<open>SampleRawdata\<close> object or a Python list of them. The
  attribute \<open>qc\<close> of a sample holds an object of a class outside these files and is left out.
\<close>

datatype rawdata = Single SampleRawdata | Group "SampleRawdata list"

record Sample =
  label :: string
  rawdata :: rawdata
  paired :: bool
  sample_type :: "string option"
  bowtie_filename :: "path option"
  tophat_filename :: "path option"
  processed_bam_dir :: "path option"
  bam_filename :: "path option"
  unique_bam_filename :: "path option"
  ribosub_bam_filename :: "path option"
  rmdups_bam_filename :: "path option"
  rmdups_unique_bam_filename :: "path option"
  rpkm_dir :: "path option"
  events_dir :: "path option"
  rpkm_tables :: "string \<Rightarrow> table option"
  group :: "string option"

text \<open>\<open>Sample.__init__\<close>: indexing an empty list raises \<open>IndexError\<close>.\<close>

definition Sample_init :: "string \<Rightarrow> rawdata \<Rightarrow> error + Sample" where
  "Sample_init lbl rd =
     (let self = \<lparr>label = lbl, rawdata = rd, paired = False, sample_type = None,
                  bowtie_filename = None, tophat_filename = None, processed_bam_dir = None,
                  bam_filename = None, unique_bam_filename = None,
                  ribosub_bam_filename = None, rmdups_bam_filename = None,
                  rmdups_unique_bam_filename = None, rpkm_dir = None, events_dir = None,
                  rpkm_tables = (\<lambda>name. None), group = None\<rparr>
      in case rd of
           Group rs \<Rightarrow>
             (case rs of
                [] \<Rightarrow> Inl IndexError
              | r # rest \<Rightarrow> Inr (self\<lparr>paired := True, sample_type := sample_type_rd r\<rparr>))
         | Single r \<Rightarrow> Inr (self\<lparr>sample_type := sample_type_rd r\<rparr>))"

text \<open>\<open>",".join(labels)\<close>.\<close>

fun join_with :: "string \<Rightarrow> string list \<Rightarrow> string" where
  "join_with sep [] = []"
| "join_with sep [x] = x"
| "join_with sep (x # y # ys) = x @ sep @ join_with sep (y # ys)"

text \<open>
  \<open>Sample.__repr__\<close>, used wherever a sample is formatted into a log message. A sample
  whose flag \<open>paired\<close> is unset holds one object, by \<open>Sample.__init__\<close>.
\<close>

definition Sample_repr :: "Sample \<Rightarrow> error + string" where
  "Sample_repr s =
     (if paired s then
        (case rawdata s of
           Group rs \<Rightarrow> Inr (''Sample('' @ label s @ '', samples='' @ join_with '','' (map label_rd rs) @ '')'')
         | Single r \<Rightarrow> Inl (TypeError ''SampleRawdata object is not iterable''))
      else
        (case rawdata s of
           Single r \<Rightarrow> Inr (''Sample('' @ label s @ '', samples='' @ label_rd r @ '')'')
         | Group rs \<Rightarrow> Inl (AttributeError ''label'')))"

subsection \<open>The pipeline object\<close>

text \<open>
  The fields of \<open>Pipeline\<close> that the functions below read or assign.
  \<open>rpkm_table_names\<close> stands for \<open>self.rna_base.rpkm_table_names\<close>, \<open>sample_groups\<close> for
  the option of that name in the section \<open>data\<close> of the settings (\<open>None\<close> when the option
  is not set). The two group dictionaries are association lists in the order in which the
  keys were first assigned; iterating a dictionary follows that order here.
\<close>

record Pipeline =
  pipeline_settings_info :: settings
  is_paired_end :: bool
  sequence_filenames :: "(path \<times> string) list"
  sample_groups :: "(string \<times> string list) list option"
  sample_to_group :: "(string \<times> string) list"
  group_to_samples :: "(string \<times> string list) list"
  samples :: "Sample list"
  adaptors_filename :: "path option"
  pipeline_outdirs :: "string \<rightharpoonup> path"
  pipeline_rpkm_dir :: path
  rpkm_table_names :: "string list"
  pipeline_rpkm_tables :: "string \<Rightarrow> table option"

text \<open>
  Functions of the repository and tools that are not in these files. Each is a parameter:
  \<open>shell\<close> is the effect of a command line on the files, \<open>which\<close> is \<open>utils.which\<close>,
  \<open>trim_fastq_ext\<close> is \<open>utils.trim_fastq_ext\<close>, \<open>bam_text\<close> is what reading a BAM file
  as text returns. \<open>trim_polyA_ends\<close>, \<open>check_clip_utils\<close> and \<open>collapse_clip_reads\<close>
  take the state and return their result with the new state, or raise; they are taken not
  to assign to the sample they are given. \<open>load_sample_rpkms\<close> is
  \<open>rpkm_utils.load_sample_rpkms\<close> with the pipeline's annotation: a dictionary that
  answers \<open>None\<close> for a table it does not have.
\<close>

record externals =
  shell :: "string \<Rightarrow> filesystem \<Rightarrow> filesystem"
  which :: "string \<Rightarrow> path option"
  trim_fastq_ext :: "string \<Rightarrow> string"
  bam_text :: "bam \<Rightarrow> string"
  trim_polyA_ends :: "path \<Rightarrow> path \<Rightarrow> world \<Rightarrow> error + path \<times> world"
  check_clip_utils :: "world \<Rightarrow> error + world"
  collapse_clip_reads :: "Sample \<Rightarrow> path \<Rightarrow> world \<Rightarrow> error + path \<times> world"
  load_sample_rpkms :: "Sample \<Rightarrow> string \<Rightarrow> table option"

subsection \<open>Loading the samples\<close>

text \<open>\<open>Pipeline.get_samples_rawdata\<close>: the loop over \<open>self.sequence_filenames\<close>.\<close>

fun get_samples_rawdata_loop ::
  "settings \<Rightarrow> (path \<times> string) list \<Rightarrow> world \<Rightarrow> error + SampleRawdata list" where
  "get_samples_rawdata_loop si [] w = Inr []"
| "get_samples_rawdata_loop si ((seq_fname, sample_label) # entries) w =
     (if \<not> isfile (fs w) seq_fname then Inl (SystemExit 1)
      else (case SampleRawdata_init sample_label seq_fname (Some si) of
              Inl e \<Rightarrow> Inl e
            | Inr sample_rawdata \<Rightarrow>
                (case get_samples_rawdata_loop si entries w of
                   Inl e \<Rightarrow> Inl e
                 | Inr others \<Rightarrow> Inr (sample_rawdata # others))))"

definition get_samples_rawdata :: "Pipeline \<Rightarrow> world \<Rightarrow> error + SampleRawdata list" where
  "get_samples_rawdata self w =
     get_samples_rawdata_loop (pipeline_settings_info self) (sequence_filenames self) w"

text \<open>
  \<open>Pipeline.load_groups\<close>. The two nested loops fill \<open>sample_to_group\<close> and
  \<open>group_to_samples\<close>; the last loop tells each sample already loaded its group and raises
  \<open>KeyError\<close> for a label in no group.
\<close>

definition group_members :: "(string \<times> string list) list \<Rightarrow> string \<Rightarrow> string list" where
  "group_members g2s g = (case map_of g2s g of None \<Rightarrow> [] | Some ms \<Rightarrow> ms)"

fun load_groups_inner ::
  "string \<Rightarrow> string list \<Rightarrow> (string \<times> string) list \<times> (string \<times> string list) list
     \<Rightarrow> (string \<times> string) list \<times> (string \<times> string list) list" where
  "load_groups_inner g [] st = st"
| "load_groups_inner g (curr_sample # rest) (s2g, g2s) =
     load_groups_inner g rest
       (AList.update curr_sample g s2g, AList.update g (group_members g2s g @ [curr_sample]) g2s)"

fun load_groups_outer ::
  "(string \<times> string list) list \<Rightarrow> (string \<times> string) list \<times> (string \<times> string list) list
     \<Rightarrow> (string \<times> string) list \<times> (string \<times> string list) list" where
  "load_groups_outer [] st = st"
| "load_groups_outer ((g, members) # rest) st = load_groups_outer rest (load_groups_inner g members st)"

fun tell_groups :: "(string \<times> string) list \<Rightarrow> Sample list \<Rightarrow> error + Sample list" where
  "tell_groups s2g [] = Inr []"
| "tell_groups s2g (sample_obj # rest) =
     (case map_of s2g (label sample_obj) of
        None \<Rightarrow> Inl (KeyError (label sample_obj))
      | Some g \<Rightarrow>
          (case tell_groups s2g rest of
             Inl e \<Rightarrow> Inl e
           | Inr rest' \<Rightarrow> Inr (sample_obj\<lparr>group := Some g\<rparr> # rest')))"

definition load_groups :: "Pipeline \<Rightarrow> error + Pipeline" where
  "load_groups self =
     (case pipeline_settings_info self ''mapping'' of
        None \<Rightarrow> Inl (KeyError ''mapping'')
      | Some mapping \<Rightarrow>
          (case mapping ''paired'' of
             None \<Rightarrow> Inl (KeyError ''paired'')
           | Some flag \<Rightarrow>
               if flag = [] then Inr self
               else (case sample_groups self of
                       None \<Rightarrow> Inl (SystemExit 1)
                     | Some groups \<Rightarrow>
                         (let (s2g, g2s) = load_groups_outer groups ([], [])
                          in case tell_groups s2g (samples self) of
                               Inl e \<Rightarrow> Inl e
                             | Inr samples' \<Rightarrow>
                                 Inr (self\<lparr>sample_to_group := s2g, group_to_samples := g2s,
                                           samples := samples'\<rparr>)))))"

text \<open>
  \<open>Pipeline.load_pipeline_samples\<close>. \<open>dict(pairs)\<close> keeps the last value given for a key.
\<close>

fun lookup_labels :: "(string \<rightharpoonup> SampleRawdata) \<Rightarrow> string list \<Rightarrow> error + SampleRawdata list" where
  "lookup_labels by_label [] = Inr []"
| "lookup_labels by_label (l # ls) =
     (case by_label l of
        None \<Rightarrow> Inl (KeyError l)
      | Some r \<Rightarrow>
          (case lookup_labels by_label ls of
             Inl e \<Rightarrow> Inl e
           | Inr rs \<Rightarrow> Inr (r # rs)))"

fun paired_samples ::
  "(string \<rightharpoonup> SampleRawdata) \<Rightarrow> (string \<times> string list) list \<Rightarrow> error + Sample list" where
  "paired_samples by_label [] = Inr []"
| "paired_samples by_label ((group_label, samples_in_group) # rest) =
     (case lookup_labels by_label samples_in_group of
        Inl e \<Rightarrow> Inl e
      | Inr group_samples \<Rightarrow>
          (case Sample_init group_label (Group group_samples) of
             Inl e \<Rightarrow> Inl e
           | Inr sample \<Rightarrow>
               (case paired_samples by_label rest of
                  Inl e \<Rightarrow> Inl e
                | Inr others \<Rightarrow> Inr (sample # others))))"

fun single_samples :: "SampleRawdata list \<Rightarrow> error + Sample list" where
  "single_samples [] = Inr []"
| "single_samples (sample_rawdata # rest) =
     (case Sample_init (label_rd sample_rawdata) (Single sample_rawdata) of
        Inl e \<Rightarrow> Inl e
      | Inr sample \<Rightarrow>
          (case single_samples rest of
             Inl e \<Rightarrow> Inl e
           | Inr others \<Rightarrow> Inr (sample # others)))"

definition set_rpkm_dirs :: "path \<Rightarrow> Sample list \<Rightarrow> Sample list" where
  "set_rpkm_dirs dir ss = map (\<lambda>sample. sample\<lparr>rpkm_dir := Some (join dir (label sample))\<rparr>) ss"

definition load_pipeline_samples :: "Pipeline \<Rightarrow> world \<Rightarrow> error + Pipeline \<times> world" where
  "load_pipeline_samples self w =
     (let w1 = logger_info ''Loading pipeline samples...'' w
      in case get_samples_rawdata self w1 of
           Inl e \<Rightarrow> Inl e
         | Inr all_samples_rawdata \<Rightarrow>
             (let samples_rawdata_by_label =
                    map_of (rev (map (\<lambda>s. (label_rd s, s)) all_samples_rawdata))
              in if is_paired_end self then
                   (case load_groups self of
                      Inl e \<Rightarrow> Inl e
                    | Inr self1 \<Rightarrow>
                        (case paired_samples samples_rawdata_by_label (group_to_samples self1) of
                           Inl e \<Rightarrow> Inl e
                         | Inr ss \<Rightarrow>
                             Inr (self1\<lparr>samples := set_rpkm_dirs (pipeline_rpkm_dir self1) ss\<rparr>, w1)))
                 else
                   (case single_samples all_samples_rawdata of
                      Inl e \<Rightarrow> Inl e
                    | Inr ss \<Rightarrow>
                        Inr (self\<lparr>samples := set_rpkm_dirs (pipeline_rpkm_dir self) ss\<rparr>, w1))))"

section \<open>Merging the quantification tables\<close>

text \<open>
  \<open>Pipeline.load_rpkms\<close>. The inner loop merges the table of every further sample into
  the table of the first; a further sample without the table makes \<open>pandas.merge\<close> raise.
  The outer loop runs over the table names and indexes \<open>self.samples[0]\<close> in each round.
\<close>

fun merge_next_samples :: "string \<Rightarrow> table \<Rightarrow> Sample list \<Rightarrow> error + table" where
  "merge_next_samples table_name combined_rpkm_table [] = Inr combined_rpkm_table"
| "merge_next_samples table_name combined_rpkm_table (next_sample # rest) =
     (case rpkm_tables next_sample table_name of
        None \<Rightarrow> Inl (TypeError ''cannot merge a table with None'')
      | Some next_sample_rpkm \<Rightarrow>
          merge_next_samples table_name (pandas_merge combined_rpkm_table next_sample_rpkm) rest)"

fun load_rpkms_loop ::
  "Sample list \<Rightarrow> string list \<Rightarrow> (string \<Rightarrow> table option) \<Rightarrow> error + (string \<Rightarrow> table option)" where
  "load_rpkms_loop ss [] acc = Inr acc"
| "load_rpkms_loop ss (table_name # names) acc =
     (case ss of
        [] \<Rightarrow> Inl IndexError
      | curr_sample # next_samples \<Rightarrow>
          (case rpkm_tables curr_sample table_name of
             None \<Rightarrow> load_rpkms_loop ss names acc
           | Some first_table \<Rightarrow>
               if length ss = 1 then load_rpkms_loop ss names (acc(table_name := Some first_table))
               else (case merge_next_samples table_name first_table next_samples of
                       Inl e \<Rightarrow> Inl e
                     | Inr combined_rpkm_table \<Rightarrow>
                         load_rpkms_loop ss names (acc(table_name := Some combined_rpkm_table)))))"

definition load_rpkms :: "externals \<Rightarrow> Pipeline \<Rightarrow> error + Pipeline" where
  "load_rpkms ext self =
     (let ss = map (\<lambda>sample. sample\<lparr>rpkm_tables := load_sample_rpkms ext sample\<rparr>) (samples self)
      in case load_rpkms_loop ss (rpkm_table_names self) (\<lambda>name. None) of
           Inl e \<Rightarrow> Inl e
         | Inr tables \<Rightarrow> Inr (self\<lparr>samples := ss, pipeline_rpkm_tables := tables\<rparr>))"

definition table_keys :: "table \<Rightarrow> key set" where
  "table_keys t = fst ` set (rows t)"

section \<open>Preprocessing the reads\<close>

text \<open>\<open>open(p, "r").read()\<close>.\<close>

definition read_text :: "externals \<Rightarrow> filesystem \<Rightarrow> path \<Rightarrow> error + string" where
  "read_text ext f p =
     (case f p of
        Some (TextFile t) \<Rightarrow> Inr t
      | Some (BamFile b) \<Rightarrow> Inr (bam_text ext b)
      | Some Directory \<Rightarrow> Inl (IOError p)
      | None \<Rightarrow> Inl (IOError p))"

text \<open>\<open>"%s" % x\<close> for a value that may be \<open>None\<close>.\<close>

definition str_opt :: "string option \<Rightarrow> string" where
  "str_opt x = (case x of None \<Rightarrow> ''None'' | Some s \<Rightarrow> s)"

text \<open>\<open>clip_utils.trim_clip_adaptors\<close> (\<open>clip/clip_utils.py\<close>).\<close>

definition trim_clip_adaptors ::
  "externals \<Rightarrow> path \<Rightarrow> path option \<Rightarrow> path \<Rightarrow> int \<Rightarrow> world \<Rightarrow> error + path \<times> world" where
  "trim_clip_adaptors ext fastq_filename adaptors_fname output_dir min_read_len w =
     (let w1 = logger_info (''Trimming CLIP adaptors from: '' @ fastq_filename) w;
          cutadapt_path = which ext ''cutadapt'';
          w2 = (if cutadapt_path = None
                then logger_critical
                       (''Could not find '' @ [CHR 0x27] @ ''cutadapt'' @ [CHR 0x27] @ '' on the path. ''
                        @ ''Please install '' @ [CHR 0x27] @ ''cutadapt'' @ [CHR 0x27]
                        @ '' or make the installed version available on path.'') w1
                else w1);
          output_basename = trim_fastq_ext ext (basename fastq_filename);
          output_filename = join output_dir (output_basename @ ''_trimmed.fastq.gz'')
      in if isfile (fs w2) output_filename then
           Inr (output_filename,
                logger_info (''SKIPPING: '' @ output_filename @ '' already exists!'') w2)
         else
           (let w3 = logger_info (''  - Outputting trimmed sequences to: '' @ output_filename) w2
            in case adaptors_fname of
                 None \<Rightarrow> Inl (TypeError ''isfile(None)'')
               | Some adaptors_file \<Rightarrow>
                   if \<not> isfile (fs w3) adaptors_file then Inl (SystemExit 1)
                   else
                     (case read_text ext (fs w3) adaptors_file of
                        Inl e \<Rightarrow> Inl e
                      | Inr txt \<Rightarrow>
                          (let adaptors = replace (strip txt) [CHR 0x0A] '' '';
                               cutadapt_cmd =
                                 str_opt cutadapt_path @ '' '' @ adaptors @ '' '' @ fastq_filename
                                 @ '' -o '' @ output_filename @ '' -m '' @ show_int min_read_len
                                 @ '' > '' @ output_filename @ ''.log'';
                               w4 = logger_info (''Executing: '' @ cutadapt_cmd) w3;
                               w5 = os_system (shell ext) cutadapt_cmd w4
                           in Inr (output_filename, w5)))))"

text \<open>
  \<open>Pipeline.preprocess_reads\<close>. Reading \<open>sample.rawdata.seq_filename\<close> raises
  \<open>AttributeError\<close> when the raw data is a list. Arguments are evaluated from left to
  right, before the call.
\<close>

definition preprocess_reads ::
  "externals \<Rightarrow> Pipeline \<Rightarrow> Sample \<Rightarrow> world \<Rightarrow> error + Sample \<times> world" where
  "preprocess_reads ext self sample w =
     (case Sample_repr sample of
        Inl e \<Rightarrow> Inl e
      | Inr repr \<Rightarrow>
     (let w1 = logger_info (''Preprocessing: '' @ repr) w
      in if sample_type sample = Some ''riboseq'' then
           (let w2 = logger_info ''Trimming polyAs..'' w1
            in case rawdata sample of
                 Group rs \<Rightarrow> Inl (AttributeError ''seq_filename'')
               | Single rd \<Rightarrow>
                   (case pipeline_outdirs self ''rawdata'' of
                      None \<Rightarrow> Inl (KeyError ''rawdata'')
                    | Some outdir \<Rightarrow>
                        (case trim_polyA_ends ext (seq_filename rd) outdir w2 of
                           Inl e \<Rightarrow> Inl e
                         | Inr (trimmed_filename, w3) \<Rightarrow>
                             Inr (sample\<lparr>rawdata := Single (rd\<lparr>reads_filename := trimmed_filename\<rparr>)\<rparr>,
                                  w3))))
         else if sample_type sample = Some ''clipseq'' then
           (case check_clip_utils ext w1 of
              Inl e \<Rightarrow> Inl e
            | Inr w2 \<Rightarrow>
                (case rawdata sample of
                   Group rs \<Rightarrow> Inl (AttributeError ''seq_filename'')
                 | Single rd \<Rightarrow>
                     (case pipeline_outdirs self ''rawdata'' of
                        None \<Rightarrow> Inl (KeyError ''rawdata'')
                      | Some outdir \<Rightarrow>
                          (case trim_clip_adaptors ext (seq_filename rd) (adaptors_filename self)
                                  outdir 5 w2 of
                             Inl e \<Rightarrow> Inl e
                           | Inr (trimmed_filename, w3) \<Rightarrow>
                               (let rd1 = rd\<lparr>reads_filename := trimmed_filename\<rparr>
                                in case collapse_clip_reads ext (sample\<lparr>rawdata := Single rd1\<rparr>)
                                          outdir w3 of
                                     Inl e \<Rightarrow> Inl e
                                   | Inr (collapsed, w4) \<Rightarrow>
                                       (let rd2 = rd1\<lparr>collapsed_seq_filename := Some collapsed\<rparr>;
                                            w5 = logger_info (''Collapsed reads filename: '' @ collapsed) w4
                                        in Inr (sample\<lparr>rawdata := Single (rd2\<lparr>reads_filename := collapsed\<rparr>)\<rparr>,
                                                w5)))))))
         else
           Inr (sample,
                logger_info (''Do not know how to pre-process type '' @ str_opt (sample_type sample)
                             @ '' samples'') w1)))"

section \<open>Post-processing the alignment files\<close>

text \<open>\<open>Pipeline.rmdups_bam\<close>.\<close>

definition rmdups_bam :: "externals \<Rightarrow> path \<Rightarrow> path \<Rightarrow> world \<Rightarrow> path \<times> world" where
  "rmdups_bam ext bam_fname output_dir w =
     (let input_basename = basename bam_fname;
          output_basename0 = replace input_basename ''.bam'' [];
          w1 = logger_info (''Removing .sorted. from '' @ input_basename) w;
          output_basename = replace output_basename0 ''.sorted.'' [];
          w2 = logger_info ''Removing duplicates from BAM..'' w1;
          rmdups_fname = join output_dir (output_basename @ ''.rmdups.bam'')
      in if isfile (fs w2) rmdups_fname then
           (rmdups_fname,
            logger_info (rmdups_fname @ '' exists, skipping duplication removal.'') w2)
         else
           (let w3 = logger_info (''  Input: '' @ bam_fname) w2;
                w4 = logger_info (''  Output: '' @ rmdups_fname) w3;
                rmdup_cmd = ''samtools rmdup -s '' @ bam_fname @ '' '' @ rmdups_fname;
                w5 = logger_info (''  Executing: '' @ rmdup_cmd) w4;
                w6 = os_system (shell ext) rmdup_cmd w5
            in (rmdups_fname, w6)))"

text \<open>\<open>Pipeline.index_bam\<close> and \<open>Pipeline.sort_and_index_bam\<close>.\<close>

definition index_bam :: "externals \<Rightarrow> path \<Rightarrow> world \<Rightarrow> world" where
  "index_bam ext bam_fname w =
     (let index_cmd = ''samtools index '' @ bam_fname;
          index_filename = bam_fname @ ''.bai'';
          w1 = logger_info (''Indexing '' @ bam_fname) w
      in if \<not> isfile (fs w1) index_filename then os_system (shell ext) index_cmd w1 else w1)"

definition sort_and_index_bam :: "externals \<Rightarrow> path \<Rightarrow> world \<Rightarrow> path \<times> world" where
  "sort_and_index_bam ext bam_fname w =
     (let w1 = logger_info (''Sort and indexing BAM: '' @ bam_fname) w;
          bam_basename = before_sep ''.bam'' (basename bam_fname);
          sorted_bam_filename = join (dirname bam_fname) (bam_basename @ ''.sorted'');
          w2 = logger_info (''Sorting '' @ bam_fname @ '' as '' @ sorted_bam_filename) w1;
          sort_cmd = ''samtools sort '' @ bam_fname @ '' '' @ sorted_bam_filename;
          expected_bam_filename = sorted_bam_filename @ ''.bam'';
          w3 = (if \<not> isfile (fs w2) expected_bam_filename
                then os_system (shell ext) sort_cmd w2 else w2);
          w4 = index_bam ext expected_bam_filename w3
      in (expected_bam_filename, w4))"

subsection \<open>Uniquely mapped reads\<close>

text \<open>
  \<open>("NH", 1) in read.tags\<close>: some tag of the record equals the pair, by Python's \<open>==\<close>, for
  which the float \<open>1.0\<close> equals the integer \<open>1\<close> and no text does.
\<close>

definition py_eq_int :: "tagval \<Rightarrow> int \<Rightarrow> bool" where
  "py_eq_int v n = (case v of TagInt i \<Rightarrow> i = n | TagFloat x \<Rightarrow> x = of_int n | TagStr s \<Rightarrow> False)"

definition has_NH_1 :: "aligned_read \<Rightarrow> bool" where
  "has_NH_1 r = list_ex (\<lambda>tv. fst tv = ''NH'' \<and> py_eq_int (snd tv) 1) (tags r)"

text \<open>The loop of \<open>get_unique_reads\<close> over the records, with the counter \<open>num_unique\<close>.\<close>

fun unique_loop :: "path \<Rightarrow> aligned_read list \<Rightarrow> filesystem \<times> nat \<Rightarrow> filesystem \<times> nat" where
  "unique_loop out [] st = st"
| "unique_loop out (r # rs) (f, num_unique) =
     (if has_NH_1 r then unique_loop out rs (Samfile_write f out r, num_unique + 1)
      else unique_loop out rs (f, num_unique))"

text \<open>
  \<open>Pipeline.get_unique_reads\<close>. A sample whose \<open>bam_filename\<close> or \<open>processed_bam_dir\<close>
  is still \<open>None\<close> makes the path functions raise.
\<close>

definition get_unique_reads :: "Sample \<Rightarrow> world \<Rightarrow> error + path \<times> world" where
  "get_unique_reads sample w =
     (let w1 = logger_info (''Getting unique reads for '' @ label sample) w
      in case bam_filename sample of
           None \<Rightarrow> Inl (TypeError ''isfile(None)'')
         | Some bam_fname \<Rightarrow>
             if \<not> isfile (fs w1) bam_fname then Inl (SystemExit 1)
             else
               (case Samfile_rb (fs w1) bam_fname of
                  Inl e \<Rightarrow> Inl e
                | Inr mapped_reads \<Rightarrow>
                    (let w2 = (if \<not> endswith bam_fname ''.bam''
                               then logger_critical (''BAM '' @ bam_fname @ '' file does not end in .bam'') w1
                               else w1);
                         bam_basename = basename bam_fname
                     in case processed_bam_dir sample of
                          None \<Rightarrow> Inl (AttributeError ''endswith'')
                        | Some dir \<Rightarrow>
                            (let unique_fname =
                                   join dir (take (length bam_basename - 4) bam_basename @ ''.unique.bam'');
                                 w3 = logger_info (''Getting unique reads for '' @ label sample) w2;
                                 w4 = logger_info (''  - Output file: '' @ unique_fname) w3
                             in if \<not> isfile (fs w4) unique_fname then
                                  (case Samfile_wb (fs w4) unique_fname mapped_reads of
                                     Inl e \<Rightarrow> Inl e
                                   | Inr f0 \<Rightarrow>
                                       (let (f1, num_unique) =
                                              unique_loop unique_fname (sf_reads mapped_reads) (f0, 0);
                                            w5 = w4\<lparr>fs := f1\<rparr>;
                                            w6 = (if num_unique = 0
                                                  then logger_warning (''No unique reads found in '' @ bam_fname) w5
                                                  else w5)
                                        in Inr (unique_fname, w6)))
                                else
                                  Inr (unique_fname,
                                       logger_info (''Found '' @ unique_fname @ ''. Skipping..'') w4)))))"

subsection \<open>Reads off the excluded reference\<close>

text \<open>
  The first loop of \<open>get_ribosub_bam_reads\<close> fills the dictionary \<open>ribo_read_ids\<close> (an
  association list with one entry for each key); the second writes every record whose
  query name is not a key.
\<close>

fun collect_ribo_read_ids :: "aligned_read list \<Rightarrow> (string \<times> bool) list \<Rightarrow> (string \<times> bool) list" where
  "collect_ribo_read_ids [] ribo_read_ids = ribo_read_ids"
| "collect_ribo_read_ids (ribo_read # rest) ribo_read_ids =
     collect_ribo_read_ids rest (AList.update (qname ribo_read) True ribo_read_ids)"

fun ribosub_loop :: "(string \<times> bool) list \<Rightarrow> path \<Rightarrow> aligned_read list \<Rightarrow> filesystem \<Rightarrow> filesystem" where
  "ribosub_loop ribo_read_ids out [] f = f"
| "ribosub_loop ribo_read_ids out (r # rs) f =
     (if map_of ribo_read_ids (qname r) \<noteq> None then ribosub_loop ribo_read_ids out rs f
      else ribosub_loop ribo_read_ids out rs (Samfile_write f out r))"

text \<open>
  \<open>Pipeline.get_ribosub_bam_reads\<close>. The input file is opened first; whether the output
  exists is asked afterwards.
\<close>

definition get_ribosub_bam_reads :: "Sample \<Rightarrow> string \<Rightarrow> world \<Rightarrow> error + path \<times> world" where
  "get_ribosub_bam_reads sample chr_ribo w =
     (let w1 = logger_info (''Getting rRNA-subtracted BAM file for '' @ label sample) w
      in case bam_filename sample of
           None \<Rightarrow> Inl (TypeError ''Samfile(None)'')
         | Some bam_fname \<Rightarrow>
             (case Samfile_rb (fs w1) bam_fname of
                Inl e \<Rightarrow> Inl e
              | Inr mapped_reads \<Rightarrow>
                  (let w2 = (if \<not> endswith bam_fname ''.bam''
                             then logger_critical (''BAM '' @ bam_fname @ '' file does not end in .bam'') w1
                             else w1);
                       bam_basename = basename bam_fname
                   in case processed_bam_dir sample of
                        None \<Rightarrow> Inl (AttributeError ''endswith'')
                      | Some dir \<Rightarrow>
                          (let ribosub_fname =
                                 join dir (take (length bam_basename - 4) bam_basename @ ''.ribosub.bam'');
                               w3 = logger_info (''Getting rRNA-subtracted reads for '' @ label sample) w2;
                               w4 = logger_info (''  - Output file: '' @ ribosub_fname) w3
                           in if \<not> isfile (fs w4) ribosub_fname then
                                (case fetch mapped_reads chr_ribo of
                                   Inl e \<Rightarrow> Inl e
                                 | Inr ribo_reads \<Rightarrow>
                                     (let ribo_read_ids = collect_ribo_read_ids ribo_reads [];
                                          num_ribo_reads = length ribo_read_ids;
                                          w5 = (if num_ribo_reads = 0
                                                then logger_warning
                                                       (''Could not find any rRNA mapping reads in '' @ bam_fname) w4
                                                else logger_info (''  - Subtracted BAM: '' @ ribosub_fname)
                                                       (logger_info
                                                          (''Subtracting '' @ show_nat num_ribo_reads
                                                           @ '' rRNA reads from '' @ bam_fname) w4))
                                      in case Samfile_wb (fs w5) ribosub_fname mapped_reads of
                                           Inl e \<Rightarrow> Inl e
                                         | Inr f0 \<Rightarrow>
                                             Inr (ribosub_fname,
                                                  w5\<lparr>fs := ribosub_loop ribo_read_ids ribosub_fname
                                                               (sf_reads mapped_reads) f0\<rparr>)))
                              else
                                Inr (ribosub_fname,
                                     logger_info (''Found '' @ ribosub_fname @ ''. Skipping..'') w4)))))"

section \<open>The scheduler interface (\<open>cluster_utils/Mysge.py\<close>)\<close>

subsection \<open>\<open>waitUntilDone\<close>\<close>

text \<open>
  The scheduler is outside the program. \<open>sched n cmd\<close> is what the \<open>n\<close>-th subprocess
  started by the loop (counting from 0) prints when it runs \<open>cmd\<close>: the pair of its standard
  output and standard error, as \<open>communicate()\<close> returns it. The loop has no exit but the
  \<open>break\<close>, so it is a partial function: \<open>None\<close> is the loop that never returns. The state
  counts the polls made and the seconds slept.
\<close>

record poll_state =
  polls :: nat
  slept :: nat

definition job_gone :: "string \<times> string \<Rightarrow> bool" where
  "job_gone output = contains ''Following jobs do not exist:'' (snd output)"

partial_function (option) wait_loop ::
  "(nat \<Rightarrow> string \<Rightarrow> string \<times> string) \<Rightarrow> int \<Rightarrow> nat \<Rightarrow> poll_state \<Rightarrow> poll_state option" where
  "wait_loop sched jobID sleep st =
     (if job_gone (sched (polls st) (''qstat -j '' @ show_int jobID))
      then Some (st\<lparr>polls := polls st + 1\<rparr>)
      else wait_loop sched jobID sleep (st\<lparr>polls := polls st + 1, slept := slept st + sleep\<rparr>))"

definition waitUntilDone ::
  "(nat \<Rightarrow> string \<Rightarrow> string \<times> string) \<Rightarrow> int \<Rightarrow> nat \<Rightarrow> poll_state option" where
  "waitUntilDone sched jobID sleep = wait_loop sched jobID sleep \<lparr>polls = 0, slept = 0\<rparr>"

text \<open>
  A scheduler that lists the job at the first \<open>k\<close> polls and no longer afterwards, and one
  that lists it at every poll.
\<close>

definition present_for :: "nat \<Rightarrow> nat \<Rightarrow> string \<Rightarrow> string \<times> string" where
  "present_for k n cmd =
     (if n < k then (''job_number: 7'', '''') else ('''', ''Following jobs do not exist: 7''))"

definition always_present :: "nat \<Rightarrow> string \<Rightarrow> string \<times> string" where
  "always_present n cmd = (''job_number: 7'', '''')"

subsection \<open>\<open>launchJob\<close>\<close>

text \<open>
  What \<open>launchJob\<close> asks of its process and of the scheduler: the working directory, the
  program name \<open>sys.argv[0]\<close>, the user, the process id, and \<open>qsub call\<close>, the pair of
  standard output and standard error that the submission command \<open>call\<close> prints.
\<close>

record job_env =
  getcwd :: string
  argv0 :: string
  getuser :: string
  getpid :: nat
  qsub :: "string \<Rightarrow> string \<times> string"

definition setdefault :: "(string \<rightharpoonup> string) \<Rightarrow> string \<Rightarrow> string \<Rightarrow> (string \<rightharpoonup> string)" where
  "setdefault d k v = (case d k of None \<Rightarrow> d(k \<mapsto> v) | Some old \<Rightarrow> d)"

definition getitem :: "(string \<rightharpoonup> string) \<Rightarrow> string \<Rightarrow> error + string" where
  "getitem d k = (case d k of None \<Rightarrow> Inl (KeyError k) | Some v \<Rightarrow> Inr v)"

text \<open>The job script: the template filled from the options, line by line.\<close>

definition script_text :: "string \<Rightarrow> string \<Rightarrow> string \<Rightarrow> string \<Rightarrow> string \<Rightarrow> string" where
  "script_text jobname ppn outdir workingdir command =
     join_with [CHR 0x0A]
       [''#!/bin/bash'',
        '''',
        ''#$ -N '' @ jobname,
        ''#$ -S /bin/bash '',
        ''##$ -pe '' @ ppn,
        ''#$ -V '',
        ''#$ -j y'',
        ''#$ -cwd'',
        ''#$ -o '' @ outdir,
        '''',
        ''echo $HOSTNAME'',
        ''echo Working directory is '' @ workingdir,
        ''cd '' @ workingdir,
        '''',
        ''echo '' @ [CHR 0x22] @ command @ [CHR 0x22],
        command,
        ''echo '' @ [CHR 0x22] @ ''===== '' @ command @ '' finished ====='' @ [CHR 0x22] @ '' '']"

definition job_script :: "(string \<rightharpoonup> string) \<Rightarrow> error + string" where
  "job_script d =
     (case getitem d ''jobname'' of Inl e \<Rightarrow> Inl e | Inr jobname \<Rightarrow>
      case getitem d ''ppn'' of Inl e \<Rightarrow> Inl e | Inr ppn \<Rightarrow>
      case getitem d ''outdir'' of Inl e \<Rightarrow> Inl e | Inr outdir \<Rightarrow>
      case getitem d ''workingdir'' of Inl e \<Rightarrow> Inl e | Inr workingdir \<Rightarrow>
      case getitem d ''command'' of Inl e \<Rightarrow> Inl e | Inr command \<Rightarrow>
        Inr (script_text jobname ppn outdir workingdir command))"

text \<open>
  The answer of the scheduler is read as the source reads it: it must start with
  \<open>Your job \<close>, and the third of its fields separated by single blanks is given to
  \<open>int\<close>, which raises \<open>ValueError\<close> on anything but a number.
\<close>

definition parse_qsub_output :: "string \<Rightarrow> string \<Rightarrow> error + int" where
  "parse_qsub_output outscriptName out =
     (if startswith out ''Your job '' then
        (case split_char CHR '' '' out of
           f0 # f1 # f2 # others \<Rightarrow>
             (case py_int f2 of
                None \<Rightarrow> Inl (ValueError f2)
              | Some jobID \<Rightarrow> Inr jobID)
         | _ \<Rightarrow> Inl IndexError)
      else Inl (Exception (''Failed to launch job '' @ outscriptName)))"

text \<open>
  \<open>launchJob\<close>. The command is the list of its words (one text alone is the list of that
  text). What is printed to the terminal is left out, and with it the flag \<open>verbose\<close>.
  With \<open>test\<close> set nothing is submitted and the result is \<open>None\<close>. The options after the
  calls of \<open>setdefault\<close> and the assignment of \<open>command\<close> are \<open>default_options\<close>.
\<close>

definition default_options ::
  "job_env \<Rightarrow> string list \<Rightarrow> (string \<rightharpoonup> string) \<Rightarrow> string \<Rightarrow> (string \<rightharpoonup> string)" where
  "default_options env cmd scriptOptions queue_type =
     (let so1 = setdefault scriptOptions ''workingdir'' (getcwd env);
          so2 = setdefault so1 ''nodes'' ''1'';
          so3 = setdefault so2 ''ppn'' ''1'';
          so4 = setdefault so3 ''jobname'' (basename (argv0 env));
          so5 = setdefault so4 ''scriptuser'' (getuser env);
          so6 = setdefault so5 ''queue'' queue_type;
          so7 = setdefault so6 ''outdir'' []
      in so7(''command'' \<mapsto> join_with '' '' cmd))"

definition launchJob ::
  "job_env \<Rightarrow> string list \<Rightarrow> (string \<rightharpoonup> string) \<Rightarrow> bool \<Rightarrow> bool \<Rightarrow> string \<Rightarrow> world
     \<Rightarrow> error + int option \<times> world" where
  "launchJob env cmd scriptOptions test fast queue_type w =
     (let so8 = default_options env cmd scriptOptions queue_type
      in case getitem so8 ''jobname'' of Inl e \<Rightarrow> Inl e | Inr jobname \<Rightarrow>
         (let outscriptName = jobname @ ''.'' @ show_nat (getpid env)
          in case (if fast then
                     (case getitem so8 ''nodes'' of
                        Inl e \<Rightarrow> Inl e
                      | Inr nodes \<Rightarrow>
                          if nodes = ''1'' then Inr (so8(''nodes'' \<mapsto> ''1:E5450''))
                          else Inl (AssertionError ''Can only choose specific nodes''))
                   else Inr so8) of
               Inl e \<Rightarrow> Inl e
             | Inr so9 \<Rightarrow>
         (case job_script so9 of Inl e \<Rightarrow> Inl e | Inr outtext \<Rightarrow>
          case getitem so9 ''outdir'' of Inl e \<Rightarrow> Inl e | Inr outdir \<Rightarrow>
         (let tmpScriptPath = join outdir outscriptName
          in case write_text (fs w) tmpScriptPath outtext of Inl e \<Rightarrow> Inl e | Inr f1 \<Rightarrow>
         (let w1 = w\<lparr>fs := f1\<rparr>;
              call = ''qsub '' @ tmpScriptPath
          in if \<not> test then
               (let output = qsub env call;
                    w2 = w1\<lparr>cmds := cmds w1 @ [call]\<rparr>
                in case parse_qsub_output outscriptName (fst output) of
                     Inl e \<Rightarrow> Inl e
                   | Inr jobID \<Rightarrow> Inr (Some jobID, w2))
             else Inr (None, w1))))))"

text \<open>
  Names for what \<open>launchJob\<close> computes on the way, to state its properties: the name and
  the path of the job script (\<open>outscriptName\<close>, \<open>tmpScriptPath\<close>) as they follow from the
  options the caller gave, and the job id of an acknowledgment of the form
  \<open>Your job <digits>\<close> followed by a blank or by nothing.
\<close>

definition job_script_name :: "job_env \<Rightarrow> (string \<rightharpoonup> string) \<Rightarrow> string" where
  "job_script_name env scriptOptions =
     (case scriptOptions ''jobname'' of None \<Rightarrow> basename (argv0 env) | Some j \<Rightarrow> j)
     @ ''.'' @ show_nat (getpid env)"

definition job_script_path :: "job_env \<Rightarrow> (string \<rightharpoonup> string) \<Rightarrow> path" where
  "job_script_path env scriptOptions =
     join (case scriptOptions ''outdir'' of None \<Rightarrow> [] | Some d \<Rightarrow> d)
          (job_script_name env scriptOptions)"

definition ack_job_id :: "string \<Rightarrow> int option" where
  "ack_job_id out =
     (if startswith out ''Your job '' then
        (let ds = takeWhile (\<lambda>c. c \<noteq> CHR '' '') (drop 9 out)
         in if ds \<noteq> [] \<and> list_all is_digit ds then Some (int (digits_val 0 ds)) else None)
      else None)"

text \<open>A scheduler that acknowledges every submission as job 4242.\<close>

definition ack_env :: job_env where
  "ack_env = \<lparr>getcwd = ''/home/u'', argv0 = ''/opt/run_pipeline.py'', getuser = ''u'', getpid = 31,
              qsub = (\<lambda>call. (''Your job 4242 (pipeline_run_s1) has been submitted'', ''''))\<rparr>"

definition empty_world :: world where
  "empty_world = \<lparr>fs = Map.empty, logged = [], cmds = []\<rparr>"

text \<open>\<open>type(rawdata) == list\<close>, and the object whose type a sample takes.\<close>

fun is_list :: "rawdata \<Rightarrow> bool" where
  "is_list (Group rs) = True"
| "is_list (Single r) = False"

text \<open>
  A pipeline in single-end mode whose manifest names one sequence file, \<open>reads/s1.fastq\<close>
  with label \<open>s1\<close>, and a file system that holds this file.
\<close>

definition rnaseq_settings :: settings where
  "rnaseq_settings =
     [''pipeline'' \<mapsto> [''data_type'' \<mapsto> ''rnaseq''], ''mapping'' \<mapsto> [''paired'' \<mapsto> '''']]"

definition one_sample_pipeline :: Pipeline where
  "one_sample_pipeline =
     \<lparr>pipeline_settings_info = rnaseq_settings, is_paired_end = False,
      sequence_filenames = [(''reads/s1.fastq'', ''s1'')], sample_groups = None,
      sample_to_group = [], group_to_samples = [], samples = [], adaptors_filename = None,
      pipeline_outdirs = [''rawdata'' \<mapsto> ''out/rawdata''], pipeline_rpkm_dir = ''out/analysis/rpkm'',
      rpkm_table_names = [], pipeline_rpkm_tables = (\<lambda>name. None)\<rparr>"

definition one_sample_world :: world where
  "one_sample_world = \<lparr>fs = [''reads/s1.fastq'' \<mapsto> TextFile ''@r1''], logged = [], cmds = []\<rparr>"

definition s1_rawdata :: SampleRawdata where
  "s1_rawdata =
     \<lparr>label_rd = ''s1'', seq_filename = ''reads/s1.fastq'', reads_filename = ''reads/s1.fastq'',
      settings_info = Some rnaseq_settings, sample_type_rd = Some ''rnaseq'',
      collapsed_seq_filename = None\<rparr>"

text \<open>
  Names to state the properties of the post-processing functions: the path of a file
  derived from an alignment file (its base name without the last four characters, with a
  new ending, in the directory of processed files), whether a query has a record on a
  reference anywhere in a list of records, and the warnings among the logged messages.
\<close>

definition processed_path :: "path \<Rightarrow> path \<Rightarrow> string \<Rightarrow> path" where
  "processed_path dir bam_fname ending =
     join dir (take (length (basename bam_fname) - 4) (basename bam_fname) @ ending)"

definition aligns_to :: "aligned_read list \<Rightarrow> string \<Rightarrow> string \<Rightarrow> bool" where
  "aligns_to rs chr q = list_ex (\<lambda>r. qname r = q \<and> rname r = Some chr) rs"

definition warnings :: "world \<Rightarrow> string list" where
  "warnings w = map snd (filter (\<lambda>entry. fst entry = WARNING) (logged w))"

text \<open>
  A mapped sample \<open>s1\<close> and two alignment files for it: one with five records of
  multiplicities 1, 1, 2, 3, 1, and one in which query \<open>Q1\<close> has a record on \<open>chrRibo\<close> and
  one on \<open>chr1\<close> and query \<open>Q2\<close> has records on \<open>chr1\<close> and \<open>chr2\<close> only. The world of an
  alignment file holds it, with its index, as the file of the sample.
\<close>

definition mk_read :: "string \<Rightarrow> string \<Rightarrow> int \<Rightarrow> int \<Rightarrow> aligned_read" where
  "mk_read q chr p nh =
     \<lparr>qname = q, rname = Some chr, pos = p, tags = [(''NM'', TagInt 0), (''NH'', TagInt nh)]\<rparr>"

definition mapped_sample :: Sample where
  "mapped_sample =
     \<lparr>label = ''s1'', rawdata = Single s1_rawdata, paired = False, sample_type = Some ''rnaseq'',
      bowtie_filename = None, tophat_filename = None,
      processed_bam_dir = Some ''out/mapping/s1/processed_bams'',
      bam_filename = Some ''out/mapping/s1.bam'', unique_bam_filename = None,
      ribosub_bam_filename = None, rmdups_bam_filename = None,
      rmdups_unique_bam_filename = None, rpkm_dir = None, events_dir = None,
      rpkm_tables = (\<lambda>name. None), group = None\<rparr>"

definition multi_bam :: bam where
  "multi_bam =
     \<lparr>references = [''chr1'', ''chr2'', ''chrRibo''],
      reads = [mk_read ''r1'' ''chr1'' 100 1, mk_read ''r2'' ''chr1'' 150 1, mk_read ''r3'' ''chr1'' 200 2,
               mk_read ''r4'' ''chr2'' 10 3, mk_read ''r5'' ''chr2'' 300 1]\<rparr>"

definition ribo_bam :: bam where
  "ribo_bam =
     \<lparr>references = [''chr1'', ''chr2'', ''chrRibo''],
      reads = [mk_read ''Q1'' ''chrRibo'' 5 2, mk_read ''Q1'' ''chr1'' 100 2,
               mk_read ''Q2'' ''chr1'' 200 2, mk_read ''Q2'' ''chr2'' 300 2]\<rparr>"

definition bam_world :: "bam \<Rightarrow> world" where
  "bam_world b =
     \<lparr>fs = [''out/mapping/s1.bam'' \<mapsto> BamFile b, ''out/mapping/s1.bam.bai'' \<mapsto> TextFile ''BAI''],
      logged = [], cmds = []\<rparr>"

text \<open>
  A world in which the derived files of \<open>s1\<close> exist beside the alignment file, and one in
  which the reference-subtracted file exists but the alignment file is gone.
\<close>

definition processed_world :: "bam \<Rightarrow> world" where
  "processed_world b =
     \<lparr>fs = [''out/mapping/s1.bam'' \<mapsto> BamFile b, ''out/mapping/s1.bam.bai'' \<mapsto> TextFile ''BAI'',
             ''out/mapping/s1/processed_bams/s1.unique.bam'' \<mapsto> BamFile \<lparr>references = references b, reads = []\<rparr>,
             ''out/mapping/s1/processed_bams/s1.ribosub.bam'' \<mapsto> BamFile \<lparr>references = references b, reads = []\<rparr>],
      logged = [], cmds = []\<rparr>"

definition stale_world :: world where
  "stale_world =
     \<lparr>fs = [''out/mapping/s1/processed_bams/s1.ribosub.bam'' \<mapsto> BamFile ribo_bam],
      logged = [], cmds = []\<rparr>"

text \<open>
  Stand-ins for the tools and functions outside these files, for the examples. The shell
  knows four command lines: \<open>samtools rmdup -s in out\<close> and \<open>samtools sort in prefix\<close>
  leave at \<open>out\<close> and at \<open>prefix.bam\<close> what \<open>in\<close> holds, \<open>samtools index in\<close> creates
  \<open>in.bai\<close>, and a command with the option \<open>-o out\<close> creates \<open>out\<close>.
\<close>

fun word_after :: "string \<Rightarrow> string list \<Rightarrow> string option" where
  "word_after opt [] = None"
| "word_after opt [x] = None"
| "word_after opt (x # y # ys) = (if x = opt then Some y else word_after opt (y # ys))"

definition fake_shell :: "string \<Rightarrow> filesystem \<Rightarrow> filesystem" where
  "fake_shell cmd f =
     (let ws = split_char CHR '' '' cmd
      in if length ws = 5 \<and> take 3 ws = [''samtools'', ''rmdup'', ''-s''] then f(ws ! 4 := f (ws ! 3))
         else if length ws = 4 \<and> take 2 ws = [''samtools'', ''sort''] then f(ws ! 3 @ ''.bam'' := f (ws ! 2))
         else if length ws = 3 \<and> take 2 ws = [''samtools'', ''index''] then f(ws ! 2 @ ''.bai'' \<mapsto> TextFile ''BAI'')
         else (case word_after ''-o'' ws of
                 Some out \<Rightarrow> f(out \<mapsto> TextFile ''trimmed reads'')
               | None \<Rightarrow> f))"

text \<open>
  Three samples \<open>a\<close>, \<open>b\<close>, \<open>c\<close> and their tables: \<open>ensGene\<close> has gene \<open>G1\<close> in every
  sample and gene \<open>G2\<close> in \<open>a\<close> and \<open>c\<close> only; \<open>refGene\<close> is missing in \<open>a\<close> alone.
\<close>

definition gene_key :: "string \<Rightarrow> key" where
  "gene_key g = (g, ''chr1:100-200'', ''sym_'' @ g, ''gene '' @ g)"

definition sample_table :: "string \<Rightarrow> string list \<Rightarrow> table" where
  "sample_table lbl genes =
     \<lparr>columns = [''rpkm_'' @ lbl, ''counts_'' @ lbl],
      rows = map (\<lambda>g. (gene_key g, [CellFloat 1, CellInt 7])) genes\<rparr>"

definition three_tables :: "Sample \<Rightarrow> string \<Rightarrow> table option" where
  "three_tables s name =
     (if name = ''ensGene'' then
        Some (sample_table (label s) (if label s = ''b'' then [''G1''] else [''G1'', ''G2'']))
      else if name = ''refGene'' \<and> label s \<noteq> ''a'' then Some (sample_table (label s) [''G1''])
      else None)"

definition fake_tools :: externals where
  "fake_tools =
     \<lparr>shell = fake_shell,
      which = (\<lambda>name. Some (''/usr/bin/'' @ name)),
      trim_fastq_ext = before_sep ''.fastq'',
      bam_text = (\<lambda>b. ''BAM''),
      trim_polyA_ends = (\<lambda>p dir w. Inr (join dir (basename p @ ''.polyA_trimmed''), w)),
      check_clip_utils = (\<lambda>w. Inr w),
      collapse_clip_reads = (\<lambda>s dir w. Inr (join dir (label s @ ''.collapsed.fastq''), w)),
      load_sample_rpkms = three_tables\<rparr>"

definition three_pipeline :: Pipeline where
  "three_pipeline =
     one_sample_pipeline
       \<lparr>samples := [mapped_sample\<lparr>label := ''a''\<rparr>, mapped_sample\<lparr>label := ''b''\<rparr>,
                    mapped_sample\<lparr>label := ''c''\<rparr>],
        rpkm_table_names := [''ensGene'', ''refGene'']\<rparr>"

text \<open>
  Samples of the three types built from one raw sample, a paired ribosome-profiling sample
  built from two, and a pipeline and world for crosslinking data: an adaptors file is
  configured and present.
\<close>

definition ribo_sample :: Sample where
  "ribo_sample =
     mapped_sample\<lparr>rawdata := Single (s1_rawdata\<lparr>sample_type_rd := Some ''riboseq''\<rparr>),
                   sample_type := Some ''riboseq''\<rparr>"

definition clip_sample :: Sample where
  "clip_sample =
     mapped_sample\<lparr>rawdata := Single (s1_rawdata\<lparr>sample_type_rd := Some ''clipseq''\<rparr>),
                   sample_type := Some ''clipseq''\<rparr>"

definition paired_ribo_sample :: Sample where
  "paired_ribo_sample =
     mapped_sample\<lparr>label := ''G1'',
                   rawdata := Group [s1_rawdata\<lparr>label_rd := ''s1_1'', sample_type_rd := Some ''riboseq''\<rparr>,
                                     s1_rawdata\<lparr>label_rd := ''s1_2'', sample_type_rd := Some ''riboseq''\<rparr>],
                   paired := True, sample_type := Some ''riboseq''\<rparr>"

definition clip_pipeline :: Pipeline where
  "clip_pipeline = one_sample_pipeline\<lparr>adaptors_filename := Some ''adaptors.txt''\<rparr>"

definition clip_world :: world where
  "clip_world =
     \<lparr>fs = [''reads/s1.fastq'' \<mapsto> TextFile ''@r1'',
             ''adaptors.txt'' \<mapsto> TextFile ''-a AAAA\<newline>-a CCCC\<newline>''],
      logged = [], cmds = []\<rparr>"

text \<open>
  A paired sample of type \<open>rnaseq\<close> built from two raw samples, and tools whose shell
  commands fail: they leave every file as it is.
\<close>

definition paired_rna_sample :: Sample where
  "paired_rna_sample =
     mapped_sample\<lparr>label := ''G1'',
                   rawdata := Group [s1_rawdata\<lparr>label_rd := ''s1_1''\<rparr>,
                                     s1_rawdata\<lparr>label_rd := ''s1_2''\<rparr>],
                   paired := True\<rparr>"

definition failing_tools :: externals where
  "failing_tools = fake_tools\<lparr>shell := (\<lambda>cmd f. f)\<rparr>"

text \<open>
  A world in which the alignment file of \<open>s1\<close> has its duplicates removed already: the
  target of duplicate removal is there.
\<close>

definition deduplicated_world :: world where
  "deduplicated_world =
     \<lparr>fs = [''out/mapping/s1.bam'' \<mapsto> BamFile multi_bam,
             ''out/mapping/s1/processed_bams/s1.rmdups.bam'' \<mapsto> BamFile multi_bam],
      logged = [], cmds = []\<rparr>"

section \<open>Properties of the polling loop\<close>

text \<open>
  A loop that returns has seen the scheduler report the job gone at some poll; a loop that
  sees the job listed at \<open>k\<close> polls in a row and gone at the next returns there.
\<close>

lemma wait_loop_Some_gone:
  assumes "wait_loop sched jobID sleep st = Some y"
  shows "\<exists>n. job_gone (sched n (''qstat -j '' @ show_int jobID))"
proof (rule wait_loop.raw_induct
    [where P = "\<lambda>sched jobID sleep st y. \<exists>n. job_gone (sched n (''qstat -j '' @ show_int jobID))",
      OF _ assms])
  fix rec_call :: "(nat \<Rightarrow> string \<Rightarrow> string \<times> string) \<Rightarrow> int \<Rightarrow> nat \<Rightarrow> poll_state \<Rightarrow> poll_state option"
  fix sched jobID sleep st y
  assume IH: "\<And>sched jobID sleep st y. rec_call sched jobID sleep st = Some y
                \<Longrightarrow> \<exists>n. job_gone (sched n (''qstat -j '' @ show_int jobID))"
    and body: "(if job_gone (sched (polls st) (''qstat -j '' @ show_int jobID))
                then Some (st\<lparr>polls := polls st + 1\<rparr>)
                else rec_call sched jobID sleep
                       (st\<lparr>polls := polls st + 1, slept := slept st + sleep\<rparr>)) = Some y"
  show "\<exists>n. job_gone (sched n (''qstat -j '' @ show_int jobID))"
  proof (cases "job_gone (sched (polls st) (''qstat -j '' @ show_int jobID))")
    case True
    then show ?thesis by blast
  next
    case False
    with body have "rec_call sched jobID sleep
        (st\<lparr>polls := polls st + 1, slept := slept st + sleep\<rparr>) = Some y"
      by simp
    then show ?thesis by (rule IH)
  qed
qed

lemma wait_loop_stuck:
  assumes stuck: "\<And>n. \<not> job_gone (sched n (''qstat -j '' @ show_int jobID))"
  shows "wait_loop sched jobID sleep st = None"
proof (cases "wait_loop sched jobID sleep st")
  case None
  then show ?thesis .
next
  case (Some y)
  then have "\<exists>n. job_gone (sched n (''qstat -j '' @ show_int jobID))"
    by (rule wait_loop_Some_gone)
  with stuck show ?thesis by blast
qed

lemma wait_loop_after:
  assumes "\<And>n. polls st \<le> n \<Longrightarrow> n < polls st + k \<Longrightarrow> \<not> job_gone (sched n (''qstat -j '' @ show_int jobID))"
      and "job_gone (sched (polls st + k) (''qstat -j '' @ show_int jobID))"
  shows "wait_loop sched jobID sleep st
           = Some \<lparr>polls = polls st + k + 1, slept = slept st + k * sleep\<rparr>"
  using assms
proof (induction k arbitrary: st)
  case 0
  then show ?case by (subst wait_loop.simps) simp
next
  case (Suc k)
  have ng: "\<not> job_gone (sched (polls st) (''qstat -j '' @ show_int jobID))"
    using Suc.prems(1) [of "polls st"] by simp
  let ?st = "st\<lparr>polls := polls st + 1, slept := slept st + sleep\<rparr>"
  have "wait_loop sched jobID sleep ?st
          = Some \<lparr>polls = polls ?st + k + 1, slept = slept ?st + k * sleep\<rparr>"
  proof (rule Suc.IH)
    fix n assume "polls ?st \<le> n" "n < polls ?st + k"
    then show "\<not> job_gone (sched n (''qstat -j '' @ show_int jobID))"
      using Suc.prems(1) [of n] by simp
  next
    show "job_gone (sched (polls ?st + k) (''qstat -j '' @ show_int jobID))"
      using Suc.prems(2) by simp
  qed
  then show ?case using ng by (subst wait_loop.simps) simp
qed

text \<open>
  Claim C5, as amended. The scheduler lists the job at the first two polls and reports it
  gone at the third: \<open>waitUntilDone\<close> returns, raising nothing, after exactly three polls
  (the two that list the job and the one that finds it gone) and two sleeps.
\<close>

theorem waitUntilDone_three_polls:
  assumes "\<not> job_gone (sched 0 (''qstat -j '' @ show_int jobID))"
      and "\<not> job_gone (sched 1 (''qstat -j '' @ show_int jobID))"
      and "job_gone (sched 2 (''qstat -j '' @ show_int jobID))"
  shows "waitUntilDone sched jobID sleep = Some \<lparr>polls = 3, slept = 2 * sleep\<rparr>"
proof -
  let ?st = "\<lparr>polls = 0, slept = 0\<rparr>"
  have "\<not> job_gone (sched n (''qstat -j '' @ show_int jobID))"
    if "polls ?st \<le> n" "n < polls ?st + 2" for n
  proof -
    from that have "n = 0 \<or> n = 1" by auto
    with assms(1,2) show ?thesis by auto
  qed
  moreover have "job_gone (sched (polls ?st + 2) (''qstat -j '' @ show_int jobID))"
    using assms(3) by (simp del: add_2_eq_Suc' add_2_eq_Suc)
  ultimately have "wait_loop sched jobID sleep ?st
      = Some \<lparr>polls = polls ?st + 2 + 1, slept = slept ?st + 2 * sleep\<rparr>"
    by (rule wait_loop_after)
  then show ?thesis by (simp add: waitUntilDone_def)
qed

lemma job_gone_present_for:
  "job_gone (present_for k n cmd) = (k \<le> n)"
  by (simp add: job_gone_def present_for_def startswith_def)

text \<open>The amended claim C5 at the scheduler \<open>present_for 2\<close>, job 7, one second of sleep.\<close>

theorem waitUntilDone_three_polls_witness:
  "\<not> job_gone (present_for 2 0 (''qstat -j '' @ show_int 7))
   \<and> \<not> job_gone (present_for 2 1 (''qstat -j '' @ show_int 7))
   \<and> job_gone (present_for 2 2 (''qstat -j '' @ show_int 7))
   \<and> waitUntilDone (present_for 2) 7 1 = Some \<lparr>polls = 3, slept = 2\<rparr>"
  using waitUntilDone_three_polls [of "present_for 2" 7 1]
  by (simp add: job_gone_present_for)

text \<open>
  Claim C5 as stated fails: with the job listed at exactly two polls, the number of polls
  made when \<open>waitUntilDone\<close> returns is three, not two.
\<close>

theorem waitUntilDone_two_polls_counterexample:
  "map_option polls (waitUntilDone (present_for 2) 7 1) = Some 3
   \<and> map_option polls (waitUntilDone (present_for 2) 7 1) \<noteq> Some 2"
proof -
  have "wait_loop (present_for 2) 7 1 \<lparr>polls = 0, slept = 0\<rparr>
      = Some \<lparr>polls = polls \<lparr>polls = 0, slept = 0\<rparr> + 2 + 1,
               slept = slept \<lparr>polls = 0, slept = 0\<rparr> + 2 * 1\<rparr>"
    by (rule wait_loop_after) (simp_all add: job_gone_present_for)
  then show ?thesis by (simp add: waitUntilDone_def)
qed

text \<open>
  Claim C6. When the scheduler never reports the job gone, \<open>waitUntilDone\<close> does not
  return: the loop has no bound on the number of polls and no other exit.
\<close>

theorem waitUntilDone_blocks_forever:
  assumes "\<And>n. \<not> job_gone (sched n (''qstat -j '' @ show_int jobID))"
  shows "waitUntilDone sched jobID sleep = None"
  unfolding waitUntilDone_def using assms by (rule wait_loop_stuck)

lemma job_gone_always_present: "\<not> job_gone (always_present n cmd)"
  by (simp add: job_gone_def always_present_def)

text \<open>Claim C6 at the scheduler that lists the job at every poll.\<close>

theorem waitUntilDone_blocks_forever_witness:
  "(\<forall>n. \<not> job_gone (always_present n (''qstat -j '' @ show_int 7)))
   \<and> waitUntilDone always_present 7 1 = None"
  using waitUntilDone_blocks_forever [of always_present 7 1]
  by (simp add: job_gone_always_present)

section \<open>Properties of job submission\<close>

text \<open>
  The options after the defaults, key by key; with them the job script is always produced,
  and \<open>launchJob\<close> without \<open>test\<close> is the submission followed by the reading of the
  scheduler's answer.
\<close>

lemma setdefault_apply:
  "setdefault d k v k' = (if k' = k then Some (case d k of None \<Rightarrow> v | Some old \<Rightarrow> old) else d k')"
  by (simp add: setdefault_def split: option.splits)

lemma default_options_jobname:
  "default_options env cmd so q ''jobname''
     = Some (case so ''jobname'' of None \<Rightarrow> basename (argv0 env) | Some j \<Rightarrow> j)"
  by (simp add: default_options_def setdefault_apply)

lemma default_options_outdir:
  "default_options env cmd so q ''outdir'' = Some (case so ''outdir'' of None \<Rightarrow> [] | Some d \<Rightarrow> d)"
  by (simp add: default_options_def setdefault_apply)

lemma default_options_nodes:
  "default_options env cmd so q ''nodes'' = Some (case so ''nodes'' of None \<Rightarrow> ''1'' | Some d \<Rightarrow> d)"
  by (simp add: default_options_def setdefault_apply)

lemma default_options_ppn:
  "default_options env cmd so q ''ppn'' = Some (case so ''ppn'' of None \<Rightarrow> ''1'' | Some d \<Rightarrow> d)"
  by (simp add: default_options_def setdefault_apply)

lemma default_options_workingdir:
  "default_options env cmd so q ''workingdir'' = Some (case so ''workingdir'' of None \<Rightarrow> getcwd env | Some d \<Rightarrow> d)"
  by (simp add: default_options_def setdefault_apply)

lemma default_options_command:
  "default_options env cmd so q ''command'' = Some (join_with '' '' cmd)"
  by (simp add: default_options_def)

lemmas default_options_simps = default_options_jobname default_options_outdir default_options_nodes
  default_options_ppn default_options_workingdir default_options_command

lemma job_script_default_options:
  "\<exists>script. job_script (default_options env cmd so q) = Inr script"
  by (simp add: job_script_def getitem_def default_options_simps)

lemma job_script_fast_options:
  "\<exists>script. job_script ((default_options env cmd so q)(''nodes'' \<mapsto> v)) = Inr script"
  by (simp add: job_script_def getitem_def default_options_simps)

lemma launchJob_submit:
  assumes nodes: "fast \<longrightarrow> scriptOptions ''nodes'' = None \<or> scriptOptions ''nodes'' = Some ''1''"
      and nodir: "fs w (job_script_path env scriptOptions) \<noteq> Some Directory"
  shows "\<exists>f1. launchJob env cmd scriptOptions False fast queue_type w =
           (case parse_qsub_output (job_script_name env scriptOptions)
                   (fst (qsub env (''qsub '' @ job_script_path env scriptOptions))) of
              Inl e \<Rightarrow> Inl e
            | Inr jobID \<Rightarrow>
                Inr (Some jobID,
                     w\<lparr>fs := f1, cmds := cmds w @ [''qsub '' @ job_script_path env scriptOptions]\<rparr>))"
proof -
  let ?so8 = "default_options env cmd scriptOptions queue_type"
  let ?so9 = "if fast then ?so8(''nodes'' \<mapsto> ''1:E5450'') else ?so8"
  obtain script where script: "job_script ?so9 = Inr script"
    using job_script_default_options [of env cmd scriptOptions queue_type]
      job_script_fast_options [of env cmd scriptOptions queue_type]
    by (cases fast) auto
  have outdir: "getitem ?so9 ''outdir''
      = Inr (case scriptOptions ''outdir'' of None \<Rightarrow> [] | Some d \<Rightarrow> d)"
    by (simp add: getitem_def default_options_simps)
  have nodes9: "(if fast then
                     (case getitem ?so8 ''nodes'' of
                        Inl e \<Rightarrow> Inl e
                      | Inr nodes \<Rightarrow>
                          if nodes = ''1'' then Inr (?so8(''nodes'' \<mapsto> ''1:E5450''))
                          else Inl (AssertionError ''Can only choose specific nodes''))
                   else Inr ?so8) = Inr ?so9"
    using nodes by (auto simp: getitem_def default_options_simps)
  have wr: "write_text (fs w) (job_script_path env scriptOptions) script
      = Inr ((fs w)(job_script_path env scriptOptions \<mapsto> TextFile script))"
    using nodir by (simp add: write_text_def split: option.splits node.splits)
  have jn: "getitem ?so8 ''jobname''
      = Inr (case scriptOptions ''jobname'' of None \<Rightarrow> basename (argv0 env) | Some j \<Rightarrow> j)"
    by (simp add: getitem_def default_options_simps)
  have "launchJob env cmd scriptOptions False fast queue_type w =
           (case parse_qsub_output (job_script_name env scriptOptions)
                   (fst (qsub env (''qsub '' @ job_script_path env scriptOptions))) of
              Inl e \<Rightarrow> Inl e
            | Inr jobID \<Rightarrow>
                Inr (Some jobID,
                     w\<lparr>fs := (fs w)(job_script_path env scriptOptions \<mapsto> TextFile script),
                       cmds := cmds w @ [''qsub '' @ job_script_path env scriptOptions]\<rparr>))"
    unfolding launchJob_def Let_def jn nodes9
    using script outdir wr
    by (simp add: job_script_path_def job_script_name_def split: sum.splits)
  then show ?thesis by blast
qed

text \<open>
  The fields of the answer: after \<open>Your job \<close> the third field is the text up to the next
  blank; a text of digits is read by \<open>int\<close> as the number it spells.
\<close>

lemma split_char_not_Nil: "split_char c s \<noteq> []"
  by (induction s) (auto split: list.splits)

lemma hd_split_char: "hd (split_char c s) = takeWhile (\<lambda>x. x \<noteq> c) s"
proof (induction s)
  case Nil
  then show ?case by simp
next
  case (Cons a s)
  obtain w ws where "split_char c s = w # ws"
    using split_char_not_Nil [of c s] by (cases "split_char c s") auto
  with Cons show ?case by simp
qed

lemma split_char_Your_job:
  "split_char CHR '' '' (''Your job '' @ rest) = ''Your'' # ''job'' # split_char CHR '' '' rest"
proof -
  obtain w ws where "split_char CHR '' '' rest = w # ws"
    using split_char_not_Nil [of "CHR '' ''" rest] by (cases "split_char CHR '' '' rest") auto
  then show ?thesis by simp
qed

lemma startswith_append: "startswith s p \<Longrightarrow> s = p @ drop (length p) s"
  unfolding startswith_def by (metis append_take_drop_id)

lemma startswith_Your_job:
  assumes "startswith out ''Your job ''"
  shows "out = ''Your job '' @ drop 9 out"
proof -
  have l: "length ''Your job '' = 9" by simp
  from startswith_append [OF assms] show ?thesis unfolding l .
qed

lemma third_field:
  assumes "startswith out ''Your job ''"
  shows "\<exists>rest. split_char CHR '' '' out
           = ''Your'' # ''job'' # takeWhile (\<lambda>c. c \<noteq> CHR '' '') (drop 9 out) # rest"
proof -
  have "split_char CHR '' '' out = ''Your'' # ''job'' # split_char CHR '' '' (drop 9 out)"
    using startswith_Your_job [OF assms] split_char_Your_job [of "drop 9 out"] by simp
  moreover obtain w ws where "split_char CHR '' '' (drop 9 out) = w # ws"
    using split_char_not_Nil [of "CHR '' ''" "drop 9 out"]
    by (cases "split_char CHR '' '' (drop 9 out)") auto
  moreover from this have "w = takeWhile (\<lambda>c. c \<noteq> CHR '' '') (drop 9 out)"
    using hd_split_char [of "CHR '' ''" "drop 9 out"] by simp
  ultimately show ?thesis by simp
qed

lemma is_digit_not_space: "is_digit c \<Longrightarrow> \<not> is_space c"
  by (auto simp: is_digit_def is_space_def)

lemma is_digit_not_sign: "is_digit c \<Longrightarrow> c \<noteq> CHR ''-'' \<and> c \<noteq> CHR ''+''"
  by (auto simp: is_digit_def)

lemma strip_digits:
  assumes "list_all is_digit ds"
  shows "strip ds = ds"
proof -
  have a: "dropWhile is_space ds = ds"
    using assms by (cases ds) (auto simp: is_digit_not_space)
  have "list_all is_digit (rev ds)" using assms by (simp add: list_all_iff)
  then have "dropWhile is_space (rev ds) = rev ds"
    by (cases "rev ds") (auto simp: is_digit_not_space)
  with a show ?thesis by (simp add: strip_def)
qed

lemma py_int_digits:
  assumes "ds \<noteq> []" "list_all is_digit ds"
  shows "py_int ds = Some (int (digits_val 0 ds))"
proof -
  from assms obtain d rest where ds: "ds = d # rest" and d: "is_digit d"
    by (cases ds) auto
  show ?thesis
    using assms is_digit_not_sign [OF d]
    by (simp add: py_int_def strip_digits Let_def ds)
qed

lemma parse_recognized:
  assumes "ack_job_id out = Some n"
  shows "startswith out ''Your job '' \<and> py_int (split_char CHR '' '' out ! 2) = Some n"
proof -
  let ?ds = "takeWhile (\<lambda>c. c \<noteq> CHR '' '') (drop 9 out)"
  from assms have sw: "startswith out ''Your job ''"
    and ds: "?ds \<noteq> []" "list_all is_digit ?ds" and n: "n = int (digits_val 0 ?ds)"
    by (auto simp: ack_job_id_def Let_def split: if_splits)
  from third_field [OF sw] obtain rest where
    "split_char CHR '' '' out = ''Your'' # ''job'' # ?ds # rest" by blast
  then have "split_char CHR '' '' out ! 2 = ?ds" by simp
  with py_int_digits [OF ds] sw n show ?thesis by simp
qed

lemma parse_qsub_output_eq:
  "parse_qsub_output name out =
     (if startswith out ''Your job '' then
        (case py_int (split_char CHR '' '' out ! 2) of
           None \<Rightarrow> Inl (ValueError (split_char CHR '' '' out ! 2))
         | Some jobID \<Rightarrow> Inr jobID)
      else Inl (Exception (''Failed to launch job '' @ name)))"
proof (cases "startswith out ''Your job ''")
  case True
  from third_field [OF True] obtain rest where
    sp: "split_char CHR '' '' out
       = ''Your'' # ''job'' # takeWhile (\<lambda>c. c \<noteq> CHR '' '') (drop 9 out) # rest" by blast
  then have "split_char CHR '' '' out ! 2 = takeWhile (\<lambda>c. c \<noteq> CHR '' '') (drop 9 out)"
    by simp
  then show ?thesis using True sp by (simp add: parse_qsub_output_def split: option.splits)
next
  case False
  then show ?thesis by (simp add: parse_qsub_output_def)
qed

lemma launchJob_not_None:
  "launchJob env cmd scriptOptions False fast queue_type w \<noteq> Inr (None, w')"
  by (auto simp: launchJob_def Let_def split: sum.splits if_splits)

text \<open>
  Claim C7. \<open>launchJob\<close> submits (no \<open>test\<close>); the node option is compatible with
  \<open>fast\<close> and the job script can be written, so that the submission is reached, and the
  scheduler answers \<open>out\<close>. Then: an answer that starts with \<open>Your job \<close> and whose third
  field \<open>int\<close> reads as \<open>n\<close> makes \<open>launchJob\<close> return the job id \<open>n\<close>, after one
  submission; so does in particular every answer of the form \<open>Your job <digits>\<close>; an
  answer that does not start with \<open>Your job \<close> raises the exception
  \<open>Failed to launch job\<close>, one whose third field is no number raises \<open>ValueError\<close>; and
  the result is never \<open>None\<close>.
\<close>

theorem launchJob_parses_or_fails:
  assumes nodes: "fast \<longrightarrow> scriptOptions ''nodes'' = None \<or> scriptOptions ''nodes'' = Some ''1''"
      and nodir: "fs w (job_script_path env scriptOptions) \<noteq> Some Directory"
      and ack: "fst (qsub env (''qsub '' @ job_script_path env scriptOptions)) = out"
  shows "(\<forall>n. startswith out ''Your job '' \<and> py_int (split_char CHR '' '' out ! 2) = Some n \<longrightarrow>
            (\<exists>w'. launchJob env cmd scriptOptions False fast queue_type w = Inr (Some n, w')
                  \<and> cmds w' = cmds w @ [''qsub '' @ job_script_path env scriptOptions]))
       \<and> (\<forall>n. ack_job_id out = Some n \<longrightarrow>
            (\<exists>w'. launchJob env cmd scriptOptions False fast queue_type w = Inr (Some n, w')))
       \<and> (\<not> startswith out ''Your job '' \<longrightarrow>
            launchJob env cmd scriptOptions False fast queue_type w
              = Inl (Exception (''Failed to launch job '' @ job_script_name env scriptOptions)))
       \<and> (startswith out ''Your job '' \<and> py_int (split_char CHR '' '' out ! 2) = None \<longrightarrow>
            launchJob env cmd scriptOptions False fast queue_type w
              = Inl (ValueError (split_char CHR '' '' out ! 2)))
       \<and> (\<forall>w'. launchJob env cmd scriptOptions False fast queue_type w \<noteq> Inr (None, w'))"
proof -
  from launchJob_submit [OF nodes nodir, of cmd queue_type] obtain f1 where
    run: "launchJob env cmd scriptOptions False fast queue_type w =
           (case parse_qsub_output (job_script_name env scriptOptions) out of
              Inl e \<Rightarrow> Inl e
            | Inr jobID \<Rightarrow>
                Inr (Some jobID,
                     w\<lparr>fs := f1, cmds := cmds w @ [''qsub '' @ job_script_path env scriptOptions]\<rparr>))"
    unfolding ack by blast
  have a: "\<exists>w'. launchJob env cmd scriptOptions False fast queue_type w = Inr (Some n, w')
                  \<and> cmds w' = cmds w @ [''qsub '' @ job_script_path env scriptOptions]"
    if "startswith out ''Your job ''" "py_int (split_char CHR '' '' out ! 2) = Some n" for n
    using that by (simp add: run parse_qsub_output_eq)
  have b: "\<exists>w'. launchJob env cmd scriptOptions False fast queue_type w = Inr (Some n, w')"
    if "ack_job_id out = Some n" for n
    using a parse_recognized [OF that] by blast
  have c: "launchJob env cmd scriptOptions False fast queue_type w
              = Inl (Exception (''Failed to launch job '' @ job_script_name env scriptOptions))"
    if "\<not> startswith out ''Your job ''"
    using that by (simp add: run parse_qsub_output_eq)
  have d: "launchJob env cmd scriptOptions False fast queue_type w
              = Inl (ValueError (split_char CHR '' '' out ! 2))"
    if "startswith out ''Your job ''" "py_int (split_char CHR '' '' out ! 2) = None"
    using that by (simp add: run parse_qsub_output_eq)
  show ?thesis using a b c d launchJob_not_None by blast
qed

lemma ack_job_id_example:
  "ack_job_id ''Your job 4242 (pipeline_run_s1) has been submitted'' = Some 4242"
  by (simp add: ack_job_id_def startswith_def is_digit_def digit_val_def)

text \<open>
  Claim C7 at a scheduler that answers \<open>Your job 4242 (pipeline_run_s1) has been submitted\<close>,
  with default options on an empty file system: the job id is 4242.
\<close>

theorem launchJob_parses_or_fails_witness:
  "fs empty_world (job_script_path ack_env Map.empty) \<noteq> Some Directory
   \<and> fst (qsub ack_env (''qsub '' @ job_script_path ack_env Map.empty))
       = ''Your job 4242 (pipeline_run_s1) has been submitted''
   \<and> ack_job_id ''Your job 4242 (pipeline_run_s1) has been submitted'' = Some 4242
   \<and> (\<exists>w'. launchJob ack_env [''python'', ''run_pipeline.py''] Map.empty False True ''quick'' empty_world
              = Inr (Some 4242, w'))"
  using launchJob_parses_or_fails [of True Map.empty empty_world ack_env
      "''Your job 4242 (pipeline_run_s1) has been submitted''" "[''python'', ''run_pipeline.py'']" "''quick''"]
    ack_job_id_example
  by (simp add: empty_world_def ack_env_def)

section \<open>Properties of sample construction\<close>

text \<open>
  \<open>Sample.__init__\<close> on one object never raises; the single-end branch of
  \<open>load_pipeline_samples\<close> builds one sample for each entry of the manifest, each from one
  object.
\<close>

lemma Sample_init_Single:
  "\<exists>s. Sample_init lbl (Single r) = Inr s \<and> \<not> paired s \<and> rawdata s = Single r
        \<and> sample_type s = sample_type_rd r \<and> label s = lbl"
  by (simp add: Sample_init_def)

lemma single_samples_unpaired:
  "single_samples rds = Inr ss \<Longrightarrow>
     length ss = length rds \<and>
     list_all (\<lambda>s. \<not> paired s \<and> (\<exists>r. rawdata s = Single r \<and> sample_type s = sample_type_rd r
                                     \<and> label s = label_rd r)) ss"
proof (induction rds arbitrary: ss)
  case Nil
  then show ?case by simp
next
  case (Cons r rds)
  from Sample_init_Single [of "label_rd r" r] obtain s where
    s: "Sample_init (label_rd r) (Single r) = Inr s" "\<not> paired s" "rawdata s = Single r"
       "sample_type s = sample_type_rd r" "label s = label_rd r" by blast
  from Cons.prems s(1) obtain others where
    o: "single_samples rds = Inr others" "ss = s # others"
    by (auto split: sum.splits)
  from Cons.IH [OF o(1)] s o(2) show ?case by simp
qed

lemma set_rpkm_dirs_unpaired:
  "list_all (\<lambda>s. \<not> paired s \<and> (\<exists>r. rawdata s = Single r \<and> sample_type s = sample_type_rd r
                                     \<and> label s = label_rd r)) ss
   \<Longrightarrow> list_all (\<lambda>s. \<not> paired s \<and> (\<exists>r. rawdata s = Single r \<and> sample_type s = sample_type_rd r
                                     \<and> label s = label_rd r)) (set_rpkm_dirs dir ss)"
  by (induction ss) (auto simp: set_rpkm_dirs_def)

lemma get_samples_rawdata_loop_length:
  "get_samples_rawdata_loop si entries w = Inr rds \<Longrightarrow> length rds = length entries"
  by (induction si entries w arbitrary: rds rule: get_samples_rawdata_loop.induct)
     (auto split: if_splits sum.splits)

lemma load_single_end:
  assumes "\<not> is_paired_end self" "load_pipeline_samples self w = Inr (self', w')"
  shows "length (samples self') = length (sequence_filenames self) \<and>
         list_all (\<lambda>s. \<not> paired s \<and> (\<exists>r. rawdata s = Single r \<and> sample_type s = sample_type_rd r
                                     \<and> label s = label_rd r)) (samples self')"
proof -
  from assms obtain rds ss where
    rds: "get_samples_rawdata self (logger_info ''Loading pipeline samples...'' w) = Inr rds"
    and ss: "single_samples rds = Inr ss"
    and self': "self' = self\<lparr>samples := set_rpkm_dirs (pipeline_rpkm_dir self) ss\<rparr>"
    by (auto simp: load_pipeline_samples_def Let_def split: sum.splits)
  from rds have "length rds = length (sequence_filenames self)"
    by (simp add: get_samples_rawdata_def get_samples_rawdata_loop_length)
  with single_samples_unpaired [OF ss] set_rpkm_dirs_unpaired self'
  show ?thesis by (simp add: set_rpkm_dirs_def)
qed

text \<open>
  Claim C9. A sample that \<open>Sample.__init__\<close> builds has the flag \<open>paired\<close> set exactly when
  its raw data is a list, and its type is the type of its \<open>SampleRawdata\<close> object, the
  first one of a list; the constructor builds a sample for every raw data but the empty
  list, where indexing raises. In single-end mode \<open>load_pipeline_samples\<close> builds one sample
  for each raw sample of the manifest, unpaired, with the type and label of its object.
\<close>

theorem Sample_construction:
  "(\<forall>s. Sample_init lbl rd = Inr s \<longrightarrow>
        paired s = is_list rd
      \<and> sample_type s = (case rd of Single r \<Rightarrow> sample_type_rd r | Group rs \<Rightarrow> sample_type_rd (hd rs))
      \<and> rawdata s = rd \<and> label s = lbl)
   \<and> ((\<exists>s. Sample_init lbl rd = Inr s) \<longleftrightarrow> rd \<noteq> Group [])
   \<and> (\<forall>self' w'. \<not> is_paired_end self \<and> load_pipeline_samples self w = Inr (self', w') \<longrightarrow>
         length (samples self') = length (sequence_filenames self)
       \<and> list_all (\<lambda>s. \<not> paired s \<and> (\<exists>r. rawdata s = Single r \<and> sample_type s = sample_type_rd r
                                         \<and> label s = label_rd r)) (samples self'))"
proof -
  have a: "paired s = is_list rd
      \<and> sample_type s = (case rd of Single r \<Rightarrow> sample_type_rd r | Group rs \<Rightarrow> sample_type_rd (hd rs))
      \<and> rawdata s = rd \<and> label s = lbl" if "Sample_init lbl rd = Inr s" for s
    using that by (auto simp: Sample_init_def split: rawdata.splits list.splits)
  have b: "(\<exists>s. Sample_init lbl rd = Inr s) \<longleftrightarrow> rd \<noteq> Group []"
  proof (cases rd)
    case (Single r)
    then show ?thesis by (simp add: Sample_init_def)
  next
    case (Group rs)
    then show ?thesis by (cases rs) (simp_all add: Sample_init_def)
  qed
  show ?thesis using a b load_single_end by blast
qed

text \<open>
  Claim C9 at the manifest with the one raw sample \<open>s1\<close> and no groups: one sample, not
  paired, of the type \<open>rnaseq\<close> of its object.
\<close>

theorem Sample_construction_witness:
  "\<not> is_paired_end one_sample_pipeline
   \<and> (\<exists>s. Sample_init ''s1'' (Single s1_rawdata) = Inr s \<and> \<not> paired s
          \<and> sample_type s = Some ''rnaseq'')
   \<and> (\<exists>self' w' s. load_pipeline_samples one_sample_pipeline one_sample_world = Inr (self', w')
         \<and> samples self' = [s] \<and> \<not> paired s \<and> rawdata s = Single s1_rawdata
         \<and> sample_type s = Some ''rnaseq'' \<and> label s = ''s1'')"
proof -
  note inst = Sample_construction [of "''s1''" "Single s1_rawdata" one_sample_pipeline one_sample_world]
  have np: "\<not> is_paired_end one_sample_pipeline" by (simp add: one_sample_pipeline_def)
  from inst have "\<exists>s. Sample_init ''s1'' (Single s1_rawdata) = Inr s" by simp
  then obtain s0 where s0: "Sample_init ''s1'' (Single s1_rawdata) = Inr s0" by blast
  with inst have "\<not> paired s0" "sample_type s0 = Some ''rnaseq''"
    by (auto simp: s1_rawdata_def)
  with s0 have first: "\<exists>s. Sample_init ''s1'' (Single s1_rawdata) = Inr s \<and> \<not> paired s
          \<and> sample_type s = Some ''rnaseq''" by blast
  obtain self' w' where run: "load_pipeline_samples one_sample_pipeline one_sample_world = Inr (self', w')"
    and rd: "map rawdata (samples self') = [Single s1_rawdata]"
    by (simp add: load_pipeline_samples_def one_sample_pipeline_def one_sample_world_def
        get_samples_rawdata_def isfile_def logger_info_def SampleRawdata_init_def s1_rawdata_def
        rnaseq_settings_def Sample_init_def set_rpkm_dirs_def Let_def)
  from inst np run
  have "list_all (\<lambda>s. \<not> paired s \<and> (\<exists>r. rawdata s = Single r \<and> sample_type s = sample_type_rd r
                                         \<and> label s = label_rd r)) (samples self')"
    by blast
  with rd obtain s where "samples self' = [s]" "\<not> paired s" "rawdata s = Single s1_rawdata"
    "sample_type s = Some ''rnaseq''" "label s = ''s1''"
    by (cases "samples self'") (auto simp: s1_rawdata_def)
  with np run first show ?thesis by blast
qed

section \<open>Properties of the alignment filters\<close>

text \<open>
  Logging changes neither the files nor the commands. Writing to an open output appends;
  the loop of \<open>get_unique_reads\<close> therefore leaves in the output the records that carry
  the pair \<open>("NH", 1)\<close>, in their order, after what was there, and counts them.
\<close>

lemma fs_logger [simp]:
  "fs (logger_info m w) = fs w" "fs (logger_warning m w) = fs w" "fs (logger_critical m w) = fs w"
  by (simp_all add: logger_info_def logger_warning_def logger_critical_def)

lemma cmds_logger [simp]:
  "cmds (logger_info m w) = cmds w" "cmds (logger_warning m w) = cmds w"
  "cmds (logger_critical m w) = cmds w"
  by (simp_all add: logger_info_def logger_warning_def logger_critical_def)

lemma warnings_logger [simp]:
  "warnings (logger_info m w) = warnings w"
  "warnings (logger_warning m w) = warnings w @ [m]"
  "warnings (logger_critical m w) = warnings w"
  "warnings (w\<lparr>fs := f\<rparr>) = warnings w"
  by (simp_all add: warnings_def logger_info_def logger_warning_def logger_critical_def)

lemma Samfile_write_BamFile:
  "f out = Some (BamFile b) \<Longrightarrow> Samfile_write f out r = f(out \<mapsto> BamFile (b\<lparr>reads := reads b @ [r]\<rparr>))"
  by (simp add: Samfile_write_def)

lemma unique_loop_filter:
  "f out = Some (BamFile \<lparr>references = h, reads = acc\<rparr>) \<Longrightarrow>
   unique_loop out rs (f, n)
     = (f(out \<mapsto> BamFile \<lparr>references = h, reads = acc @ filter has_NH_1 rs\<rparr>),
        n + length (filter has_NH_1 rs))"
proof (induction rs arbitrary: f n acc)
  case Nil
  then show ?case by (simp add: fun_upd_idem)
next
  case (Cons r rs)
  show ?case
  proof (cases "has_NH_1 r")
    case True
    let ?f = "f(out \<mapsto> BamFile \<lparr>references = h, reads = acc @ [r]\<rparr>)"
    have wr: "Samfile_write f out r = ?f"
      using Cons.prems by (simp add: Samfile_write_BamFile)
    have "unique_loop out (r # rs) (f, n) = unique_loop out rs (Samfile_write f out r, n + 1)"
      using True by simp
    also have "\<dots> = unique_loop out rs (?f, n + 1)"
      by (simp only: wr)
    also have "\<dots> = (?f(out \<mapsto> BamFile \<lparr>references = h, reads = (acc @ [r]) @ filter has_NH_1 rs\<rparr>),
               n + 1 + length (filter has_NH_1 rs))"
      by (rule Cons.IH [of ?f "acc @ [r]" "n + 1"]) simp
    also have "\<dots> = (f(out \<mapsto> BamFile \<lparr>references = h, reads = acc @ filter has_NH_1 (r # rs)\<rparr>),
               n + length (filter has_NH_1 (r # rs)))"
      using True by simp
    finally show ?thesis .
  next
    case False
    have "unique_loop out (r # rs) (f, n) = unique_loop out rs (f, n)"
      using False by simp
    also have "\<dots> = (f(out \<mapsto> BamFile \<lparr>references = h, reads = acc @ filter has_NH_1 rs\<rparr>),
               n + length (filter has_NH_1 rs))"
      using Cons.prems by (rule Cons.IH [of f acc n])
    also have "\<dots> = (f(out \<mapsto> BamFile \<lparr>references = h, reads = acc @ filter has_NH_1 (r # rs)\<rparr>),
               n + length (filter has_NH_1 (r # rs)))"
      using False by simp
    finally show ?thesis .
  qed
qed

lemma Samfile_rb_BamFile:
  "f p = Some (BamFile b) \<Longrightarrow>
   Samfile_rb f p = Inr \<lparr>sf_references = references b, sf_reads = reads b, sf_index = isfile f (p @ ''.bai'')\<rparr>"
  by (simp add: Samfile_rb_def)

lemma isfile_BamFile: "f p = Some (BamFile b) \<Longrightarrow> isfile f p"
  by (simp add: isfile_def)

lemma not_isfile_None: "f p = None \<Longrightarrow> \<not> isfile f p"
  by (simp add: isfile_def)

lemma Samfile_wb_None:
  "f p = None \<Longrightarrow>
   Samfile_wb f p t = Inr (f(p \<mapsto> BamFile \<lparr>references = sf_references t, reads = []\<rparr>))"
  by (simp add: Samfile_wb_def)

lemma get_unique_reads_writes:
  assumes bam: "bam_filename sample = Some bam_fname"
      and dir: "processed_bam_dir sample = Some dir"
      and inp: "fs w bam_fname = Some (BamFile b)"
      and out: "fs w (processed_path dir bam_fname ''.unique.bam'') = None"
  shows "\<exists>w'. get_unique_reads sample w = Inr (processed_path dir bam_fname ''.unique.bam'', w')
            \<and> fs w' = (fs w)(processed_path dir bam_fname ''.unique.bam''
                               \<mapsto> BamFile \<lparr>references = references b, reads = filter has_NH_1 (reads b)\<rparr>)
            \<and> warnings w' = warnings w @ (if filter has_NH_1 (reads b) = []
                                            then [''No unique reads found in '' @ bam_fname] else [])
            \<and> cmds w' = cmds w"
proof -
  let ?out = "processed_path dir bam_fname ''.unique.bam''"
  let ?f0 = "(fs w)(?out \<mapsto> BamFile \<lparr>references = references b, reads = []\<rparr>)"
  have loop: "unique_loop ?out (reads b) (?f0, 0)
      = (?f0(?out \<mapsto> BamFile \<lparr>references = references b, reads = [] @ filter has_NH_1 (reads b)\<rparr>),
         0 + length (filter has_NH_1 (reads b)))"
    by (rule unique_loop_filter) simp
  show ?thesis
    unfolding get_unique_reads_def Let_def
    using bam dir inp out loop
    by (simp add: Samfile_rb_BamFile isfile_BamFile not_isfile_None Samfile_wb_None
        processed_path_def [symmetric])
qed

lemma get_unique_reads_skips:
  assumes bam: "bam_filename sample = Some bam_fname"
      and dir: "processed_bam_dir sample = Some dir"
      and inp: "fs w bam_fname = Some (BamFile b)"
      and out: "isfile (fs w) (processed_path dir bam_fname ''.unique.bam'')"
  shows "\<exists>w'. get_unique_reads sample w = Inr (processed_path dir bam_fname ''.unique.bam'', w')
            \<and> fs w' = fs w \<and> warnings w' = warnings w \<and> cmds w' = cmds w"
  unfolding get_unique_reads_def Let_def
  using bam dir inp out
  by (simp add: Samfile_rb_BamFile isfile_BamFile processed_path_def [symmetric])

text \<open>
  In a record whose tag names are distinct, as the BAM format demands, carrying the pair
  \<open>("NH", 1)\<close> is the same as the tag \<open>NH\<close>, the multiplicity, having a value equal to 1.
\<close>

lemma has_NH_1_multiplicity:
  assumes "distinct (map fst (tags r))"
  shows "has_NH_1 r \<longleftrightarrow> (\<exists>v. map_of (tags r) ''NH'' = Some v \<and> py_eq_int v 1)"
  using assms by (force simp: has_NH_1_def list_ex_iff)

text \<open>
  Claim C2. The sample has an alignment file that opens. When the output path
  \<open><base>.unique.bam\<close> is not there, \<open>get_unique_reads\<close> returns it and leaves there a file
  with the header of the input and exactly the records whose multiplicity tag \<open>NH\<close> equals
  1, in the order of the input; it logs the warning \<open>No unique reads found\<close> exactly when
  no record is retained, and starts no command. When the output path is a file already,
  the call returns the path and leaves the files as they are, with no warning.
\<close>

theorem get_unique_reads_keeps_unique:
  assumes "bam_filename sample = Some bam_fname"
      and "processed_bam_dir sample = Some dir"
      and "fs w bam_fname = Some (BamFile b)"
  shows "(fs w (processed_path dir bam_fname ''.unique.bam'') = None \<longrightarrow>
           (\<exists>w'. get_unique_reads sample w = Inr (processed_path dir bam_fname ''.unique.bam'', w')
              \<and> fs w' = (fs w)(processed_path dir bam_fname ''.unique.bam''
                               \<mapsto> BamFile \<lparr>references = references b, reads = filter has_NH_1 (reads b)\<rparr>)
              \<and> warnings w' = warnings w @ (if filter has_NH_1 (reads b) = []
                                              then [''No unique reads found in '' @ bam_fname] else [])
              \<and> cmds w' = cmds w))
       \<and> (isfile (fs w) (processed_path dir bam_fname ''.unique.bam'') \<longrightarrow>
           (\<exists>w'. get_unique_reads sample w = Inr (processed_path dir bam_fname ''.unique.bam'', w')
              \<and> fs w' = fs w \<and> warnings w' = warnings w \<and> cmds w' = cmds w))"
  using get_unique_reads_writes [OF assms] get_unique_reads_skips [OF assms] by blast

lemma processed_path_s1:
  "processed_path ''out/mapping/s1/processed_bams'' ''out/mapping/s1.bam'' ending
     = ''out/mapping/s1/processed_bams/s1'' @ ending"
  by (simp add: processed_path_def join_def basename_def startswith_def endswith_def)

text \<open>
  Claim C2 at the file with multiplicities 1, 1, 2, 3, 1: the output holds the first, second
  and fifth record, in this order, and nothing is warned; with the output present the files
  stay as they are.
\<close>

theorem get_unique_reads_keeps_unique_witness:
  "bam_filename mapped_sample = Some ''out/mapping/s1.bam''
   \<and> processed_bam_dir mapped_sample = Some ''out/mapping/s1/processed_bams''
   \<and> fs (bam_world multi_bam) ''out/mapping/s1.bam'' = Some (BamFile multi_bam)
   \<and> fs (bam_world multi_bam) ''out/mapping/s1/processed_bams/s1.unique.bam'' = None
   \<and> (\<exists>w'. get_unique_reads mapped_sample (bam_world multi_bam)
              = Inr (''out/mapping/s1/processed_bams/s1.unique.bam'', w')
          \<and> fs w' ''out/mapping/s1/processed_bams/s1.unique.bam''
              = Some (BamFile \<lparr>references = [''chr1'', ''chr2'', ''chrRibo''],
                               reads = [mk_read ''r1'' ''chr1'' 100 1, mk_read ''r2'' ''chr1'' 150 1,
                                        mk_read ''r5'' ''chr2'' 300 1]\<rparr>)
          \<and> warnings w' = [])
   \<and> fs (processed_world multi_bam) ''out/mapping/s1.bam'' = Some (BamFile multi_bam)
   \<and> isfile (fs (processed_world multi_bam)) ''out/mapping/s1/processed_bams/s1.unique.bam''
   \<and> (\<exists>w'. get_unique_reads mapped_sample (processed_world multi_bam)
              = Inr (''out/mapping/s1/processed_bams/s1.unique.bam'', w')
          \<and> fs w' = fs (processed_world multi_bam))"
proof -
  have h: "bam_filename mapped_sample = Some ''out/mapping/s1.bam''"
    "processed_bam_dir mapped_sample = Some ''out/mapping/s1/processed_bams''"
    "fs (bam_world multi_bam) ''out/mapping/s1.bam'' = Some (BamFile multi_bam)"
    "fs (bam_world multi_bam) ''out/mapping/s1/processed_bams/s1.unique.bam'' = None"
    by (simp_all add: mapped_sample_def bam_world_def)
  have p: "fs (processed_world multi_bam) ''out/mapping/s1.bam'' = Some (BamFile multi_bam)"
    "isfile (fs (processed_world multi_bam)) ''out/mapping/s1/processed_bams/s1.unique.bam''"
    by (simp_all add: processed_world_def isfile_def)
  have u: "filter has_NH_1 (reads multi_bam)
      = [mk_read ''r1'' ''chr1'' 100 1, mk_read ''r2'' ''chr1'' 150 1, mk_read ''r5'' ''chr2'' 300 1]"
    by (simp add: multi_bam_def mk_read_def has_NH_1_def py_eq_int_def)
  have w0: "warnings (bam_world multi_bam) = []"
    by (simp add: warnings_def bam_world_def)
  from get_unique_reads_keeps_unique [OF h(1,2,3)] h(4)
  obtain w' where "get_unique_reads mapped_sample (bam_world multi_bam)
              = Inr (''out/mapping/s1/processed_bams/s1.unique.bam'', w')"
     "fs w' = (fs (bam_world multi_bam))(''out/mapping/s1/processed_bams/s1.unique.bam''
                 \<mapsto> BamFile \<lparr>references = references multi_bam, reads = filter has_NH_1 (reads multi_bam)\<rparr>)"
     "warnings w' = warnings (bam_world multi_bam) @ (if filter has_NH_1 (reads multi_bam) = []
                                              then [''No unique reads found in '' @ ''out/mapping/s1.bam''] else [])"
    unfolding processed_path_s1 by auto
  then have a: "\<exists>w'. get_unique_reads mapped_sample (bam_world multi_bam)
              = Inr (''out/mapping/s1/processed_bams/s1.unique.bam'', w')
          \<and> fs w' ''out/mapping/s1/processed_bams/s1.unique.bam''
              = Some (BamFile \<lparr>references = [''chr1'', ''chr2'', ''chrRibo''],
                               reads = [mk_read ''r1'' ''chr1'' 100 1, mk_read ''r2'' ''chr1'' 150 1,
                                        mk_read ''r5'' ''chr2'' 300 1]\<rparr>)
          \<and> warnings w' = []"
    by (simp only: u w0) (simp add: multi_bam_def)
  from get_unique_reads_keeps_unique [OF h(1,2) p(1)] p(2)
  have b: "\<exists>w'. get_unique_reads mapped_sample (processed_world multi_bam)
              = Inr (''out/mapping/s1/processed_bams/s1.unique.bam'', w')
          \<and> fs w' = fs (processed_world multi_bam)"
    unfolding processed_path_s1 by auto
  from h p a b show ?thesis by simp
qed

text \<open>
  The query names collected by the first loop of \<open>get_ribosub_bam_reads\<close> are those of the
  fetched records; the second loop leaves in the output the records of all other queries.
\<close>

lemma map_of_collect:
  "map_of (collect_ribo_read_ids rs ids) q \<noteq> None
     \<longleftrightarrow> q \<in> qname ` set rs \<or> map_of ids q \<noteq> None"
  by (induction rs arbitrary: ids) (auto simp: update_conv')

lemma collect_empty: "collect_ribo_read_ids rs [] = [] \<longleftrightarrow> rs = []"
proof
  assume e: "collect_ribo_read_ids rs [] = []"
  show "rs = []"
  proof (cases rs)
    case Nil
    then show ?thesis .
  next
    case (Cons r rest)
    then have "map_of (collect_ribo_read_ids rs []) (qname r) \<noteq> None"
      using map_of_collect [of rs "[]" "qname r"] by auto
    with e show ?thesis by simp
  qed
qed simp

lemma ribosub_loop_filter:
  "f out = Some (BamFile \<lparr>references = h, reads = acc\<rparr>) \<Longrightarrow>
   ribosub_loop ids out rs f
     = f(out \<mapsto> BamFile \<lparr>references = h,
                           reads = acc @ filter (\<lambda>r. map_of ids (qname r) = None) rs\<rparr>)"
proof (induction rs arbitrary: f acc)
  case Nil
  then show ?case by (simp add: fun_upd_idem)
next
  case (Cons r rs)
  show ?case
  proof (cases "map_of ids (qname r) = None")
    case True
    let ?f = "f(out \<mapsto> BamFile \<lparr>references = h, reads = acc @ [r]\<rparr>)"
    have wr: "Samfile_write f out r = ?f"
      using Cons.prems by (simp add: Samfile_write_BamFile)
    have "ribosub_loop ids out (r # rs) f = ribosub_loop ids out rs (Samfile_write f out r)"
      using True by simp
    also have "\<dots> = ribosub_loop ids out rs ?f"
      by (simp only: wr)
    also have "\<dots> = ?f(out \<mapsto> BamFile \<lparr>references = h,
                       reads = (acc @ [r]) @ filter (\<lambda>r. map_of ids (qname r) = None) rs\<rparr>)"
      by (rule Cons.IH [of ?f "acc @ [r]"]) simp
    also have "\<dots> = f(out \<mapsto> BamFile \<lparr>references = h,
                       reads = acc @ filter (\<lambda>r. map_of ids (qname r) = None) (r # rs)\<rparr>)"
      using True by simp
    finally show ?thesis .
  next
    case False
    then obtain y where y: "map_of ids (qname r) = Some y" by blast
    have "ribosub_loop ids out (r # rs) f = ribosub_loop ids out rs f"
      using y by simp
    also have "\<dots> = f(out \<mapsto> BamFile \<lparr>references = h,
                       reads = acc @ filter (\<lambda>r. map_of ids (qname r) = None) rs\<rparr>)"
      using Cons.prems by (rule Cons.IH [of f acc])
    also have "\<dots> = f(out \<mapsto> BamFile \<lparr>references = h,
                       reads = acc @ filter (\<lambda>r. map_of ids (qname r) = None) (r # rs)\<rparr>)"
      using y by simp
    finally show ?thesis .
  qed
qed

lemma not_in_ribo_ids:
  "map_of (collect_ribo_read_ids (filter (\<lambda>r. rname r = Some chr) rs) []) q = None
     \<longleftrightarrow> \<not> aligns_to rs chr q"
  using map_of_collect [of "filter (\<lambda>r. rname r = Some chr) rs" "[]" q]
  by (auto simp: aligns_to_def list_ex_iff)

lemma fetch_reference:
  "chr \<noteq> [] \<Longrightarrow> chr \<in> set (sf_references sf) \<Longrightarrow> sf_index sf \<Longrightarrow>
   fetch sf chr = Inr (filter (\<lambda>r. rname r = Some chr) (sf_reads sf))"
  by (simp add: fetch_def)

lemma get_ribosub_writes:
  assumes bam: "bam_filename sample = Some bam_fname"
      and dir: "processed_bam_dir sample = Some dir"
      and inp: "fs w bam_fname = Some (BamFile b)"
      and idx: "isfile (fs w) (bam_fname @ ''.bai'')"
      and chr: "chr_ribo \<noteq> []" "chr_ribo \<in> set (references b)"
      and out: "fs w (processed_path dir bam_fname ''.ribosub.bam'') = None"
  shows "\<exists>w'. get_ribosub_bam_reads sample chr_ribo w
                = Inr (processed_path dir bam_fname ''.ribosub.bam'', w')
            \<and> fs w' = (fs w)(processed_path dir bam_fname ''.ribosub.bam''
                  \<mapsto> BamFile \<lparr>references = references b,
                                reads = filter (\<lambda>r. \<not> aligns_to (reads b) chr_ribo (qname r)) (reads b)\<rparr>)
            \<and> warnings w' = warnings w @
                  (if filter (\<lambda>r. rname r = Some chr_ribo) (reads b) = []
                   then [''Could not find any rRNA mapping reads in '' @ bam_fname] else [])
            \<and> cmds w' = cmds w"
proof -
  let ?out = "processed_path dir bam_fname ''.ribosub.bam''"
  let ?sf = "\<lparr>sf_references = references b, sf_reads = reads b, sf_index = True\<rparr>"
  let ?ribo = "filter (\<lambda>r. rname r = Some chr_ribo) (reads b)"
  let ?ids = "collect_ribo_read_ids ?ribo []"
  let ?f0 = "(fs w)(?out \<mapsto> BamFile \<lparr>references = references b, reads = []\<rparr>)"
  have rb: "Samfile_rb (fs w) bam_fname = Inr ?sf"
    using inp idx by (simp add: Samfile_rb_BamFile)
  have fe: "fetch ?sf chr_ribo = Inr ?ribo"
    using chr by (simp add: fetch_reference)
  have wb: "Samfile_wb (fs w) ?out ?sf = Inr ?f0"
    using out by (simp add: Samfile_wb_None)
  have keep: "(\<lambda>r. map_of ?ids (qname r) = None) = (\<lambda>r. \<not> aligns_to (reads b) chr_ribo (qname r))"
    by (simp add: not_in_ribo_ids)
  have "ribosub_loop ?ids ?out (reads b) ?f0
      = ?f0(?out \<mapsto> BamFile \<lparr>references = references b,
                 reads = [] @ filter (\<lambda>r. map_of ?ids (qname r) = None) (reads b)\<rparr>)"
    by (rule ribosub_loop_filter) simp
  then have loop: "ribosub_loop ?ids ?out (reads b) ?f0
      = (fs w)(?out \<mapsto> BamFile \<lparr>references = references b,
                 reads = filter (\<lambda>r. \<not> aligns_to (reads b) chr_ribo (qname r)) (reads b)\<rparr>)"
    by (simp add: keep)
  show ?thesis
  proof (cases "?ribo = []")
    case True
    have fe0: "fetch ?sf chr_ribo = Inr []"
      using fe unfolding True .
    have ids0: "?ids = []" unfolding True by simp
    have loop0: "ribosub_loop [] ?out (reads b) ?f0
      = (fs w)(?out \<mapsto> BamFile \<lparr>references = references b,
                 reads = filter (\<lambda>r. \<not> aligns_to (reads b) chr_ribo (qname r)) (reads b)\<rparr>)"
      using loop unfolding ids0 .
    show ?thesis
      unfolding get_ribosub_bam_reads_def Let_def
      using bam dir out True
      by (simp add: rb fe0 wb loop0 not_isfile_None processed_path_def [symmetric])
  next
    case False
    then have ids1: "?ids \<noteq> []" by (simp add: collect_empty)
    show ?thesis
      unfolding get_ribosub_bam_reads_def Let_def
      using bam dir out False ids1
      by (simp add: rb fe wb loop not_isfile_None processed_path_def [symmetric])
  qed
qed

lemma get_ribosub_skips:
  assumes bam: "bam_filename sample = Some bam_fname"
      and dir: "processed_bam_dir sample = Some dir"
      and inp: "fs w bam_fname = Some (BamFile b)"
      and out: "isfile (fs w) (processed_path dir bam_fname ''.ribosub.bam'')"
  shows "\<exists>w'. get_ribosub_bam_reads sample chr_ribo w
                = Inr (processed_path dir bam_fname ''.ribosub.bam'', w')
            \<and> fs w' = fs w \<and> warnings w' = warnings w \<and> cmds w' = cmds w"
  unfolding get_ribosub_bam_reads_def Let_def
  using bam dir inp out
  by (simp add: Samfile_rb_BamFile processed_path_def [symmetric])

lemma get_ribosub_needs_input:
  assumes bam: "bam_filename sample = Some bam_fname"
      and inp: "\<And>b. fs w bam_fname \<noteq> Some (BamFile b)"
  shows "\<exists>e. get_ribosub_bam_reads sample chr_ribo w = Inl e
            \<and> (fs w bam_fname = None \<longrightarrow> e = IOError bam_fname)"
proof -
  have "\<exists>e. Samfile_rb (fs w) bam_fname = Inl e \<and> (fs w bam_fname = None \<longrightarrow> e = IOError bam_fname)"
    using inp by (auto simp: Samfile_rb_def split: option.splits node.splits)
  then show ?thesis
    unfolding get_ribosub_bam_reads_def Let_def using bam by auto
qed

text \<open>
  Claim C1. The sample has an alignment file that opens and has an index, the excluded
  reference is a reference of its header, and the output path \<open><base>.ribosub.bam\<close> is not
  there. Then \<open>get_ribosub_bam_reads\<close> returns that path and leaves there a file with the
  header of the input and exactly the records, in the order of the input, whose query name
  has no record on the excluded reference anywhere in the input: no record of a query with
  such a record, every record of a query without.
\<close>

theorem get_ribosub_all_or_nothing:
  assumes "bam_filename sample = Some bam_fname"
      and "processed_bam_dir sample = Some dir"
      and "fs w bam_fname = Some (BamFile b)"
      and "isfile (fs w) (bam_fname @ ''.bai'')"
      and "chr_ribo \<noteq> []" and "chr_ribo \<in> set (references b)"
      and "fs w (processed_path dir bam_fname ''.ribosub.bam'') = None"
  shows "\<exists>w'. get_ribosub_bam_reads sample chr_ribo w
                = Inr (processed_path dir bam_fname ''.ribosub.bam'', w')
            \<and> fs w' = (fs w)(processed_path dir bam_fname ''.ribosub.bam''
                  \<mapsto> BamFile \<lparr>references = references b,
                                reads = filter (\<lambda>r. \<not> aligns_to (reads b) chr_ribo (qname r)) (reads b)\<rparr>)"
  using get_ribosub_writes [OF assms] by blast

text \<open>
  Claim C1 at the file where \<open>Q1\<close> has a record on \<open>chrRibo\<close> and one on \<open>chr1\<close> and
  \<open>Q2\<close> has records on \<open>chr1\<close> and \<open>chr2\<close>: the output is the two records of \<open>Q2\<close>.
\<close>

theorem get_ribosub_all_or_nothing_witness:
  "bam_filename mapped_sample = Some ''out/mapping/s1.bam''
   \<and> processed_bam_dir mapped_sample = Some ''out/mapping/s1/processed_bams''
   \<and> fs (bam_world ribo_bam) ''out/mapping/s1.bam'' = Some (BamFile ribo_bam)
   \<and> isfile (fs (bam_world ribo_bam)) (''out/mapping/s1.bam'' @ ''.bai'')
   \<and> ''chrRibo'' \<noteq> [] \<and> ''chrRibo'' \<in> set (references ribo_bam)
   \<and> fs (bam_world ribo_bam) ''out/mapping/s1/processed_bams/s1.ribosub.bam'' = None
   \<and> (\<exists>w'. get_ribosub_bam_reads mapped_sample ''chrRibo'' (bam_world ribo_bam)
              = Inr (''out/mapping/s1/processed_bams/s1.ribosub.bam'', w')
          \<and> fs w' ''out/mapping/s1/processed_bams/s1.ribosub.bam''
              = Some (BamFile \<lparr>references = [''chr1'', ''chr2'', ''chrRibo''],
                               reads = [mk_read ''Q2'' ''chr1'' 200 2, mk_read ''Q2'' ''chr2'' 300 2]\<rparr>))"
proof -
  have h: "bam_filename mapped_sample = Some ''out/mapping/s1.bam''"
    "processed_bam_dir mapped_sample = Some ''out/mapping/s1/processed_bams''"
    "fs (bam_world ribo_bam) ''out/mapping/s1.bam'' = Some (BamFile ribo_bam)"
    "isfile (fs (bam_world ribo_bam)) (''out/mapping/s1.bam'' @ ''.bai'')"
    "''chrRibo'' \<noteq> []" "''chrRibo'' \<in> set (references ribo_bam)"
    "fs (bam_world ribo_bam) (processed_path ''out/mapping/s1/processed_bams'' ''out/mapping/s1.bam'' ''.ribosub.bam'') = None"
    by (simp_all add: mapped_sample_def bam_world_def isfile_def ribo_bam_def processed_path_s1)
  have u: "filter (\<lambda>r. \<not> aligns_to (reads ribo_bam) ''chrRibo'' (qname r)) (reads ribo_bam)
      = [mk_read ''Q2'' ''chr1'' 200 2, mk_read ''Q2'' ''chr2'' 300 2]"
    by (simp add: ribo_bam_def mk_read_def aligns_to_def)
  from get_ribosub_all_or_nothing [OF h]
  obtain w' where "get_ribosub_bam_reads mapped_sample ''chrRibo'' (bam_world ribo_bam)
              = Inr (''out/mapping/s1/processed_bams/s1.ribosub.bam'', w')"
     "fs w' = (fs (bam_world ribo_bam))(''out/mapping/s1/processed_bams/s1.ribosub.bam''
                 \<mapsto> BamFile \<lparr>references = references ribo_bam,
                      reads = filter (\<lambda>r. \<not> aligns_to (reads ribo_bam) ''chrRibo'' (qname r)) (reads ribo_bam)\<rparr>)"
    unfolding processed_path_s1 by auto
  then show ?thesis using h
    by (simp only: u) (simp add: ribo_bam_def processed_path_s1)
qed

text \<open>
  Claim C10. The output path of \<open>get_ribosub_bam_reads\<close> is a file already. If the
  alignment file of the sample opens, the call returns the output path and leaves the files
  as they are, starting no command; if it is no alignment file the call raises, and if it
  is missing the call raises \<open>IOError\<close> for it: the input is opened before the output is
  looked for.
\<close>

theorem get_ribosub_opens_input_first:
  assumes "bam_filename sample = Some bam_fname"
      and "processed_bam_dir sample = Some dir"
      and "isfile (fs w) (processed_path dir bam_fname ''.ribosub.bam'')"
  shows "(\<forall>b. fs w bam_fname = Some (BamFile b) \<longrightarrow>
            (\<exists>w'. get_ribosub_bam_reads sample chr_ribo w
                     = Inr (processed_path dir bam_fname ''.ribosub.bam'', w')
                 \<and> fs w' = fs w \<and> cmds w' = cmds w))
       \<and> ((\<forall>b. fs w bam_fname \<noteq> Some (BamFile b)) \<longrightarrow>
            (\<exists>e. get_ribosub_bam_reads sample chr_ribo w = Inl e))
       \<and> (fs w bam_fname = None \<longrightarrow>
            get_ribosub_bam_reads sample chr_ribo w = Inl (IOError bam_fname))"
proof -
  have a: "\<exists>w'. get_ribosub_bam_reads sample chr_ribo w
                     = Inr (processed_path dir bam_fname ''.ribosub.bam'', w')
                 \<and> fs w' = fs w \<and> cmds w' = cmds w"
    if "fs w bam_fname = Some (BamFile b)" for b
    using get_ribosub_skips [OF assms(1,2) that assms(3)] by blast
  have b: "\<exists>e. get_ribosub_bam_reads sample chr_ribo w = Inl e"
    if "\<forall>b. fs w bam_fname \<noteq> Some (BamFile b)"
    using get_ribosub_needs_input [OF assms(1), of w] that by blast
  have c: "get_ribosub_bam_reads sample chr_ribo w = Inl (IOError bam_fname)"
    if "fs w bam_fname = None"
    using get_ribosub_needs_input [OF assms(1), of w chr_ribo] that by auto
  show ?thesis using a b c by blast
qed

text \<open>
  Claim C10 at a world where the output exists and the alignment file is gone (the call
  raises \<open>IOError\<close>), and at one where both exist (the path is returned, the files stay).
\<close>

theorem get_ribosub_opens_input_first_witness:
  "bam_filename mapped_sample = Some ''out/mapping/s1.bam''
   \<and> processed_bam_dir mapped_sample = Some ''out/mapping/s1/processed_bams''
   \<and> isfile (fs stale_world) ''out/mapping/s1/processed_bams/s1.ribosub.bam''
   \<and> fs stale_world ''out/mapping/s1.bam'' = None
   \<and> get_ribosub_bam_reads mapped_sample ''chrRibo'' stale_world = Inl (IOError ''out/mapping/s1.bam'')
   \<and> isfile (fs (processed_world ribo_bam)) ''out/mapping/s1/processed_bams/s1.ribosub.bam''
   \<and> fs (processed_world ribo_bam) ''out/mapping/s1.bam'' = Some (BamFile ribo_bam)
   \<and> (\<exists>w'. get_ribosub_bam_reads mapped_sample ''chrRibo'' (processed_world ribo_bam)
              = Inr (''out/mapping/s1/processed_bams/s1.ribosub.bam'', w')
          \<and> fs w' = fs (processed_world ribo_bam))"
proof -
  have h: "bam_filename mapped_sample = Some ''out/mapping/s1.bam''"
    "processed_bam_dir mapped_sample = Some ''out/mapping/s1/processed_bams''"
    by (simp_all add: mapped_sample_def)
  have s: "isfile (fs stale_world)
             (processed_path ''out/mapping/s1/processed_bams'' ''out/mapping/s1.bam'' ''.ribosub.bam'')"
    "fs stale_world ''out/mapping/s1.bam'' = None"
    by (simp_all add: stale_world_def isfile_def processed_path_s1)
  have p: "isfile (fs (processed_world ribo_bam))
             (processed_path ''out/mapping/s1/processed_bams'' ''out/mapping/s1.bam'' ''.ribosub.bam'')"
    "fs (processed_world ribo_bam) ''out/mapping/s1.bam'' = Some (BamFile ribo_bam)"
    by (simp_all add: processed_world_def isfile_def processed_path_s1)
  from get_ribosub_opens_input_first [OF h s(1), of "''chrRibo''"] s(2)
  have a: "get_ribosub_bam_reads mapped_sample ''chrRibo'' stale_world = Inl (IOError ''out/mapping/s1.bam'')"
    by blast
  from get_ribosub_opens_input_first [OF h p(1), of "''chrRibo''"] p(2)
  have b: "\<exists>w'. get_ribosub_bam_reads mapped_sample ''chrRibo'' (processed_world ribo_bam)
              = Inr (''out/mapping/s1/processed_bams/s1.ribosub.bam'', w')
          \<and> fs w' = fs (processed_world ribo_bam)"
    unfolding processed_path_s1 by auto
  from h s p a b show ?thesis unfolding processed_path_s1 by simp
qed

section \<open>Properties of the table merge\<close>

text \<open>
  A row of a merged pair of tables is a row of the left and a row of the right table with
  the same key, side by side; so the keys of the merge are the keys the two tables share.
  Merging in the tables of a list of samples keeps the keys that every one of them has, and
  each row carries cells of one row of every sample.
\<close>

lemma rows_pandas_merge:
  "(k, cs) \<in> set (rows (pandas_merge l r))
     \<longleftrightarrow> (\<exists>cl cr. (k, cl) \<in> set (rows l) \<and> (k, cr) \<in> set (rows r) \<and> cs = cl @ cr)"
  by (force simp: pandas_merge_def Let_def)

lemma table_keys_iff: "k \<in> table_keys t \<longleftrightarrow> (\<exists>cs. (k, cs) \<in> set (rows t))"
  by (force simp: table_keys_def)

lemma table_keys_pandas_merge:
  "table_keys (pandas_merge l r) = table_keys l \<inter> table_keys r"
proof (rule set_eqI)
  fix k
  show "k \<in> table_keys (pandas_merge l r) \<longleftrightarrow> k \<in> table_keys l \<inter> table_keys r"
    unfolding Int_iff table_keys_iff rows_pandas_merge by blast
qed

lemma merge_next_samples_keys:
  "merge_next_samples name t ss = Inr c \<Longrightarrow>
     (k \<in> table_keys c \<longleftrightarrow>
        k \<in> table_keys t \<and> (\<forall>s\<in>set ss. \<exists>t'. rpkm_tables s name = Some t' \<and> k \<in> table_keys t'))"
proof (induction ss arbitrary: t)
  case Nil
  then show ?case by simp
next
  case (Cons s ss)
  from Cons.prems obtain t1 where t1: "rpkm_tables s name = Some t1"
    and rest: "merge_next_samples name (pandas_merge t t1) ss = Inr c"
    by (auto split: option.splits)
  from Cons.IH [OF rest] t1 show ?case
    by (auto simp: table_keys_pandas_merge)
qed

lemma merge_next_samples_cells:
  "merge_next_samples name t ss = Inr c \<Longrightarrow> (k, cs) \<in> set (rows c) \<Longrightarrow>
     \<exists>c0 css. (k, c0) \<in> set (rows t) \<and> cs = c0 @ concat css
       \<and> list_all2 (\<lambda>s cells. \<exists>t'. rpkm_tables s name = Some t' \<and> (k, cells) \<in> set (rows t')) ss css"
proof (induction ss arbitrary: t)
  case Nil
  then show ?case by auto
next
  case (Cons s ss)
  from Cons.prems(1) obtain t1 where t1: "rpkm_tables s name = Some t1"
    and rest: "merge_next_samples name (pandas_merge t t1) ss = Inr c"
    by (auto split: option.splits)
  from Cons.IH [OF rest Cons.prems(2)] obtain c01 css where
    c01: "(k, c01) \<in> set (rows (pandas_merge t t1))" and cs: "cs = c01 @ concat css"
    and all: "list_all2 (\<lambda>s cells. \<exists>t'. rpkm_tables s name = Some t' \<and> (k, cells) \<in> set (rows t')) ss css"
    by blast
  from c01 obtain c0 c1 where c0: "(k, c0) \<in> set (rows t)" and c1: "(k, c1) \<in> set (rows t1)"
    and c01_eq: "c01 = c0 @ c1"
    by (auto simp: rows_pandas_merge)
  have "cs = c0 @ concat (c1 # css)" using cs c01_eq by simp
  moreover have "list_all2 (\<lambda>s cells. \<exists>t'. rpkm_tables s name = Some t' \<and> (k, cells) \<in> set (rows t'))
                   (s # ss) (c1 # css)"
    using all t1 c1 by simp
  ultimately show ?case using c0 by blast
qed

lemma merge_next_samples_total:
  "(\<forall>s\<in>set ss. rpkm_tables s name \<noteq> None) \<Longrightarrow> \<exists>c. merge_next_samples name t ss = Inr c"
  by (induction ss arbitrary: t) auto

lemma merge_next_samples_Inr_present:
  "merge_next_samples name t ss = Inr c \<Longrightarrow> \<forall>s\<in>set ss. rpkm_tables s name \<noteq> None"
  by (induction ss arbitrary: t) (auto split: option.splits)

text \<open>
  The loop over the table names: what it leaves under a name depends on that name and the
  samples only.
\<close>

lemma load_rpkms_loop_result:
  "load_rpkms_loop (first # rest) names acc = Inr m \<Longrightarrow>
   m name = (if name \<in> set names then
               (case rpkm_tables first name of
                  None \<Rightarrow> acc name
                | Some t \<Rightarrow>
                    if rest = [] then Some t
                    else (case merge_next_samples name t rest of
                            Inl e \<Rightarrow> acc name
                          | Inr c \<Rightarrow> Some c))
             else acc name)"
proof (induction names arbitrary: acc)
  case Nil
  then show ?case by simp
next
  case (Cons n ns)
  show ?case
  proof (cases "rpkm_tables first n")
    case None
    with Cons.prems have "load_rpkms_loop (first # rest) ns acc = Inr m" by simp
    from Cons.IH [OF this] None show ?thesis by auto
  next
    case (Some t)
    show ?thesis
    proof (cases "rest = []")
      case True
      with Some Cons.prems have "load_rpkms_loop (first # rest) ns (acc(n := Some t)) = Inr m"
        by simp
      from Cons.IH [OF this] Some True show ?thesis by (auto split: option.splits)
    next
      case False
      with Some Cons.prems obtain c where c: "merge_next_samples n t rest = Inr c"
        and "load_rpkms_loop (first # rest) ns (acc(n := Some c)) = Inr m"
        by (auto split: sum.splits)
      from Cons.IH [OF this(2)] Some False c show ?thesis
        by (auto split: option.splits sum.splits)
    qed
  qed
qed

lemma load_rpkms_loop_total:
  "(\<forall>name\<in>set names. rpkm_tables first name \<noteq> None \<longrightarrow> (\<forall>s\<in>set rest. rpkm_tables s name \<noteq> None))
   \<Longrightarrow> \<exists>m. load_rpkms_loop (first # rest) names acc = Inr m"
proof (induction names arbitrary: acc)
  case Nil
  then show ?case by simp
next
  case (Cons n ns)
  show ?case
  proof (cases "rpkm_tables first n")
    case None
    with Cons show ?thesis by simp
  next
    case (Some t)
    with Cons.prems have "\<forall>s\<in>set rest. rpkm_tables s n \<noteq> None" by simp
    from merge_next_samples_total [OF this] obtain c where c: "merge_next_samples n t rest = Inr c"
      by blast
    have ih: "\<exists>m. load_rpkms_loop (first # rest) ns acc' = Inr m" for acc'
      using Cons.IH Cons.prems by simp
    have "load_rpkms_loop (first # rest) (n # ns) acc
        = load_rpkms_loop (first # rest) ns (acc(n := Some (if rest = [] then t else c)))"
      using Some c by (cases "rest = []") simp_all
    then show ?thesis using ih by simp
  qed
qed

lemma load_rpkms_loop_merged:
  "load_rpkms_loop (first # rest) names acc = Inr m \<Longrightarrow> name \<in> set names \<Longrightarrow>
   rpkm_tables first name = Some t \<Longrightarrow> rest \<noteq> [] \<Longrightarrow>
   \<exists>c. merge_next_samples name t rest = Inr c"
proof (induction names arbitrary: acc)
  case Nil
  then show ?case by simp
next
  case (Cons n ns)
  show ?case
  proof (cases "n = name")
    case True
    with Cons.prems show ?thesis by (auto split: sum.splits)
  next
    case False
    with Cons.prems have "name \<in> set ns" by simp
    moreover from Cons.prems(1) obtain acc' where
      "load_rpkms_loop (first # rest) ns acc' = Inr m"
      by (auto split: option.splits if_splits sum.splits)
    ultimately show ?thesis using Cons.IH Cons.prems(3,4) by blast
  qed
qed

text \<open>
  Claim C3. The pipeline has a first sample and further ones. \<open>load_rpkms\<close> returns when
  every further sample has each table that the first one has (otherwise the merge raises),
  and when it returns then for every table name of the annotation: a table that the first
  sample lacks is skipped, whatever the other samples have; with one sample alone its table
  is passed through as it is; with several samples the merged table has a row for a key
  exactly when the table of every sample has a row for that key, and the cells of each of
  its rows are the cells of one row with that key from every sample, in the order of the
  samples: a key missing anywhere is dropped and no cell is made up.
\<close>

theorem load_rpkms_inner_join:
  assumes smp: "samples self = first # rest"
  shows "((\<forall>name\<in>set (rpkm_table_names self).
            load_sample_rpkms ext first name \<noteq> None \<longrightarrow>
            (\<forall>s\<in>set rest. load_sample_rpkms ext s name \<noteq> None))
          \<longrightarrow> (\<exists>self'. load_rpkms ext self = Inr self'))
       \<and> (\<forall>self' name. load_rpkms ext self = Inr self' \<and> name \<in> set (rpkm_table_names self) \<longrightarrow>
            (load_sample_rpkms ext first name = None \<longrightarrow> pipeline_rpkm_tables self' name = None)
          \<and> (rest = [] \<longrightarrow> pipeline_rpkm_tables self' name = load_sample_rpkms ext first name)
          \<and> (rest \<noteq> [] \<and> load_sample_rpkms ext first name \<noteq> None \<longrightarrow>
               (\<exists>t. pipeline_rpkm_tables self' name = Some t
                  \<and> (\<forall>k. k \<in> table_keys t \<longleftrightarrow>
                        (\<forall>s\<in>set (samples self).
                            \<exists>t'. load_sample_rpkms ext s name = Some t' \<and> k \<in> table_keys t'))
                  \<and> (\<forall>k cs. (k, cs) \<in> set (rows t) \<longrightarrow>
                        (\<exists>css. cs = concat css
                           \<and> list_all2 (\<lambda>s cells. \<exists>t'. load_sample_rpkms ext s name = Some t'
                                                    \<and> (k, cells) \<in> set (rows t'))
                                (samples self) css)))))"
proof -
  let ?upd = "\<lambda>sample. sample\<lparr>rpkm_tables := load_sample_rpkms ext sample\<rparr>"
  let ?first = "?upd first" and ?rest = "map ?upd rest"
  let ?names = "rpkm_table_names self"
  have run: "load_rpkms ext self =
      (case load_rpkms_loop (?first # ?rest) ?names (\<lambda>name. None) of
         Inl e \<Rightarrow> Inl e
       | Inr tables \<Rightarrow> Inr (self\<lparr>samples := ?first # ?rest, pipeline_rpkm_tables := tables\<rparr>))"
    by (simp add: load_rpkms_def smp Let_def)
  have total: "\<exists>self'. load_rpkms ext self = Inr self'"
    if "\<forall>name\<in>set ?names. load_sample_rpkms ext first name \<noteq> None \<longrightarrow>
            (\<forall>s\<in>set rest. load_sample_rpkms ext s name \<noteq> None)"
  proof -
    from that have "\<forall>name\<in>set ?names. rpkm_tables ?first name \<noteq> None \<longrightarrow>
                      (\<forall>s\<in>set ?rest. rpkm_tables s name \<noteq> None)"
      by simp
    from load_rpkms_loop_total [OF this] obtain m where
      "load_rpkms_loop (?first # ?rest) ?names (\<lambda>name. None) = Inr m" by blast
    then show ?thesis by (simp add: run)
  qed
  have result: "(load_sample_rpkms ext first name = None \<longrightarrow> pipeline_rpkm_tables self' name = None)
          \<and> (rest = [] \<longrightarrow> pipeline_rpkm_tables self' name = load_sample_rpkms ext first name)
          \<and> (rest \<noteq> [] \<and> load_sample_rpkms ext first name \<noteq> None \<longrightarrow>
               (\<exists>t. pipeline_rpkm_tables self' name = Some t
                  \<and> (\<forall>k. k \<in> table_keys t \<longleftrightarrow>
                        (\<forall>s\<in>set (samples self).
                            \<exists>t'. load_sample_rpkms ext s name = Some t' \<and> k \<in> table_keys t'))
                  \<and> (\<forall>k cs. (k, cs) \<in> set (rows t) \<longrightarrow>
                        (\<exists>css. cs = concat css
                           \<and> list_all2 (\<lambda>s cells. \<exists>t'. load_sample_rpkms ext s name = Some t'
                                                    \<and> (k, cells) \<in> set (rows t'))
                                (samples self) css))))"
    if ok: "load_rpkms ext self = Inr self'" and name: "name \<in> set ?names" for self' name
  proof -
    from ok obtain m where m: "load_rpkms_loop (?first # ?rest) ?names (\<lambda>name. None) = Inr m"
      and tabs: "pipeline_rpkm_tables self' = m"
      by (auto simp: run split: sum.splits)
    from load_rpkms_loop_result [OF m, of name] name
    have val: "m name = (case load_sample_rpkms ext first name of
                  None \<Rightarrow> None
                | Some t \<Rightarrow>
                    if rest = [] then Some t
                    else (case merge_next_samples name t ?rest of
                            Inl e \<Rightarrow> None
                          | Inr c \<Rightarrow> Some c))"
      by (simp split: option.splits)
    have a: "pipeline_rpkm_tables self' name = None" if "load_sample_rpkms ext first name = None"
      using val that tabs by simp
    have b: "pipeline_rpkm_tables self' name = load_sample_rpkms ext first name" if "rest = []"
      using val that tabs by (simp split: option.splits)
    have c: "\<exists>t. pipeline_rpkm_tables self' name = Some t
                  \<and> (\<forall>k. k \<in> table_keys t \<longleftrightarrow>
                        (\<forall>s\<in>set (samples self).
                            \<exists>t'. load_sample_rpkms ext s name = Some t' \<and> k \<in> table_keys t'))
                  \<and> (\<forall>k cs. (k, cs) \<in> set (rows t) \<longrightarrow>
                        (\<exists>css. cs = concat css
                           \<and> list_all2 (\<lambda>s cells. \<exists>t'. load_sample_rpkms ext s name = Some t'
                                                    \<and> (k, cells) \<in> set (rows t'))
                                (samples self) css))"
      if ne: "rest \<noteq> []" and has: "load_sample_rpkms ext first name \<noteq> None"
    proof -
      from has obtain t0 where t0: "load_sample_rpkms ext first name = Some t0" by blast
      have "\<exists>c. merge_next_samples name t0 ?rest = Inr c"
        using load_rpkms_loop_merged [OF m name, of t0] t0 ne by simp
      then obtain c where c: "merge_next_samples name t0 ?rest = Inr c" by blast
      with val t0 ne tabs have t: "pipeline_rpkm_tables self' name = Some c" by simp
      have keys: "k \<in> table_keys c \<longleftrightarrow>
                        (\<forall>s\<in>set (samples self).
                            \<exists>t'. load_sample_rpkms ext s name = Some t' \<and> k \<in> table_keys t')" for k
        using merge_next_samples_keys [OF c, of k] t0 by (simp add: smp)
      have cells: "\<exists>css. cs = concat css
                           \<and> list_all2 (\<lambda>s cells. \<exists>t'. load_sample_rpkms ext s name = Some t'
                                                    \<and> (k, cells) \<in> set (rows t'))
                                (samples self) css"
        if "(k, cs) \<in> set (rows c)" for k cs
      proof -
        from merge_next_samples_cells [OF c that] obtain c0 css where
          c0: "(k, c0) \<in> set (rows t0)" and cs: "cs = c0 @ concat css"
          and all: "list_all2 (\<lambda>s cells. \<exists>t'. rpkm_tables s name = Some t' \<and> (k, cells) \<in> set (rows t'))
                      ?rest css" by blast
        from all have "list_all2 (\<lambda>s cells. \<exists>t'. load_sample_rpkms ext s name = Some t'
                                                    \<and> (k, cells) \<in> set (rows t')) rest css"
          by (simp add: list_all2_map1)
        with c0 t0 have "list_all2 (\<lambda>s cells. \<exists>t'. load_sample_rpkms ext s name = Some t'
                                                    \<and> (k, cells) \<in> set (rows t')) (first # rest) (c0 # css)"
          by simp
        moreover have "cs = concat (c0 # css)" using cs by simp
        ultimately show ?thesis unfolding smp by blast
      qed
      from t keys cells show ?thesis by blast
    qed
    from a b c show ?thesis by blast
  qed
  from total result show ?thesis by blast
qed

text \<open>
  Claim C3 at three samples whose tables \<open>ensGene\<close> all have gene \<open>G1\<close> while the second
  lacks \<open>G2\<close>, and where \<open>refGene\<close> is missing in the first sample only: the merged table
  has \<open>G1\<close> and not \<open>G2\<close>, and \<open>refGene\<close> is skipped. With the first sample alone its
  table is the result.
\<close>

theorem load_rpkms_inner_join_witness:
  "samples three_pipeline = mapped_sample\<lparr>label := ''a''\<rparr> # [mapped_sample\<lparr>label := ''b''\<rparr>, mapped_sample\<lparr>label := ''c''\<rparr>]
   \<and> (\<exists>self' t. load_rpkms fake_tools three_pipeline = Inr self'
         \<and> pipeline_rpkm_tables self' ''ensGene'' = Some t
         \<and> gene_key ''G1'' \<in> table_keys t \<and> gene_key ''G2'' \<notin> table_keys t
         \<and> pipeline_rpkm_tables self' ''refGene'' = None)
   \<and> samples (three_pipeline\<lparr>samples := [mapped_sample\<lparr>label := ''a''\<rparr>]\<rparr>) = mapped_sample\<lparr>label := ''a''\<rparr> # []
   \<and> (\<exists>self'. load_rpkms fake_tools (three_pipeline\<lparr>samples := [mapped_sample\<lparr>label := ''a''\<rparr>]\<rparr>) = Inr self'
         \<and> pipeline_rpkm_tables self' ''ensGene'' = Some (sample_table ''a'' [''G1'', ''G2'']))"
proof -
  define a b c where "a = mapped_sample\<lparr>label := ''a''\<rparr>" and "b = mapped_sample\<lparr>label := ''b''\<rparr>"
    and "c = mapped_sample\<lparr>label := ''c''\<rparr>"
  have lbl: "label a = ''a''" "label b = ''b''" "label c = ''c''"
    by (simp_all add: a_def b_def c_def)
  have smp: "samples three_pipeline = a # [b, c]"
    by (simp add: three_pipeline_def a_def b_def c_def)
  have names: "rpkm_table_names three_pipeline = [''ensGene'', ''refGene'']"
    by (simp add: three_pipeline_def)
  have tabs: "load_sample_rpkms fake_tools = three_tables"
    by (simp add: fake_tools_def)
  have ens: "three_tables a ''ensGene'' = Some (sample_table ''a'' [''G1'', ''G2''])"
    "three_tables b ''ensGene'' = Some (sample_table ''b'' [''G1''])"
    "three_tables c ''ensGene'' = Some (sample_table ''c'' [''G1'', ''G2''])"
    by (simp_all add: three_tables_def lbl)
  have refg: "three_tables a ''refGene'' = None"
    by (simp add: three_tables_def lbl)
  note inst = load_rpkms_inner_join [OF smp, of fake_tools]
  note total = inst [THEN conjunct1, rule_format]
  note res = inst [THEN conjunct2, rule_format]
  have "\<exists>self'. load_rpkms fake_tools three_pipeline = Inr self'"
  proof (rule total)
    fix name s
    assume "name \<in> set (rpkm_table_names three_pipeline)"
      and "load_sample_rpkms fake_tools a name \<noteq> None" and "s \<in> set [b, c]"
    then show "load_sample_rpkms fake_tools s name \<noteq> None"
      by (auto simp: names tabs ens refg)
  qed
  then obtain self' where run: "load_rpkms fake_tools three_pipeline = Inr self'" by blast
  have in1: "load_rpkms fake_tools three_pipeline = Inr self' \<and> ''ensGene'' \<in> set (rpkm_table_names three_pipeline)"
    and in2: "load_rpkms fake_tools three_pipeline = Inr self' \<and> ''refGene'' \<in> set (rpkm_table_names three_pipeline)"
    using run by (simp_all add: names)
  have ref: "pipeline_rpkm_tables self' ''refGene'' = None"
    using res [OF in2, THEN conjunct1] by (simp add: tabs refg)
  have "[b, c] \<noteq> [] \<and> load_sample_rpkms fake_tools a ''ensGene'' \<noteq> None"
    by (simp add: tabs ens)
  from res [OF in1, THEN conjunct2, THEN conjunct2, rule_format, OF this]
  obtain t where t: "pipeline_rpkm_tables self' ''ensGene'' = Some t"
    and keys: "\<forall>k. k \<in> table_keys t \<longleftrightarrow>
                        (\<forall>s\<in>set (samples three_pipeline).
                            \<exists>t'. load_sample_rpkms fake_tools s ''ensGene'' = Some t' \<and> k \<in> table_keys t')"
    by blast
  have "\<forall>s\<in>set (samples three_pipeline).
          \<exists>t'. load_sample_rpkms fake_tools s ''ensGene'' = Some t' \<and> gene_key ''G1'' \<in> table_keys t'"
    by (simp add: smp tabs ens sample_table_def table_keys_def)
  with keys have g1: "gene_key ''G1'' \<in> table_keys t" by blast
  have "\<not> (\<forall>s\<in>set (samples three_pipeline).
          \<exists>t'. load_sample_rpkms fake_tools s ''ensGene'' = Some t' \<and> gene_key ''G2'' \<in> table_keys t')"
    by (simp add: smp tabs ens sample_table_def table_keys_def gene_key_def)
  with keys have g2: "gene_key ''G2'' \<notin> table_keys t" by blast
  define one where "one = three_pipeline\<lparr>samples := [a]\<rparr>"
  have smp1: "samples one = a # []" by (simp add: one_def)
  have names1: "rpkm_table_names one = [''ensGene'', ''refGene'']"
    by (simp add: one_def three_pipeline_def)
  note inst1 = load_rpkms_inner_join [OF smp1, of fake_tools]
  have "\<exists>self'. load_rpkms fake_tools one = Inr self'"
    by (rule inst1 [THEN conjunct1, rule_format]) simp
  then obtain self1 where run1: "load_rpkms fake_tools one = Inr self1" by blast
  then have "load_rpkms fake_tools one = Inr self1 \<and> ''ensGene'' \<in> set (rpkm_table_names one)"
    by (simp add: names1)
  from inst1 [THEN conjunct2, rule_format, OF this, THEN conjunct2, THEN conjunct1]
  have "pipeline_rpkm_tables self1 ''ensGene'' = Some (sample_table ''a'' [''G1'', ''G2''])"
    by (simp add: tabs ens)
  with run1 have single: "\<exists>self'. load_rpkms fake_tools one = Inr self'
         \<and> pipeline_rpkm_tables self' ''ensGene'' = Some (sample_table ''a'' [''G1'', ''G2''])"
    by blast
  from smp run t g1 g2 ref smp1 single show ?thesis unfolding a_def b_def c_def one_def by blast
qed

section \<open>Properties of preprocessing\<close>

text \<open>
  \<open>Sample.__init__\<close> sets the flag \<open>paired\<close> exactly when the raw data is a list, and no
  function of these files assigns either attribute afterwards. A sample in this state
  formats into a log message without error; then each branch of \<open>preprocess_reads\<close> is
  the sequence of its steps.
\<close>

lemma Sample_init_paired_is_list:
  "Sample_init lbl rd = Inr s \<Longrightarrow> paired s = is_list (rawdata s)"
  by (auto simp: Sample_init_def Let_def split: rawdata.splits list.splits)

lemma Sample_repr_Single:
  "rawdata sample = Single rd \<Longrightarrow> \<not> paired sample \<Longrightarrow>
   Sample_repr sample = Inr (''Sample('' @ label sample @ '', samples='' @ label_rd rd @ '')'')"
  by (simp add: Sample_repr_def)

lemma Sample_repr_well_formed:
  "paired sample = is_list (rawdata sample) \<Longrightarrow> \<exists>repr. Sample_repr sample = Inr repr"
  by (cases "rawdata sample") (simp_all add: Sample_repr_def)

lemma preprocess_other:
  assumes "paired sample = is_list (rawdata sample)"
    and "sample_type sample \<noteq> Some ''riboseq''" "sample_type sample \<noteq> Some ''clipseq''"
  shows "\<exists>w'. preprocess_reads ext self sample w = Inr (sample, w') \<and> fs w' = fs w \<and> cmds w' = cmds w"
proof -
  from Sample_repr_well_formed [OF assms(1)] obtain repr where "Sample_repr sample = Inr repr"
    by blast
  then show ?thesis
    using assms(2,3) by (simp add: preprocess_reads_def Let_def logger_info_def)
qed

lemma preprocess_riboseq:
  assumes "rawdata sample = Single rd" "\<not> paired sample"
    and "sample_type sample = Some ''riboseq''"
  shows "preprocess_reads ext self sample w = Inr (s', w') \<longleftrightarrow>
          (\<exists>outdir trimmed. pipeline_outdirs self ''rawdata'' = Some outdir
             \<and> trim_polyA_ends ext (seq_filename rd) outdir
                  (logger_info ''Trimming polyAs..''
                    (logger_info (''Preprocessing: Sample('' @ label sample @ '', samples=''
                                   @ label_rd rd @ '')'') w))
                 = Inr (trimmed, w')
             \<and> s' = sample\<lparr>rawdata := Single (rd\<lparr>reads_filename := trimmed\<rparr>)\<rparr>)"
  using assms(1,3)
  by (auto simp: preprocess_reads_def Sample_repr_Single [OF assms(1,2)] Let_def
      split: option.splits sum.splits)

lemma preprocess_clipseq:
  assumes "rawdata sample = Single rd" "\<not> paired sample"
    and "sample_type sample = Some ''clipseq''"
  shows "preprocess_reads ext self sample w = Inr (s', w') \<longleftrightarrow>
          (\<exists>outdir w2 trimmed w3 collapsed w4.
               pipeline_outdirs self ''rawdata'' = Some outdir
             \<and> check_clip_utils ext
                  (logger_info (''Preprocessing: Sample('' @ label sample @ '', samples=''
                                 @ label_rd rd @ '')'') w) = Inr w2
             \<and> trim_clip_adaptors ext (seq_filename rd) (adaptors_filename self) outdir 5 w2
                 = Inr (trimmed, w3)
             \<and> collapse_clip_reads ext
                  (sample\<lparr>rawdata := Single (rd\<lparr>reads_filename := trimmed\<rparr>)\<rparr>) outdir w3
                 = Inr (collapsed, w4)
             \<and> w' = logger_info (''Collapsed reads filename: '' @ collapsed) w4
             \<and> s' = sample\<lparr>rawdata := Single (rd\<lparr>reads_filename := collapsed,
                                                   collapsed_seq_filename := Some collapsed\<rparr>)\<rparr>)"
  using assms(1,3)
  by (auto simp: preprocess_reads_def Sample_repr_Single [OF assms(1,2)] Let_def
      split: option.splits sum.splits)

text \<open>
  No sample whose raw data is a list gets through the \<open>riboseq\<close> or the \<open>clipseq\<close> branch:
  both read the attribute \<open>seq_filename\<close> of the raw data.
\<close>

lemma preprocess_list_rawdata_raises:
  assumes "rawdata sample = Group rs"
    and "sample_type sample = Some ''riboseq'' \<or> sample_type sample = Some ''clipseq''"
  shows "preprocess_reads ext self sample w \<noteq> Inr (s', w')"
  using assms
  by (auto simp: preprocess_reads_def Let_def split: sum.splits)

text \<open>
  Claim C8, as amended. For every sample in the state \<open>Sample.__init__\<close> leaves (the flag
  \<open>paired\<close> set exactly when the raw data is a list), paired or not, whose type is neither
  \<open>riboseq\<close> nor \<open>clipseq\<close>: \<open>preprocess_reads\<close> returns the sample as it is, so every
  reads path of it is unchanged, and touches no file and starts no command. For a sample
  whose raw data is one \<open>SampleRawdata\<close> object (an unpaired sample): when its type is
  \<open>riboseq\<close>, the call returns exactly when the poly-A trimming of the original sequence
  file returns, and the sample returned has the trimmed path as its reads path; when it is
  \<open>clipseq\<close>, the call returns exactly when the check of the tools, then the adaptor
  trimming of the original sequence file, then the collapsing of duplicates, run on the
  sample with the trimmed reads path in the state the trimming left, all return, and the
  sample returned has the collapsed path as its reads path.
\<close>

theorem preprocess_reads_by_type:
  "(paired sample = is_list (rawdata sample)
      \<and> sample_type sample \<noteq> Some ''riboseq'' \<and> sample_type sample \<noteq> Some ''clipseq'' \<longrightarrow>
        (\<exists>w'. preprocess_reads ext self sample w = Inr (sample, w')
             \<and> fs w' = fs w \<and> cmds w' = cmds w))
   \<and> (\<forall>rd. rawdata sample = Single rd \<and> \<not> paired sample
             \<and> sample_type sample = Some ''riboseq'' \<longrightarrow>
           (\<forall>s' w'. preprocess_reads ext self sample w = Inr (s', w') \<longleftrightarrow>
              (\<exists>outdir trimmed. pipeline_outdirs self ''rawdata'' = Some outdir
                 \<and> trim_polyA_ends ext (seq_filename rd) outdir
                      (logger_info ''Trimming polyAs..''
                        (logger_info (''Preprocessing: Sample('' @ label sample @ '', samples=''
                                       @ label_rd rd @ '')'') w))
                     = Inr (trimmed, w')
                 \<and> s' = sample\<lparr>rawdata := Single (rd\<lparr>reads_filename := trimmed\<rparr>)\<rparr>)))
   \<and> (\<forall>rd. rawdata sample = Single rd \<and> \<not> paired sample
             \<and> sample_type sample = Some ''clipseq'' \<longrightarrow>
           (\<forall>s' w'. preprocess_reads ext self sample w = Inr (s', w') \<longleftrightarrow>
              (\<exists>outdir w2 trimmed w3 collapsed w4.
                   pipeline_outdirs self ''rawdata'' = Some outdir
                 \<and> check_clip_utils ext
                      (logger_info (''Preprocessing: Sample('' @ label sample @ '', samples=''
                                     @ label_rd rd @ '')'') w) = Inr w2
                 \<and> trim_clip_adaptors ext (seq_filename rd) (adaptors_filename self) outdir 5 w2
                     = Inr (trimmed, w3)
                 \<and> collapse_clip_reads ext
                      (sample\<lparr>rawdata := Single (rd\<lparr>reads_filename := trimmed\<rparr>)\<rparr>) outdir w3
                     = Inr (collapsed, w4)
                 \<and> w' = logger_info (''Collapsed reads filename: '' @ collapsed) w4
                 \<and> s' = sample\<lparr>rawdata := Single (rd\<lparr>reads_filename := collapsed,
                                                       collapsed_seq_filename := Some collapsed\<rparr>)\<rparr>)))"
proof (intro conjI allI impI)
  assume "paired sample = is_list (rawdata sample)
      \<and> sample_type sample \<noteq> Some ''riboseq'' \<and> sample_type sample \<noteq> Some ''clipseq''"
  then have h: "paired sample = is_list (rawdata sample)"
    "sample_type sample \<noteq> Some ''riboseq''" "sample_type sample \<noteq> Some ''clipseq''"
    by simp_all
  show "\<exists>w'. preprocess_reads ext self sample w = Inr (sample, w') \<and> fs w' = fs w \<and> cmds w' = cmds w"
    by (rule preprocess_other [OF h])
next
  fix rd s' w'
  assume "rawdata sample = Single rd \<and> \<not> paired sample \<and> sample_type sample = Some ''riboseq''"
  then have h: "rawdata sample = Single rd" "\<not> paired sample" "sample_type sample = Some ''riboseq''"
    by simp_all
  show "preprocess_reads ext self sample w = Inr (s', w') \<longleftrightarrow>
              (\<exists>outdir trimmed. pipeline_outdirs self ''rawdata'' = Some outdir
                 \<and> trim_polyA_ends ext (seq_filename rd) outdir
                      (logger_info ''Trimming polyAs..''
                        (logger_info (''Preprocessing: Sample('' @ label sample @ '', samples=''
                                       @ label_rd rd @ '')'') w))
                     = Inr (trimmed, w')
                 \<and> s' = sample\<lparr>rawdata := Single (rd\<lparr>reads_filename := trimmed\<rparr>)\<rparr>)"
    by (rule preprocess_riboseq [OF h])
next
  fix rd s' w'
  assume "rawdata sample = Single rd \<and> \<not> paired sample \<and> sample_type sample = Some ''clipseq''"
  then have h: "rawdata sample = Single rd" "\<not> paired sample" "sample_type sample = Some ''clipseq''"
    by simp_all
  show "preprocess_reads ext self sample w = Inr (s', w') \<longleftrightarrow>
              (\<exists>outdir w2 trimmed w3 collapsed w4.
                   pipeline_outdirs self ''rawdata'' = Some outdir
                 \<and> check_clip_utils ext
                      (logger_info (''Preprocessing: Sample('' @ label sample @ '', samples=''
                                     @ label_rd rd @ '')'') w) = Inr w2
                 \<and> trim_clip_adaptors ext (seq_filename rd) (adaptors_filename self) outdir 5 w2
                     = Inr (trimmed, w3)
                 \<and> collapse_clip_reads ext
                      (sample\<lparr>rawdata := Single (rd\<lparr>reads_filename := trimmed\<rparr>)\<rparr>) outdir w3
                     = Inr (collapsed, w4)
                 \<and> w' = logger_info (''Collapsed reads filename: '' @ collapsed) w4
                 \<and> s' = sample\<lparr>rawdata := Single (rd\<lparr>reads_filename := collapsed,
                                                       collapsed_seq_filename := Some collapsed\<rparr>)\<rparr>)"
    by (rule preprocess_clipseq [OF h])
qed

text \<open>
  Claim C8 as stated, for every sample, fails: for a ribosome-profiling sample whose raw
  data is a list of two raw samples, \<open>preprocess_reads\<close> raises \<open>AttributeError\<close> and
  sets no reads path.
\<close>

theorem preprocess_reads_paired_counterexample:
  "sample_type paired_ribo_sample = Some ''riboseq''
   \<and> preprocess_reads fake_tools one_sample_pipeline paired_ribo_sample one_sample_world
       = Inl (AttributeError ''seq_filename'')"
  by (simp add: preprocess_reads_def paired_ribo_sample_def mapped_sample_def Sample_repr_def Let_def)

text \<open>
  The adaptor trimming of \<open>reads/s1.fastq\<close> with the stand-in tools returns the path
  \<open>out/rawdata/s1_trimmed.fastq.gz\<close>.
\<close>

lemma trim_clip_adaptors_example:
  "\<exists>w3. trim_clip_adaptors fake_tools ''reads/s1.fastq'' (Some ''adaptors.txt'') ''out/rawdata'' 5
      (logger_info m clip_world) = Inr (''out/rawdata/s1_trimmed.fastq.gz'', w3)"
  by (simp add: trim_clip_adaptors_def fake_tools_def clip_world_def logger_info_def
      logger_critical_def Let_def basename_def join_def startswith_def endswith_def isfile_def
      read_text_def)

text \<open>
  The amended claim C8 at an unpaired and at a paired \<open>rnaseq\<close> sample, and at a \<open>riboseq\<close>
  and a \<open>clipseq\<close> sample built from the raw sample \<open>s1\<close>: unchanged, unchanged, reads
  path \<open>out/rawdata/s1.fastq.polyA_trimmed\<close>, and reads path
  \<open>out/rawdata/s1.collapsed.fastq\<close>.
\<close>

theorem preprocess_reads_by_type_witness:
  "rawdata mapped_sample = Single s1_rawdata \<and> \<not> paired mapped_sample
   \<and> sample_type mapped_sample = Some ''rnaseq''
   \<and> (\<exists>w'. preprocess_reads fake_tools one_sample_pipeline mapped_sample one_sample_world
              = Inr (mapped_sample, w'))
   \<and> is_list (rawdata paired_rna_sample) \<and> paired paired_rna_sample
   \<and> sample_type paired_rna_sample = Some ''rnaseq''
   \<and> (\<exists>w'. preprocess_reads fake_tools one_sample_pipeline paired_rna_sample one_sample_world
              = Inr (paired_rna_sample, w') \<and> fs w' = fs one_sample_world)
   \<and> rawdata ribo_sample = Single (s1_rawdata\<lparr>sample_type_rd := Some ''riboseq''\<rparr>)
   \<and> \<not> paired ribo_sample \<and> sample_type ribo_sample = Some ''riboseq''
   \<and> (\<exists>w'. preprocess_reads fake_tools one_sample_pipeline ribo_sample one_sample_world
              = Inr (ribo_sample\<lparr>rawdata := Single (s1_rawdata\<lparr>sample_type_rd := Some ''riboseq'',
                        reads_filename := ''out/rawdata/s1.fastq.polyA_trimmed''\<rparr>)\<rparr>, w'))
   \<and> rawdata clip_sample = Single (s1_rawdata\<lparr>sample_type_rd := Some ''clipseq''\<rparr>)
   \<and> \<not> paired clip_sample \<and> sample_type clip_sample = Some ''clipseq''
   \<and> (\<exists>w'. preprocess_reads fake_tools clip_pipeline clip_sample clip_world
              = Inr (clip_sample\<lparr>rawdata := Single (s1_rawdata\<lparr>sample_type_rd := Some ''clipseq'',
                        reads_filename := ''out/rawdata/s1.collapsed.fastq'',
                        collapsed_seq_filename := Some ''out/rawdata/s1.collapsed.fastq''\<rparr>)\<rparr>, w'))"
proof -
  have m: "rawdata mapped_sample = Single s1_rawdata" "\<not> paired mapped_sample"
    "sample_type mapped_sample = Some ''rnaseq''"
    by (simp_all add: mapped_sample_def)
  have mw: "paired mapped_sample = is_list (rawdata mapped_sample)
      \<and> sample_type mapped_sample \<noteq> Some ''riboseq'' \<and> sample_type mapped_sample \<noteq> Some ''clipseq''"
    by (simp add: mapped_sample_def)
  from preprocess_reads_by_type [of mapped_sample fake_tools one_sample_pipeline one_sample_world,
      THEN conjunct1, rule_format, OF mw]
  have other: "\<exists>w'. preprocess_reads fake_tools one_sample_pipeline mapped_sample one_sample_world
              = Inr (mapped_sample, w')"
    by blast
  have g: "is_list (rawdata paired_rna_sample)" "paired paired_rna_sample"
    "sample_type paired_rna_sample = Some ''rnaseq''"
    by (simp_all add: paired_rna_sample_def mapped_sample_def)
  have gw: "paired paired_rna_sample = is_list (rawdata paired_rna_sample)
      \<and> sample_type paired_rna_sample \<noteq> Some ''riboseq''
      \<and> sample_type paired_rna_sample \<noteq> Some ''clipseq''"
    using g by simp
  from preprocess_reads_by_type [of paired_rna_sample fake_tools one_sample_pipeline one_sample_world,
      THEN conjunct1, rule_format, OF gw]
  have pair: "\<exists>w'. preprocess_reads fake_tools one_sample_pipeline paired_rna_sample one_sample_world
              = Inr (paired_rna_sample, w') \<and> fs w' = fs one_sample_world"
    by blast
  let ?rr = "s1_rawdata\<lparr>sample_type_rd := Some ''riboseq''\<rparr>"
  have r: "rawdata ribo_sample = Single ?rr" "\<not> paired ribo_sample"
    "sample_type ribo_sample = Some ''riboseq''"
    by (simp_all add: ribo_sample_def mapped_sample_def)
  have rw: "rawdata ribo_sample = Single ?rr \<and> \<not> paired ribo_sample
      \<and> sample_type ribo_sample = Some ''riboseq''"
    using r by simp
  have rt: "pipeline_outdirs one_sample_pipeline ''rawdata'' = Some ''out/rawdata''
      \<and> trim_polyA_ends fake_tools (seq_filename ?rr) ''out/rawdata'' w1
          = Inr (''out/rawdata/s1.fastq.polyA_trimmed'', w1)" for w1
    by (simp add: one_sample_pipeline_def fake_tools_def s1_rawdata_def join_def basename_def
        startswith_def endswith_def)
  from preprocess_reads_by_type [of ribo_sample fake_tools one_sample_pipeline one_sample_world,
      THEN conjunct2, THEN conjunct1, rule_format, OF rw] rt
  have ribo: "\<exists>w'. preprocess_reads fake_tools one_sample_pipeline ribo_sample one_sample_world
              = Inr (ribo_sample\<lparr>rawdata := Single (?rr\<lparr>reads_filename := ''out/rawdata/s1.fastq.polyA_trimmed''\<rparr>)\<rparr>, w')"
    by blast
  let ?cr = "s1_rawdata\<lparr>sample_type_rd := Some ''clipseq''\<rparr>"
  have c: "rawdata clip_sample = Single ?cr" "\<not> paired clip_sample"
    "sample_type clip_sample = Some ''clipseq''"
    by (simp_all add: clip_sample_def mapped_sample_def)
  have cw: "rawdata clip_sample = Single ?cr \<and> \<not> paired clip_sample
      \<and> sample_type clip_sample = Some ''clipseq''"
    using c by simp
  let ?w1 = "logger_info (''Preprocessing: Sample('' @ label clip_sample @ '', samples=''
                                     @ label_rd ?cr @ '')'') clip_world"
  have c1: "pipeline_outdirs clip_pipeline ''rawdata'' = Some ''out/rawdata''"
    by (simp add: clip_pipeline_def one_sample_pipeline_def)
  have c2: "check_clip_utils fake_tools ?w1 = Inr ?w1"
    by (simp add: fake_tools_def)
  have sf: "seq_filename ?cr = ''reads/s1.fastq''" "adaptors_filename clip_pipeline = Some ''adaptors.txt''"
    by (simp_all add: s1_rawdata_def clip_pipeline_def)
  from trim_clip_adaptors_example obtain w3 where
    c3: "trim_clip_adaptors fake_tools (seq_filename ?cr) (adaptors_filename clip_pipeline) ''out/rawdata'' 5 ?w1
          = Inr (''out/rawdata/s1_trimmed.fastq.gz'', w3)"
    unfolding sf by blast
  have c4: "collapse_clip_reads fake_tools
              (clip_sample\<lparr>rawdata := Single (?cr\<lparr>reads_filename := ''out/rawdata/s1_trimmed.fastq.gz''\<rparr>)\<rparr>)
              ''out/rawdata'' w3 = Inr (''out/rawdata/s1.collapsed.fastq'', w3)"
    by (simp add: fake_tools_def clip_sample_def mapped_sample_def join_def startswith_def endswith_def)
  from preprocess_reads_by_type [of clip_sample fake_tools clip_pipeline clip_world,
      THEN conjunct2, THEN conjunct2, rule_format, OF cw] c1 c2 c3 c4
  have clip: "\<exists>w'. preprocess_reads fake_tools clip_pipeline clip_sample clip_world
              = Inr (clip_sample\<lparr>rawdata := Single (?cr\<lparr>reads_filename := ''out/rawdata/s1.collapsed.fastq'',
                        collapsed_seq_filename := Some ''out/rawdata/s1.collapsed.fastq''\<rparr>)\<rparr>, w')"
    by blast
  from m other g pair r ribo c clip show ?thesis by simp
qed

section \<open>Properties of the stage cache\<close>

text \<open>
  Each stage that produces a file asks first whether its target is a file. When it is not,
  a stage that runs a tool starts the command once and takes whatever the tool leaves; run
  again on that state with the target in place, it starts no command and writes no file.
  The path a stage returns depends on its arguments only.
\<close>

lemma fs_os_system [simp]: "fs (os_system sh c w) = sh c (fs w)"
  and cmds_os_system [simp]: "cmds (os_system sh c w) = cmds w @ [c]"
  by (simp_all add: os_system_def)

lemma rmdups_bam_twice:
  assumes first: "rmdups_bam ext bam_fname output_dir w = (p1, w1)"
  shows "(\<not> isfile (fs w) p1 \<longrightarrow>
            cmds w1 = cmds w @ [''samtools rmdup -s '' @ bam_fname @ '' '' @ p1]
          \<and> fs w1 = shell ext (''samtools rmdup -s '' @ bam_fname @ '' '' @ p1) (fs w))
       \<and> (isfile (fs w1) p1 \<longrightarrow>
            (\<exists>w2. rmdups_bam ext bam_fname output_dir w1 = (p1, w2)
                 \<and> fs w2 = fs w1 \<and> cmds w2 = cmds w1))"
proof -
  let ?p = "join output_dir (replace (replace (basename bam_fname) ''.bam'' []) ''.sorted.'' [] @ ''.rmdups.bam'')"
  have p: "p1 = ?p"
    using first by (auto simp: rmdups_bam_def Let_def split: if_splits)
  have "\<not> isfile (fs w) ?p \<longrightarrow>
        cmds w1 = cmds w @ [''samtools rmdup -s '' @ bam_fname @ '' '' @ ?p]
      \<and> fs w1 = shell ext (''samtools rmdup -s '' @ bam_fname @ '' '' @ ?p) (fs w)"
    using first unfolding p by (auto simp: rmdups_bam_def Let_def split: if_splits)
  moreover have "isfile (fs w1) ?p \<longrightarrow>
      (\<exists>w2. rmdups_bam ext bam_fname output_dir w1 = (?p, w2) \<and> fs w2 = fs w1 \<and> cmds w2 = cmds w1)"
    by (simp add: rmdups_bam_def Let_def)
  ultimately show ?thesis unfolding p by blast
qed

lemma trim_clip_adaptors_twice:
  assumes first: "trim_clip_adaptors ext fastq adaptors output_dir min_len w = Inr (p1, w1)"
  shows "(\<not> isfile (fs w) p1 \<longrightarrow>
          (\<exists>adaptors_file contents cutadapt_cmd.
             adaptors = Some adaptors_file
           \<and> read_text ext (fs w) adaptors_file = Inr contents
           \<and> cutadapt_cmd = str_opt (which ext ''cutadapt'') @ '' ''
                 @ replace (strip contents) [CHR 0x0A] '' '' @ '' '' @ fastq
                 @ '' -o '' @ p1 @ '' -m '' @ show_int min_len @ '' > '' @ p1 @ ''.log''
           \<and> cmds w1 = cmds w @ [cutadapt_cmd]
           \<and> fs w1 = shell ext cutadapt_cmd (fs w)))
       \<and> (isfile (fs w1) p1 \<longrightarrow>
            (\<exists>w2. trim_clip_adaptors ext fastq adaptors output_dir min_len w1 = Inr (p1, w2)
                 \<and> fs w2 = fs w1 \<and> cmds w2 = cmds w1))"
proof -
  let ?p = "join output_dir (trim_fastq_ext ext (basename fastq) @ ''_trimmed.fastq.gz'')"
  have p: "p1 = ?p"
    using first by (auto simp: trim_clip_adaptors_def Let_def split: if_splits option.splits sum.splits)
  have "\<not> isfile (fs w) ?p \<longrightarrow> (\<exists>adaptors_file contents cutadapt_cmd.
             adaptors = Some adaptors_file
           \<and> read_text ext (fs w) adaptors_file = Inr contents
           \<and> cutadapt_cmd = str_opt (which ext ''cutadapt'') @ '' ''
                 @ replace (strip contents) [CHR 0x0A] '' '' @ '' '' @ fastq
                 @ '' -o '' @ ?p @ '' -m '' @ show_int min_len @ '' > '' @ ?p @ ''.log''
           \<and> cmds w1 = cmds w @ [cutadapt_cmd]
           \<and> fs w1 = shell ext cutadapt_cmd (fs w))"
    using first unfolding p
    by (auto simp: trim_clip_adaptors_def Let_def split: if_splits option.splits sum.splits)
  moreover have "isfile (fs w1) ?p \<longrightarrow>
      (\<exists>w2. trim_clip_adaptors ext fastq adaptors output_dir min_len w1 = Inr (?p, w2)
              \<and> fs w2 = fs w1 \<and> cmds w2 = cmds w1)"
    by (simp add: trim_clip_adaptors_def Let_def)
  ultimately show ?thesis unfolding p by blast
qed

lemma index_bam_effect:
  "cmds (index_bam ext p w)
     = cmds w @ (if isfile (fs w) (p @ ''.bai'') then [] else [''samtools index '' @ p])
   \<and> fs (index_bam ext p w)
     = (if isfile (fs w) (p @ ''.bai'') then fs w else shell ext (''samtools index '' @ p) (fs w))"
  by (simp add: index_bam_def Let_def)

lemma sort_and_index_bam_twice:
  assumes first: "sort_and_index_bam ext bam_fname w = (p1, w1)"
  shows "(\<not> isfile (fs w) p1 \<longrightarrow>
          (\<exists>sort_cmd sorted.
             sort_cmd = ''samtools sort '' @ bam_fname @ '' '' @ take (length p1 - 4) p1
           \<and> sorted = shell ext sort_cmd (fs w)
           \<and> cmds w1 = cmds w @ sort_cmd
                 # (if isfile sorted (p1 @ ''.bai'') then [] else [''samtools index '' @ p1])
           \<and> fs w1 = (if isfile sorted (p1 @ ''.bai'') then sorted
                      else shell ext (''samtools index '' @ p1) sorted)))
       \<and> (isfile (fs w1) p1 \<longrightarrow>
            (\<exists>w2. sort_and_index_bam ext bam_fname w1 = (p1, w2)
                 \<and> cmds w2 = cmds w1
                       @ (if isfile (fs w1) (p1 @ ''.bai'') then [] else [''samtools index '' @ p1])
                 \<and> fs w2 = (if isfile (fs w1) (p1 @ ''.bai'') then fs w1
                            else shell ext (''samtools index '' @ p1) (fs w1))))"
proof -
  let ?srt = "join (dirname bam_fname) (before_sep ''.bam'' (basename bam_fname) @ ''.sorted'')"
  let ?p = "?srt @ ''.bam''"
  have p: "p1 = ?p"
    using first by (auto simp: sort_and_index_bam_def Let_def)
  have pre: "take (length ?p - 4) ?p = ?srt" by simp
  let ?w3 = "os_system (shell ext) (''samtools sort '' @ bam_fname @ '' '' @ ?srt)
               (logger_info (''Sorting '' @ bam_fname @ '' as '' @ ?srt)
                  (logger_info (''Sort and indexing BAM: '' @ bam_fname) w))"
  have w1: "\<not> isfile (fs w) ?p \<Longrightarrow> w1 = index_bam ext ?p ?w3"
    using first unfolding p by (auto simp: sort_and_index_bam_def Let_def)
  have a: "\<not> isfile (fs w) ?p \<longrightarrow> (\<exists>sort_cmd sorted.
             sort_cmd = ''samtools sort '' @ bam_fname @ '' '' @ take (length ?p - 4) ?p
           \<and> sorted = shell ext sort_cmd (fs w)
           \<and> cmds w1 = cmds w @ sort_cmd
                 # (if isfile sorted (?p @ ''.bai'') then [] else [''samtools index '' @ ?p])
           \<and> fs w1 = (if isfile sorted (?p @ ''.bai'') then sorted
                      else shell ext (''samtools index '' @ ?p) sorted))"
    unfolding pre using w1 index_bam_effect [of ext ?p ?w3] by simp
  let ?v2 = "logger_info (''Sorting '' @ bam_fname @ '' as '' @ ?srt)
                  (logger_info (''Sort and indexing BAM: '' @ bam_fname) w1)"
  have second: "isfile (fs w1) ?p \<Longrightarrow> sort_and_index_bam ext bam_fname w1 = (?p, index_bam ext ?p ?v2)"
    by (simp add: sort_and_index_bam_def Let_def)
  have b: "isfile (fs w1) ?p \<longrightarrow>
            (\<exists>w2. sort_and_index_bam ext bam_fname w1 = (?p, w2)
                 \<and> cmds w2 = cmds w1
                       @ (if isfile (fs w1) (?p @ ''.bai'') then [] else [''samtools index '' @ ?p])
                 \<and> fs w2 = (if isfile (fs w1) (?p @ ''.bai'') then fs w1
                            else shell ext (''samtools index '' @ ?p) (fs w1)))"
    using second index_bam_effect [of ext ?p ?v2] by simp
  from a b show ?thesis unfolding p by blast
qed

text \<open>
  A call of \<open>get_unique_reads\<close> or \<open>get_ribosub_bam_reads\<close> that returns has opened the
  input and either found a file at the target or found nothing there; in the second case
  it has written there the records it selects. Either way the target is a file afterwards,
  and the input is still there for the second call.
\<close>

lemma fs_if_same: "fs a = fs b \<Longrightarrow> fs (if c then a else b) = fs b"
  by simp

lemma cmds_if_same: "cmds a = cmds b \<Longrightarrow> cmds (if c then a else b) = cmds b"
  by simp

lemma get_unique_reads_first:
  assumes first: "get_unique_reads sample w = Inr (p1, w1)"
  shows "\<exists>bam_fname dir b. bam_filename sample = Some bam_fname \<and> processed_bam_dir sample = Some dir
           \<and> fs w bam_fname = Some (BamFile b)
           \<and> p1 = processed_path dir bam_fname ''.unique.bam''
           \<and> (isfile (fs w) p1 \<or> fs w p1 = None)"
proof -
  from first obtain bam_fname where bam: "bam_filename sample = Some bam_fname"
    by (cases "bam_filename sample") (auto simp: get_unique_reads_def Let_def)
  from first bam have isf: "isfile (fs w) bam_fname"
    by (auto simp: get_unique_reads_def Let_def split: if_splits)
  from first bam isf obtain sf where sf: "Samfile_rb (fs w) bam_fname = Inr sf"
    by (cases "Samfile_rb (fs w) bam_fname") (auto simp: get_unique_reads_def Let_def)
  then obtain b where b: "fs w bam_fname = Some (BamFile b)"
    by (auto simp: Samfile_rb_def split: option.splits node.splits)
  from first bam isf sf obtain dir where dir: "processed_bam_dir sample = Some dir"
    by (cases "processed_bam_dir sample") (auto simp: get_unique_reads_def Let_def)
  let ?p = "processed_path dir bam_fname ''.unique.bam''"
  have cases: "(isfile (fs w) ?p \<and> p1 = ?p) \<or> (\<not> isfile (fs w) ?p \<and> (\<exists>f0. Samfile_wb (fs w) ?p sf = Inr f0) \<and> p1 = ?p)"
    using first bam isf sf dir
    by (cases "isfile (fs w) ?p"; cases "Samfile_wb (fs w) ?p sf")
       (auto simp: get_unique_reads_def Let_def processed_path_def fs_if_same split: prod.splits)
  then have p: "p1 = ?p" by blast
  have "isfile (fs w) ?p \<or> fs w ?p = None"
    using cases by (auto simp: Samfile_wb_def isfile_def split: option.splits node.splits)
  with bam dir b p show ?thesis by blast
qed

lemma get_unique_reads_twice:
  assumes first: "get_unique_reads sample w = Inr (p1, w1)"
  shows "(\<not> isfile (fs w) p1 \<longrightarrow>
            (\<exists>bam_fname b. bam_filename sample = Some bam_fname
                \<and> fs w bam_fname = Some (BamFile b)
                \<and> fs w1 = (fs w)(p1 \<mapsto> BamFile \<lparr>references = references b,
                                                   reads = filter has_NH_1 (reads b)\<rparr>))
          \<and> cmds w1 = cmds w)
       \<and> isfile (fs w1) p1
       \<and> (\<exists>w2. get_unique_reads sample w1 = Inr (p1, w2) \<and> fs w2 = fs w1 \<and> cmds w2 = cmds w1)"
proof -
  from get_unique_reads_first [OF first] obtain bam_fname dir b where
    bam: "bam_filename sample = Some bam_fname" and dir: "processed_bam_dir sample = Some dir"
    and inp: "fs w bam_fname = Some (BamFile b)"
    and p: "p1 = processed_path dir bam_fname ''.unique.bam''"
    and target: "isfile (fs w) p1 \<or> fs w p1 = None"
    by blast
  have wrote: "fs w1 = (fs w)(p1 \<mapsto> BamFile \<lparr>references = references b, reads = filter has_NH_1 (reads b)\<rparr>)
      \<and> cmds w1 = cmds w" if absent: "\<not> isfile (fs w) p1"
  proof -
    from target absent have none: "fs w p1 = None" by blast
    from get_unique_reads_writes [OF bam dir inp none [unfolded p]] first
    show ?thesis unfolding p by auto
  qed
  have kept: "fs w1 = fs w" if there: "isfile (fs w) p1"
    using get_unique_reads_skips [OF bam dir inp there [unfolded p]] first by auto
  have inp1: "fs w1 bam_fname = Some (BamFile b)"
  proof (cases "isfile (fs w) p1")
    case True
    with kept inp show ?thesis by simp
  next
    case False
    with target have "fs w p1 = None" by blast
    with inp have "bam_fname \<noteq> p1" by auto
    with wrote [OF False] inp show ?thesis by simp
  qed
  have made: "isfile (fs w1) p1"
  proof (cases "isfile (fs w) p1")
    case True
    with kept show ?thesis by simp
  next
    case False
    from wrote [OF False] show ?thesis by (simp add: isfile_def)
  qed
  from get_unique_reads_skips [OF bam dir inp1 made [unfolded p]]
  have "\<exists>w2. get_unique_reads sample w1 = Inr (p1, w2) \<and> fs w2 = fs w1 \<and> cmds w2 = cmds w1"
    unfolding p by blast
  with bam inp wrote made show ?thesis by blast
qed

lemma get_ribosub_first:
  assumes first: "get_ribosub_bam_reads sample chr_ribo w = Inr (p1, w1)"
  shows "\<exists>bam_fname dir b sf.
             bam_filename sample = Some bam_fname \<and> processed_bam_dir sample = Some dir
           \<and> fs w bam_fname = Some (BamFile b)
           \<and> Samfile_rb (fs w) bam_fname = Inr sf
           \<and> p1 = processed_path dir bam_fname ''.ribosub.bam''
           \<and> (\<not> isfile (fs w) p1 \<longrightarrow>
                fs w p1 = None
              \<and> (\<exists>ribo_reads. fetch sf chr_ribo = Inr ribo_reads
                   \<and> fs w1 = (fs w)(p1 \<mapsto> BamFile \<lparr>references = sf_references sf,
                         reads = filter (\<lambda>r. qname r \<notin> qname ` set ribo_reads) (sf_reads sf)\<rparr>))
              \<and> cmds w1 = cmds w)"
proof -
  from first obtain bam_fname where bam: "bam_filename sample = Some bam_fname"
    by (cases "bam_filename sample") (auto simp: get_ribosub_bam_reads_def Let_def)
  from first bam obtain sf where sf: "Samfile_rb (fs w) bam_fname = Inr sf"
    by (cases "Samfile_rb (fs w) bam_fname") (auto simp: get_ribosub_bam_reads_def Let_def)
  then obtain b where b: "fs w bam_fname = Some (BamFile b)"
    by (auto simp: Samfile_rb_def split: option.splits node.splits)
  from first bam sf obtain dir where dir: "processed_bam_dir sample = Some dir"
    by (cases "processed_bam_dir sample") (auto simp: get_ribosub_bam_reads_def Let_def)
  let ?p = "processed_path dir bam_fname ''.ribosub.bam''"
  have p: "p1 = ?p"
    using first bam sf dir
    by (cases "isfile (fs w) ?p"; cases "fetch sf chr_ribo")
       (auto simp: get_ribosub_bam_reads_def Let_def processed_path_def fs_if_same split: sum.splits)
  have wrote: "fs w ?p = None
      \<and> (\<exists>ribo_reads. fetch sf chr_ribo = Inr ribo_reads
            \<and> fs w1 = (fs w)(?p \<mapsto> BamFile \<lparr>references = sf_references sf,
                  reads = filter (\<lambda>r. qname r \<notin> qname ` set ribo_reads) (sf_reads sf)\<rparr>))
      \<and> cmds w1 = cmds w" if nf: "\<not> isfile (fs w) ?p"
  proof -
    from first bam sf dir nf obtain ribo_reads where fe: "fetch sf chr_ribo = Inr ribo_reads"
      by (cases "fetch sf chr_ribo")
         (auto simp: get_ribosub_bam_reads_def Let_def processed_path_def fs_if_same)
    let ?ids = "collect_ribo_read_ids ribo_reads []"
    from first bam sf dir nf fe obtain f0 where wb: "Samfile_wb (fs w) ?p sf = Inr f0"
      and w1: "fs w1 = ribosub_loop ?ids ?p (sf_reads sf) f0" and c1: "cmds w1 = cmds w"
      by (cases "Samfile_wb (fs w) ?p sf")
         (auto simp: get_ribosub_bam_reads_def Let_def processed_path_def fs_if_same cmds_if_same)
    from wb nf have none: "fs w ?p = None"
      by (auto simp: Samfile_wb_def isfile_def split: option.splits node.splits)
    with wb have f0: "f0 = (fs w)(?p \<mapsto> BamFile \<lparr>references = sf_references sf, reads = []\<rparr>)"
      by (simp add: Samfile_wb_def)
    have "map_of ?ids q = None \<longleftrightarrow> q \<notin> qname ` set ribo_reads" for q
      using map_of_collect [of ribo_reads "[]" q] by (cases "map_of ?ids q") auto
    then have keep: "(\<lambda>r. map_of ?ids (qname r) = None) = (\<lambda>r. qname r \<notin> qname ` set ribo_reads)"
      by simp
    have "ribosub_loop ?ids ?p (sf_reads sf) f0
        = f0(?p \<mapsto> BamFile \<lparr>references = sf_references sf,
                   reads = [] @ filter (\<lambda>r. map_of ?ids (qname r) = None) (sf_reads sf)\<rparr>)"
      by (rule ribosub_loop_filter) (simp add: f0)
    with w1 f0 have "fs w1 = (fs w)(?p \<mapsto> BamFile \<lparr>references = sf_references sf,
                   reads = filter (\<lambda>r. qname r \<notin> qname ` set ribo_reads) (sf_reads sf)\<rparr>)"
      unfolding keep by simp
    with none fe c1 show ?thesis by blast
  qed
  from bam dir b sf p wrote show ?thesis unfolding p by blast
qed

lemma get_ribosub_twice:
  assumes first: "get_ribosub_bam_reads sample chr_ribo w = Inr (p1, w1)"
  shows "(\<not> isfile (fs w) p1 \<longrightarrow>
            (\<exists>bam_fname sf ribo_reads. bam_filename sample = Some bam_fname
                \<and> Samfile_rb (fs w) bam_fname = Inr sf
                \<and> fetch sf chr_ribo = Inr ribo_reads
                \<and> fs w1 = (fs w)(p1 \<mapsto> BamFile \<lparr>references = sf_references sf,
                       reads = filter (\<lambda>r. qname r \<notin> qname ` set ribo_reads) (sf_reads sf)\<rparr>))
          \<and> cmds w1 = cmds w)
       \<and> isfile (fs w1) p1
       \<and> (\<exists>w2. get_ribosub_bam_reads sample chr_ribo w1 = Inr (p1, w2)
              \<and> fs w2 = fs w1 \<and> cmds w2 = cmds w1)"
proof -
  from get_ribosub_first [OF first] obtain bam_fname dir b sf where
    bam: "bam_filename sample = Some bam_fname" and dir: "processed_bam_dir sample = Some dir"
    and inp: "fs w bam_fname = Some (BamFile b)"
    and sf: "Samfile_rb (fs w) bam_fname = Inr sf"
    and p: "p1 = processed_path dir bam_fname ''.ribosub.bam''"
    and wrote: "\<not> isfile (fs w) p1 \<longrightarrow>
                fs w p1 = None
              \<and> (\<exists>ribo_reads. fetch sf chr_ribo = Inr ribo_reads
                   \<and> fs w1 = (fs w)(p1 \<mapsto> BamFile \<lparr>references = sf_references sf,
                         reads = filter (\<lambda>r. qname r \<notin> qname ` set ribo_reads) (sf_reads sf)\<rparr>))
              \<and> cmds w1 = cmds w"
    by blast
  have kept: "fs w1 = fs w" if there: "isfile (fs w) p1"
    using get_ribosub_skips [OF bam dir inp there [unfolded p], of chr_ribo] first by auto
  have inp1: "fs w1 bam_fname = Some (BamFile b)"
  proof (cases "isfile (fs w) p1")
    case True
    with kept inp show ?thesis by simp
  next
    case False
    with wrote obtain x where "fs w p1 = None" "fs w1 = (fs w)(p1 \<mapsto> x)" by blast
    with inp show ?thesis by auto
  qed
  have made: "isfile (fs w1) p1"
  proof (cases "isfile (fs w) p1")
    case True
    with kept show ?thesis by simp
  next
    case False
    with wrote obtain x where "fs w1 = (fs w)(p1 \<mapsto> BamFile x)" by blast
    then show ?thesis by (simp add: isfile_def)
  qed
  from get_ribosub_skips [OF bam dir inp1 made [unfolded p], of chr_ribo]
  have "\<exists>w2. get_ribosub_bam_reads sample chr_ribo w1 = Inr (p1, w2)
              \<and> fs w2 = fs w1 \<and> cmds w2 = cmds w1"
    unfolding p by blast
  with bam sf wrote made show ?thesis by blast
qed

text \<open>
  Claim C4, as amended. Each of the five stages is invoked and returns the path \<open>p1\<close> and
  the state \<open>w1\<close>. If its target was no file before, this first invocation has performed
  the operation once: duplicate removal, adaptor trimming and sort have started their
  command once and the files are what the tool left; the unique subset and the reference
  subtraction have started no command and have written at the target the records of the
  input they select (those carrying \<open>("NH", 1)\<close>; those whose query name is not among the
  records fetched on the excluded reference). If the target is a file in \<open>w1\<close>, the second
  invocation, with the same arguments on \<open>w1\<close>, returns the same path, starts no command
  and leaves every file as it is. After the two stages that write the target themselves
  it always is a file in \<open>w1\<close>; after the three that run a tool it is one only if the tool
  has produced it. In the sort stage this holds of the sort command; the index step that
  follows it is taken again exactly when the index is still missing.
\<close>

theorem stages_skip_if_exists:
  "(\<forall>p1 w1. rmdups_bam ext bam_fname output_dir w = (p1, w1) \<longrightarrow>
        (\<not> isfile (fs w) p1 \<longrightarrow>
           cmds w1 = cmds w @ [''samtools rmdup -s '' @ bam_fname @ '' '' @ p1]
         \<and> fs w1 = shell ext (''samtools rmdup -s '' @ bam_fname @ '' '' @ p1) (fs w))
      \<and> (isfile (fs w1) p1 \<longrightarrow>
           (\<exists>w2. rmdups_bam ext bam_fname output_dir w1 = (p1, w2)
                \<and> fs w2 = fs w1 \<and> cmds w2 = cmds w1)))
   \<and> (\<forall>p1 w1. trim_clip_adaptors ext fastq adaptors output_dir min_len w = Inr (p1, w1) \<longrightarrow>
        (\<not> isfile (fs w) p1 \<longrightarrow>
          (\<exists>adaptors_file contents cutadapt_cmd.
             adaptors = Some adaptors_file
           \<and> read_text ext (fs w) adaptors_file = Inr contents
           \<and> cutadapt_cmd = str_opt (which ext ''cutadapt'') @ '' ''
                 @ replace (strip contents) [CHR 0x0A] '' '' @ '' '' @ fastq
                 @ '' -o '' @ p1 @ '' -m '' @ show_int min_len @ '' > '' @ p1 @ ''.log''
           \<and> cmds w1 = cmds w @ [cutadapt_cmd]
           \<and> fs w1 = shell ext cutadapt_cmd (fs w)))
      \<and> (isfile (fs w1) p1 \<longrightarrow>
           (\<exists>w2. trim_clip_adaptors ext fastq adaptors output_dir min_len w1 = Inr (p1, w2)
                \<and> fs w2 = fs w1 \<and> cmds w2 = cmds w1)))
   \<and> (\<forall>p1 w1. get_unique_reads sample w = Inr (p1, w1) \<longrightarrow>
        (\<not> isfile (fs w) p1 \<longrightarrow>
            (\<exists>bam_fname b. bam_filename sample = Some bam_fname
                \<and> fs w bam_fname = Some (BamFile b)
                \<and> fs w1 = (fs w)(p1 \<mapsto> BamFile \<lparr>references = references b,
                                                   reads = filter has_NH_1 (reads b)\<rparr>))
          \<and> cmds w1 = cmds w)
      \<and> isfile (fs w1) p1
      \<and> (\<exists>w2. get_unique_reads sample w1 = Inr (p1, w2) \<and> fs w2 = fs w1 \<and> cmds w2 = cmds w1))
   \<and> (\<forall>p1 w1. get_ribosub_bam_reads sample chr_ribo w = Inr (p1, w1) \<longrightarrow>
        (\<not> isfile (fs w) p1 \<longrightarrow>
            (\<exists>bam_fname sf ribo_reads. bam_filename sample = Some bam_fname
                \<and> Samfile_rb (fs w) bam_fname = Inr sf
                \<and> fetch sf chr_ribo = Inr ribo_reads
                \<and> fs w1 = (fs w)(p1 \<mapsto> BamFile \<lparr>references = sf_references sf,
                       reads = filter (\<lambda>r. qname r \<notin> qname ` set ribo_reads) (sf_reads sf)\<rparr>))
          \<and> cmds w1 = cmds w)
      \<and> isfile (fs w1) p1
      \<and> (\<exists>w2. get_ribosub_bam_reads sample chr_ribo w1 = Inr (p1, w2)
             \<and> fs w2 = fs w1 \<and> cmds w2 = cmds w1))
   \<and> (\<forall>p1 w1. sort_and_index_bam ext bam_fname w = (p1, w1) \<longrightarrow>
        (\<not> isfile (fs w) p1 \<longrightarrow>
          (\<exists>sort_cmd sorted.
             sort_cmd = ''samtools sort '' @ bam_fname @ '' '' @ take (length p1 - 4) p1
           \<and> sorted = shell ext sort_cmd (fs w)
           \<and> cmds w1 = cmds w @ sort_cmd
                 # (if isfile sorted (p1 @ ''.bai'') then [] else [''samtools index '' @ p1])
           \<and> fs w1 = (if isfile sorted (p1 @ ''.bai'') then sorted
                      else shell ext (''samtools index '' @ p1) sorted)))
      \<and> (isfile (fs w1) p1 \<longrightarrow>
           (\<exists>w2. sort_and_index_bam ext bam_fname w1 = (p1, w2)
                \<and> cmds w2 = cmds w1
                      @ (if isfile (fs w1) (p1 @ ''.bai'') then [] else [''samtools index '' @ p1])
                \<and> fs w2 = (if isfile (fs w1) (p1 @ ''.bai'') then fs w1
                           else shell ext (''samtools index '' @ p1) (fs w1)))))"
proof (intro conjI allI)
  fix p1 w1
  show "rmdups_bam ext bam_fname output_dir w = (p1, w1) \<longrightarrow>
        (\<not> isfile (fs w) p1 \<longrightarrow>
           cmds w1 = cmds w @ [''samtools rmdup -s '' @ bam_fname @ '' '' @ p1]
         \<and> fs w1 = shell ext (''samtools rmdup -s '' @ bam_fname @ '' '' @ p1) (fs w))
      \<and> (isfile (fs w1) p1 \<longrightarrow>
           (\<exists>w2. rmdups_bam ext bam_fname output_dir w1 = (p1, w2)
                \<and> fs w2 = fs w1 \<and> cmds w2 = cmds w1))"
    by (rule impI) (rule rmdups_bam_twice)
next
  fix p1 w1
  show "trim_clip_adaptors ext fastq adaptors output_dir min_len w = Inr (p1, w1) \<longrightarrow>
        (\<not> isfile (fs w) p1 \<longrightarrow>
          (\<exists>adaptors_file contents cutadapt_cmd.
             adaptors = Some adaptors_file
           \<and> read_text ext (fs w) adaptors_file = Inr contents
           \<and> cutadapt_cmd = str_opt (which ext ''cutadapt'') @ '' ''
                 @ replace (strip contents) [CHR 0x0A] '' '' @ '' '' @ fastq
                 @ '' -o '' @ p1 @ '' -m '' @ show_int min_len @ '' > '' @ p1 @ ''.log''
           \<and> cmds w1 = cmds w @ [cutadapt_cmd]
           \<and> fs w1 = shell ext cutadapt_cmd (fs w)))
      \<and> (isfile (fs w1) p1 \<longrightarrow>
           (\<exists>w2. trim_clip_adaptors ext fastq adaptors output_dir min_len w1 = Inr (p1, w2)
                \<and> fs w2 = fs w1 \<and> cmds w2 = cmds w1))"
    by (rule impI) (rule trim_clip_adaptors_twice)
next
  fix p1 w1
  show "get_unique_reads sample w = Inr (p1, w1) \<longrightarrow>
        (\<not> isfile (fs w) p1 \<longrightarrow>
            (\<exists>bam_fname b. bam_filename sample = Some bam_fname
                \<and> fs w bam_fname = Some (BamFile b)
                \<and> fs w1 = (fs w)(p1 \<mapsto> BamFile \<lparr>references = references b,
                                                   reads = filter has_NH_1 (reads b)\<rparr>))
          \<and> cmds w1 = cmds w)
      \<and> isfile (fs w1) p1
      \<and> (\<exists>w2. get_unique_reads sample w1 = Inr (p1, w2) \<and> fs w2 = fs w1 \<and> cmds w2 = cmds w1)"
    by (rule impI) (rule get_unique_reads_twice)
next
  fix p1 w1
  show "get_ribosub_bam_reads sample chr_ribo w = Inr (p1, w1) \<longrightarrow>
        (\<not> isfile (fs w) p1 \<longrightarrow>
            (\<exists>bam_fname sf ribo_reads. bam_filename sample = Some bam_fname
                \<and> Samfile_rb (fs w) bam_fname = Inr sf
                \<and> fetch sf chr_ribo = Inr ribo_reads
                \<and> fs w1 = (fs w)(p1 \<mapsto> BamFile \<lparr>references = sf_references sf,
                       reads = filter (\<lambda>r. qname r \<notin> qname ` set ribo_reads) (sf_reads sf)\<rparr>))
          \<and> cmds w1 = cmds w)
      \<and> isfile (fs w1) p1
      \<and> (\<exists>w2. get_ribosub_bam_reads sample chr_ribo w1 = Inr (p1, w2)
             \<and> fs w2 = fs w1 \<and> cmds w2 = cmds w1)"
    by (rule impI) (rule get_ribosub_twice)
next
  fix p1 w1
  show "sort_and_index_bam ext bam_fname w = (p1, w1) \<longrightarrow>
        (\<not> isfile (fs w) p1 \<longrightarrow>
          (\<exists>sort_cmd sorted.
             sort_cmd = ''samtools sort '' @ bam_fname @ '' '' @ take (length p1 - 4) p1
           \<and> sorted = shell ext sort_cmd (fs w)
           \<and> cmds w1 = cmds w @ sort_cmd
                 # (if isfile sorted (p1 @ ''.bai'') then [] else [''samtools index '' @ p1])
           \<and> fs w1 = (if isfile sorted (p1 @ ''.bai'') then sorted
                      else shell ext (''samtools index '' @ p1) sorted)))
      \<and> (isfile (fs w1) p1 \<longrightarrow>
           (\<exists>w2. sort_and_index_bam ext bam_fname w1 = (p1, w2)
                \<and> cmds w2 = cmds w1
                      @ (if isfile (fs w1) (p1 @ ''.bai'') then [] else [''samtools index '' @ p1])
                \<and> fs w2 = (if isfile (fs w1) (p1 @ ''.bai'') then fs w1
                           else shell ext (''samtools index '' @ p1) (fs w1))))"
    by (rule impI) (rule sort_and_index_bam_twice)
qed

text \<open>
  The stand-in tools on the files of sample \<open>s1\<close>: each stage run once.
\<close>

lemma split_rmdup_cmd:
  "split_char CHR '' '' ''samtools rmdup -s out/mapping/s1.bam out/mapping/s1/processed_bams/s1.rmdups.bam''
     = [''samtools'', ''rmdup'', ''-s'', ''out/mapping/s1.bam'', ''out/mapping/s1/processed_bams/s1.rmdups.bam'']"
  by simp

lemma rmdups_path_example:
  "join ''out/mapping/s1/processed_bams''
     (replace (replace (basename ''out/mapping/s1.bam'') ''.bam'' []) ''.sorted.'' [] @ ''.rmdups.bam'')
   = ''out/mapping/s1/processed_bams/s1.rmdups.bam''"
  by (simp add: basename_def replace_def join_def startswith_def endswith_def)

lemma fake_rmdup:
  "fake_shell ''samtools rmdup -s out/mapping/s1.bam out/mapping/s1/processed_bams/s1.rmdups.bam'' f
     = f(''out/mapping/s1/processed_bams/s1.rmdups.bam'' := f ''out/mapping/s1.bam'')"
  unfolding fake_shell_def split_rmdup_cmd Let_def by simp

lemma rmdups_example:
  "\<exists>w1. rmdups_bam fake_tools ''out/mapping/s1.bam'' ''out/mapping/s1/processed_bams'' (bam_world multi_bam)
           = (''out/mapping/s1/processed_bams/s1.rmdups.bam'', w1)
       \<and> isfile (fs w1) ''out/mapping/s1/processed_bams/s1.rmdups.bam''"
proof -
  have sh: "shell fake_tools = fake_shell" by (simp add: fake_tools_def)
  have nf: "\<not> isfile (fs (bam_world multi_bam)) ''out/mapping/s1/processed_bams/s1.rmdups.bam''"
    by (simp add: bam_world_def isfile_def)
  have inp: "fs (bam_world multi_bam) ''out/mapping/s1.bam'' = Some (BamFile multi_bam)"
    by (simp add: bam_world_def)
  show ?thesis
    unfolding rmdups_bam_def Let_def rmdups_path_example sh
    using nf inp by (simp add: fake_rmdup isfile_def)
qed

lemma show_int_5: "show_int 5 = ''5''"
  by (simp add: show_int_def show_nat.simps digit_char_def)

lemma cutadapt_words:
  "split_char CHR '' '' (''/usr/bin/cutadapt -a AAAA -a CCCC reads/s1.fastq -o out/rawdata/s1_trimmed.fastq.gz -m 5 > out/rawdata/s1_trimmed.fastq.gz.log'')
     = [''/usr/bin/cutadapt'', ''-a'', ''AAAA'', ''-a'', ''CCCC'', ''reads/s1.fastq'', ''-o'',
        ''out/rawdata/s1_trimmed.fastq.gz'', ''-m'', ''5'', ''>'', ''out/rawdata/s1_trimmed.fastq.gz.log'']"
  by simp

lemma fake_cutadapt:
  "fake_shell ''/usr/bin/cutadapt -a AAAA -a CCCC reads/s1.fastq -o out/rawdata/s1_trimmed.fastq.gz -m 5 > out/rawdata/s1_trimmed.fastq.gz.log'' f
     = f(''out/rawdata/s1_trimmed.fastq.gz'' \<mapsto> TextFile ''trimmed reads'')"
  unfolding fake_shell_def cutadapt_words Let_def by simp

lemma adaptors_text:
  "replace (strip ''-a AAAA\<newline>-a CCCC\<newline>'') ''\<newline>'' '' '' = ''-a AAAA -a CCCC''"
  by (simp add: replace_def strip_def is_space_def startswith_def)

lemma trimmed_path_example:
  "join ''out/rawdata'' (trim_fastq_ext fake_tools (basename ''reads/s1.fastq'') @ ''_trimmed.fastq.gz'')
     = ''out/rawdata/s1_trimmed.fastq.gz''"
  by (simp add: fake_tools_def basename_def join_def startswith_def endswith_def)

lemma trim_example:
  "\<exists>w1. trim_clip_adaptors fake_tools ''reads/s1.fastq'' (Some ''adaptors.txt'') ''out/rawdata'' 5 clip_world
           = Inr (''out/rawdata/s1_trimmed.fastq.gz'', w1)
       \<and> isfile (fs w1) ''out/rawdata/s1_trimmed.fastq.gz''"
proof -
  have sh: "shell fake_tools = fake_shell" "which fake_tools ''cutadapt'' = Some ''/usr/bin/cutadapt''"
    by (simp_all add: fake_tools_def)
  have nf: "\<not> isfile (fs clip_world) ''out/rawdata/s1_trimmed.fastq.gz''"
    "isfile (fs clip_world) ''adaptors.txt''"
    by (simp_all add: clip_world_def isfile_def)
  have rd: "read_text fake_tools (fs clip_world) ''adaptors.txt''
      = Inr ''-a AAAA\<newline>-a CCCC\<newline>''"
    by (simp add: read_text_def clip_world_def)
  show ?thesis
    unfolding trim_clip_adaptors_def Let_def trimmed_path_example sh
    using nf by (simp add: rd adaptors_text show_int_5 str_opt_def fake_cutadapt isfile_def)
qed

lemma sorted_path_example:
  "join (dirname ''out/mapping/s1.bam'') (before_sep ''.bam'' (basename ''out/mapping/s1.bam'') @ ''.sorted'')
     = ''out/mapping/s1.sorted''"
  by (simp add: dirname_def basename_def join_def startswith_def endswith_def)

lemma fake_sort:
  "fake_shell ''samtools sort out/mapping/s1.bam out/mapping/s1.sorted'' f
     = f(''out/mapping/s1.sorted.bam'' := f ''out/mapping/s1.bam'')"
  unfolding fake_shell_def Let_def by simp

lemma fake_index:
  "fake_shell ''samtools index out/mapping/s1.sorted.bam'' f
     = f(''out/mapping/s1.sorted.bam.bai'' \<mapsto> TextFile ''BAI'')"
  unfolding fake_shell_def Let_def by simp

lemma sort_example:
  "\<exists>w1. sort_and_index_bam fake_tools ''out/mapping/s1.bam'' (bam_world multi_bam)
           = (''out/mapping/s1.sorted.bam'', w1)
       \<and> isfile (fs w1) ''out/mapping/s1.sorted.bam''
       \<and> isfile (fs w1) (''out/mapping/s1.sorted.bam'' @ ''.bai'')"
proof -
  have sh: "shell fake_tools = fake_shell" by (simp add: fake_tools_def)
  have f0: "fs (bam_world multi_bam) ''out/mapping/s1.sorted.bam'' = None"
    "fs (bam_world multi_bam) ''out/mapping/s1.sorted.bam.bai'' = None"
    "fs (bam_world multi_bam) ''out/mapping/s1.bam'' = Some (BamFile multi_bam)"
    by (simp_all add: bam_world_def)
  show ?thesis
    unfolding sort_and_index_bam_def index_bam_def Let_def sorted_path_example sh
    using f0 by (simp add: fake_sort fake_index isfile_def)
qed

text \<open>
  Duplicate removal with a tool that fails: the command is started and no file appears.
\<close>

lemma rmdups_failing_tool:
  assumes "\<not> isfile (fs w) ''out/mapping/s1/processed_bams/s1.rmdups.bam''"
  shows "fst (rmdups_bam failing_tools ''out/mapping/s1.bam'' ''out/mapping/s1/processed_bams'' w)
           = ''out/mapping/s1/processed_bams/s1.rmdups.bam''
       \<and> fs (snd (rmdups_bam failing_tools ''out/mapping/s1.bam'' ''out/mapping/s1/processed_bams'' w))
           = fs w
       \<and> cmds (snd (rmdups_bam failing_tools ''out/mapping/s1.bam'' ''out/mapping/s1/processed_bams'' w))
           = cmds w @ [''samtools rmdup -s out/mapping/s1.bam out/mapping/s1/processed_bams/s1.rmdups.bam'']"
proof -
  have sh: "shell failing_tools = (\<lambda>cmd f. f)" by (simp add: failing_tools_def)
  show ?thesis
    unfolding rmdups_bam_def Let_def rmdups_path_example sh
    using assms by simp
qed

text \<open>
  Duplicate removal with the target in place: no command is started and no file changes.
\<close>

lemma rmdups_target_there:
  assumes "isfile (fs w) ''out/mapping/s1/processed_bams/s1.rmdups.bam''"
  shows "fs (snd (rmdups_bam fake_tools ''out/mapping/s1.bam'' ''out/mapping/s1/processed_bams'' w))
           = fs w
       \<and> cmds (snd (rmdups_bam fake_tools ''out/mapping/s1.bam'' ''out/mapping/s1/processed_bams'' w))
           = cmds w"
  unfolding rmdups_bam_def Let_def rmdups_path_example
  using assms by simp

text \<open>
  Claim C4 as stated fails: nothing in a stage makes its target exist, and nothing makes
  it absent at the start. With a tool that fails and leaves no file (its exit status is
  not looked at), duplicate removal invoked twice with the same input and the same output
  directory returns the same path both times and starts the command twice. With the
  target in place before the first invocation, the two invocations start no command at
  all.
\<close>

theorem stages_run_twice_counterexample:
  "isfile (fs (bam_world multi_bam)) ''out/mapping/s1.bam''
   \<and> cmds (bam_world multi_bam) = []
   \<and> fst (rmdups_bam failing_tools ''out/mapping/s1.bam'' ''out/mapping/s1/processed_bams''
            (bam_world multi_bam))
       = ''out/mapping/s1/processed_bams/s1.rmdups.bam''
   \<and> fst (rmdups_bam failing_tools ''out/mapping/s1.bam'' ''out/mapping/s1/processed_bams''
            (snd (rmdups_bam failing_tools ''out/mapping/s1.bam'' ''out/mapping/s1/processed_bams''
                    (bam_world multi_bam))))
       = ''out/mapping/s1/processed_bams/s1.rmdups.bam''
   \<and> cmds (snd (rmdups_bam failing_tools ''out/mapping/s1.bam'' ''out/mapping/s1/processed_bams''
                  (snd (rmdups_bam failing_tools ''out/mapping/s1.bam'' ''out/mapping/s1/processed_bams''
                          (bam_world multi_bam)))))
       = [''samtools rmdup -s out/mapping/s1.bam out/mapping/s1/processed_bams/s1.rmdups.bam'',
          ''samtools rmdup -s out/mapping/s1.bam out/mapping/s1/processed_bams/s1.rmdups.bam'']
   \<and> isfile (fs deduplicated_world) ''out/mapping/s1.bam''
   \<and> cmds deduplicated_world = []
   \<and> cmds (snd (rmdups_bam fake_tools ''out/mapping/s1.bam'' ''out/mapping/s1/processed_bams''
                  (snd (rmdups_bam fake_tools ''out/mapping/s1.bam'' ''out/mapping/s1/processed_bams''
                          deduplicated_world))))
       = []"
proof -
  let ?once = "snd (rmdups_bam failing_tools ''out/mapping/s1.bam'' ''out/mapping/s1/processed_bams''
                      (bam_world multi_bam))"
  have inp: "isfile (fs (bam_world multi_bam)) ''out/mapping/s1.bam''" "cmds (bam_world multi_bam) = []"
    by (simp_all add: bam_world_def isfile_def)
  have n0: "\<not> isfile (fs (bam_world multi_bam)) ''out/mapping/s1/processed_bams/s1.rmdups.bam''"
    by (simp add: bam_world_def isfile_def)
  note first = rmdups_failing_tool [OF n0]
  from first n0 have n1: "\<not> isfile (fs ?once) ''out/mapping/s1/processed_bams/s1.rmdups.bam''"
    by simp
  note second = rmdups_failing_tool [OF n1]
  let ?skip = "snd (rmdups_bam fake_tools ''out/mapping/s1.bam'' ''out/mapping/s1/processed_bams''
                      deduplicated_world)"
  have ded: "isfile (fs deduplicated_world) ''out/mapping/s1.bam''" "cmds deduplicated_world = []"
    by (simp_all add: deduplicated_world_def isfile_def)
  have d0: "isfile (fs deduplicated_world) ''out/mapping/s1/processed_bams/s1.rmdups.bam''"
    by (simp add: deduplicated_world_def isfile_def)
  note skip1 = rmdups_target_there [OF d0]
  from skip1 d0 have d1: "isfile (fs ?skip) ''out/mapping/s1/processed_bams/s1.rmdups.bam''"
    by simp
  note skip2 = rmdups_target_there [OF d1]
  from inp first second ded skip1 skip2 show ?thesis by simp
qed

text \<open>
  The amended claim C4 for duplicate removal, adaptor trimming, unique subset, reference
  subtraction and sort on the files of sample \<open>s1\<close> with the stand-in tools: the first
  invocation starts the command once, or writes the selected records, and leaves the
  target; the second returns the same path and changes nothing.
\<close>

theorem stages_skip_if_exists_witness:
  "(\<exists>w1 w2. rmdups_bam fake_tools ''out/mapping/s1.bam'' ''out/mapping/s1/processed_bams'' (bam_world multi_bam)
               = (''out/mapping/s1/processed_bams/s1.rmdups.bam'', w1)
        \<and> \<not> isfile (fs (bam_world multi_bam)) ''out/mapping/s1/processed_bams/s1.rmdups.bam''
        \<and> isfile (fs w1) ''out/mapping/s1/processed_bams/s1.rmdups.bam''
        \<and> cmds w1 = [''samtools rmdup -s out/mapping/s1.bam out/mapping/s1/processed_bams/s1.rmdups.bam'']
        \<and> rmdups_bam fake_tools ''out/mapping/s1.bam'' ''out/mapping/s1/processed_bams'' w1
               = (''out/mapping/s1/processed_bams/s1.rmdups.bam'', w2)
        \<and> fs w2 = fs w1 \<and> cmds w2 = cmds w1)
   \<and> (\<exists>w1 w2. trim_clip_adaptors fake_tools ''reads/s1.fastq'' (Some ''adaptors.txt'') ''out/rawdata'' 5 clip_world
               = Inr (''out/rawdata/s1_trimmed.fastq.gz'', w1)
        \<and> \<not> isfile (fs clip_world) ''out/rawdata/s1_trimmed.fastq.gz''
        \<and> isfile (fs w1) ''out/rawdata/s1_trimmed.fastq.gz''
        \<and> cmds w1 = [''/usr/bin/cutadapt -a AAAA -a CCCC reads/s1.fastq -o out/rawdata/s1_trimmed.fastq.gz -m 5 > out/rawdata/s1_trimmed.fastq.gz.log'']
        \<and> trim_clip_adaptors fake_tools ''reads/s1.fastq'' (Some ''adaptors.txt'') ''out/rawdata'' 5 w1
               = Inr (''out/rawdata/s1_trimmed.fastq.gz'', w2)
        \<and> fs w2 = fs w1 \<and> cmds w2 = cmds w1)
   \<and> (\<exists>w1 w2. get_unique_reads mapped_sample (bam_world multi_bam)
               = Inr (''out/mapping/s1/processed_bams/s1.unique.bam'', w1)
        \<and> \<not> isfile (fs (bam_world multi_bam)) ''out/mapping/s1/processed_bams/s1.unique.bam''
        \<and> fs w1 ''out/mapping/s1/processed_bams/s1.unique.bam''
             = Some (BamFile \<lparr>references = [''chr1'', ''chr2'', ''chrRibo''],
                              reads = [mk_read ''r1'' ''chr1'' 100 1, mk_read ''r2'' ''chr1'' 150 1,
                                       mk_read ''r5'' ''chr2'' 300 1]\<rparr>)
        \<and> cmds w1 = []
        \<and> get_unique_reads mapped_sample w1 = Inr (''out/mapping/s1/processed_bams/s1.unique.bam'', w2)
        \<and> fs w2 = fs w1 \<and> cmds w2 = cmds w1)
   \<and> (\<exists>w1 w2. get_ribosub_bam_reads mapped_sample ''chrRibo'' (bam_world ribo_bam)
               = Inr (''out/mapping/s1/processed_bams/s1.ribosub.bam'', w1)
        \<and> \<not> isfile (fs (bam_world ribo_bam)) ''out/mapping/s1/processed_bams/s1.ribosub.bam''
        \<and> fs w1 ''out/mapping/s1/processed_bams/s1.ribosub.bam''
             = Some (BamFile \<lparr>references = [''chr1'', ''chr2'', ''chrRibo''],
                              reads = [mk_read ''Q2'' ''chr1'' 200 2, mk_read ''Q2'' ''chr2'' 300 2]\<rparr>)
        \<and> cmds w1 = []
        \<and> get_ribosub_bam_reads mapped_sample ''chrRibo'' w1
               = Inr (''out/mapping/s1/processed_bams/s1.ribosub.bam'', w2)
        \<and> fs w2 = fs w1 \<and> cmds w2 = cmds w1)
   \<and> (\<exists>w1 w2. sort_and_index_bam fake_tools ''out/mapping/s1.bam'' (bam_world multi_bam)
               = (''out/mapping/s1.sorted.bam'', w1)
        \<and> \<not> isfile (fs (bam_world multi_bam)) ''out/mapping/s1.sorted.bam''
        \<and> isfile (fs w1) ''out/mapping/s1.sorted.bam''
        \<and> cmds w1 = [''samtools sort out/mapping/s1.bam out/mapping/s1.sorted'',
                      ''samtools index out/mapping/s1.sorted.bam'']
        \<and> sort_and_index_bam fake_tools ''out/mapping/s1.bam'' w1 = (''out/mapping/s1.sorted.bam'', w2)
        \<and> fs w2 = fs w1 \<and> cmds w2 = cmds w1)"
proof -
  have c0: "cmds (bam_world b) = []" "cmds clip_world = []" for b
    by (simp_all add: bam_world_def clip_world_def)
  let ?prm = "''out/mapping/s1/processed_bams/s1.rmdups.bam''"
  from rmdups_example obtain r1 where
    r1: "rmdups_bam fake_tools ''out/mapping/s1.bam'' ''out/mapping/s1/processed_bams'' (bam_world multi_bam)
           = (?prm, r1)" "isfile (fs r1) ?prm" by blast
  have rn: "\<not> isfile (fs (bam_world multi_bam)) ?prm"
    by (simp add: bam_world_def isfile_def)
  from stages_skip_if_exists [of fake_tools "''out/mapping/s1.bam''" "''out/mapping/s1/processed_bams''"
      "bam_world multi_bam", THEN conjunct1, rule_format, of ?prm r1] r1 rn
  obtain r2 where
    "cmds r1 = [''samtools rmdup -s out/mapping/s1.bam out/mapping/s1/processed_bams/s1.rmdups.bam'']"
    "rmdups_bam fake_tools ''out/mapping/s1.bam'' ''out/mapping/s1/processed_bams'' r1 = (?prm, r2)"
    "fs r2 = fs r1" "cmds r2 = cmds r1"
    by (auto simp: c0)
  with r1 rn have A: "\<exists>w1 w2. rmdups_bam fake_tools ''out/mapping/s1.bam'' ''out/mapping/s1/processed_bams'' (bam_world multi_bam)
               = (?prm, w1)
        \<and> \<not> isfile (fs (bam_world multi_bam)) ?prm \<and> isfile (fs w1) ?prm
        \<and> cmds w1 = [''samtools rmdup -s out/mapping/s1.bam out/mapping/s1/processed_bams/s1.rmdups.bam'']
        \<and> rmdups_bam fake_tools ''out/mapping/s1.bam'' ''out/mapping/s1/processed_bams'' w1 = (?prm, w2)
        \<and> fs w2 = fs w1 \<and> cmds w2 = cmds w1"
    by blast
  let ?ptr = "''out/rawdata/s1_trimmed.fastq.gz''"
  let ?cut = "''/usr/bin/cutadapt -a AAAA -a CCCC reads/s1.fastq -o out/rawdata/s1_trimmed.fastq.gz -m 5 > out/rawdata/s1_trimmed.fastq.gz.log''"
  from trim_example obtain t1 where
    t1: "trim_clip_adaptors fake_tools ''reads/s1.fastq'' (Some ''adaptors.txt'') ''out/rawdata'' 5 clip_world
           = Inr (?ptr, t1)" "isfile (fs t1) ?ptr" by blast
  have tn: "\<not> isfile (fs clip_world) ?ptr"
    by (simp add: clip_world_def isfile_def)
  have rd: "read_text fake_tools (fs clip_world) ''adaptors.txt'' = Inr ''-a AAAA\<newline>-a CCCC\<newline>''"
    by (simp add: read_text_def clip_world_def)
  have cut: "str_opt (which fake_tools ''cutadapt'') @ '' ''
                 @ replace (strip ''-a AAAA\<newline>-a CCCC\<newline>'') [CHR 0x0A] '' '' @ '' '' @ ''reads/s1.fastq''
                 @ '' -o '' @ ?ptr @ '' -m '' @ show_int 5 @ '' > '' @ ?ptr @ ''.log'' = ?cut"
    using adaptors_text by (simp add: show_int_5 str_opt_def fake_tools_def)
  from stages_skip_if_exists [where ext = fake_tools and fastq = "''reads/s1.fastq''"
      and adaptors = "Some ''adaptors.txt''" and output_dir = "''out/rawdata''" and min_len = 5
      and w = clip_world, THEN conjunct2, THEN conjunct1, rule_format, of ?ptr t1] t1 tn
  obtain contents t2 where
    t2: "read_text fake_tools (fs clip_world) ''adaptors.txt'' = Inr contents"
    "cmds t1 = cmds clip_world @ [str_opt (which fake_tools ''cutadapt'') @ '' ''
                 @ replace (strip contents) [CHR 0x0A] '' '' @ '' '' @ ''reads/s1.fastq''
                 @ '' -o '' @ ?ptr @ '' -m '' @ show_int 5 @ '' > '' @ ?ptr @ ''.log'']"
    "trim_clip_adaptors fake_tools ''reads/s1.fastq'' (Some ''adaptors.txt'') ''out/rawdata'' 5 t1
       = Inr (?ptr, t2)" "fs t2 = fs t1" "cmds t2 = cmds t1"
    by blast
  from t2(1) rd have "contents = ''-a AAAA\<newline>-a CCCC\<newline>''" by simp
  with t2(2) have tc: "cmds t1 = [?cut]"
    unfolding c0 using cut by simp
  with t1 tn t2 have B: "\<exists>w1 w2. trim_clip_adaptors fake_tools ''reads/s1.fastq'' (Some ''adaptors.txt'') ''out/rawdata'' 5 clip_world
               = Inr (?ptr, w1)
        \<and> \<not> isfile (fs clip_world) ?ptr \<and> isfile (fs w1) ?ptr
        \<and> cmds w1 = [?cut]
        \<and> trim_clip_adaptors fake_tools ''reads/s1.fastq'' (Some ''adaptors.txt'') ''out/rawdata'' 5 w1
               = Inr (?ptr, w2)
        \<and> fs w2 = fs w1 \<and> cmds w2 = cmds w1"
    by blast
  have ms: "bam_filename mapped_sample = Some ''out/mapping/s1.bam''"
    "processed_bam_dir mapped_sample = Some ''out/mapping/s1/processed_bams''"
    by (simp_all add: mapped_sample_def)
  let ?pu = "''out/mapping/s1/processed_bams/s1.unique.bam''"
  have un: "fs (bam_world multi_bam) ''out/mapping/s1.bam'' = Some (BamFile multi_bam)"
    "fs (bam_world multi_bam) (processed_path ''out/mapping/s1/processed_bams'' ''out/mapping/s1.bam'' ''.unique.bam'') = None"
    "\<not> isfile (fs (bam_world multi_bam)) ?pu"
    by (simp_all add: bam_world_def processed_path_s1 isfile_def)
  have uq: "filter has_NH_1 (reads multi_bam)
      = [mk_read ''r1'' ''chr1'' 100 1, mk_read ''r2'' ''chr1'' 150 1, mk_read ''r5'' ''chr2'' 300 1]"
    "references multi_bam = [''chr1'', ''chr2'', ''chrRibo'']"
    by (simp_all add: multi_bam_def mk_read_def has_NH_1_def py_eq_int_def)
  from get_unique_reads_writes [OF ms un(1,2)] obtain u1 where
    u1: "get_unique_reads mapped_sample (bam_world multi_bam) = Inr (?pu, u1)"
    unfolding processed_path_s1 by auto
  from stages_skip_if_exists [where sample = mapped_sample and w = "bam_world multi_bam",
      THEN conjunct2, THEN conjunct2, THEN conjunct1, rule_format, of ?pu u1] u1 un(3)
  obtain ub b u2 where
    u2: "bam_filename mapped_sample = Some ub" "fs (bam_world multi_bam) ub = Some (BamFile b)"
    "fs u1 = (fs (bam_world multi_bam))(?pu \<mapsto> BamFile \<lparr>references = references b,
                                                 reads = filter has_NH_1 (reads b)\<rparr>)"
    "cmds u1 = cmds (bam_world multi_bam)"
    "get_unique_reads mapped_sample u1 = Inr (?pu, u2)" "fs u2 = fs u1" "cmds u2 = cmds u1"
    by blast
  from u2(1,2) ms(1) un(1) have "b = multi_bam" by simp
  with u2(3) have uc: "fs u1 ?pu = Some (BamFile \<lparr>references = [''chr1'', ''chr2'', ''chrRibo''],
                              reads = [mk_read ''r1'' ''chr1'' 100 1, mk_read ''r2'' ''chr1'' 150 1,
                                       mk_read ''r5'' ''chr2'' 300 1]\<rparr>)"
    by (simp add: uq)
  from u2(4) have "cmds u1 = []" by (simp add: c0)
  with u1 un(3) uc u2 have C: "\<exists>w1 w2. get_unique_reads mapped_sample (bam_world multi_bam) = Inr (?pu, w1)
        \<and> \<not> isfile (fs (bam_world multi_bam)) ?pu
        \<and> fs w1 ?pu = Some (BamFile \<lparr>references = [''chr1'', ''chr2'', ''chrRibo''],
                              reads = [mk_read ''r1'' ''chr1'' 100 1, mk_read ''r2'' ''chr1'' 150 1,
                                       mk_read ''r5'' ''chr2'' 300 1]\<rparr>)
        \<and> cmds w1 = []
        \<and> get_unique_reads mapped_sample w1 = Inr (?pu, w2)
        \<and> fs w2 = fs w1 \<and> cmds w2 = cmds w1"
    by blast
  let ?pr = "''out/mapping/s1/processed_bams/s1.ribosub.bam''"
  have rbn: "fs (bam_world ribo_bam) ''out/mapping/s1.bam'' = Some (BamFile ribo_bam)"
    "isfile (fs (bam_world ribo_bam)) (''out/mapping/s1.bam'' @ ''.bai'')"
    "''chrRibo'' \<noteq> []" "''chrRibo'' \<in> set (references ribo_bam)"
    "fs (bam_world ribo_bam) (processed_path ''out/mapping/s1/processed_bams'' ''out/mapping/s1.bam'' ''.ribosub.bam'') = None"
    "\<not> isfile (fs (bam_world ribo_bam)) ?pr"
    by (simp_all add: bam_world_def processed_path_s1 isfile_def ribo_bam_def)
  let ?sf = "\<lparr>sf_references = [''chr1'', ''chr2'', ''chrRibo''], sf_reads = reads ribo_bam, sf_index = True\<rparr>"
  have rb: "Samfile_rb (fs (bam_world ribo_bam)) ''out/mapping/s1.bam'' = Inr ?sf"
    using Samfile_rb_BamFile [of "fs (bam_world ribo_bam)" "''out/mapping/s1.bam''" ribo_bam] rbn(1,2)
    by (simp add: ribo_bam_def)
  have fe: "fetch ?sf ''chrRibo'' = Inr [mk_read ''Q1'' ''chrRibo'' 5 2]"
    by (simp add: fetch_def ribo_bam_def mk_read_def)
  have keep: "filter (\<lambda>r. qname r \<notin> qname ` set [mk_read ''Q1'' ''chrRibo'' 5 2]) (reads ribo_bam)
      = [mk_read ''Q2'' ''chr1'' 200 2, mk_read ''Q2'' ''chr2'' 300 2]"
    by (simp add: ribo_bam_def mk_read_def)
  from get_ribosub_writes [OF ms rbn(1,2,3,4,5)] obtain b1 where
    b1: "get_ribosub_bam_reads mapped_sample ''chrRibo'' (bam_world ribo_bam) = Inr (?pr, b1)"
    unfolding processed_path_s1 by auto
  from stages_skip_if_exists [where sample = mapped_sample and w = "bam_world ribo_bam"
      and chr_ribo = "''chrRibo''",
      THEN conjunct2, THEN conjunct2, THEN conjunct2, THEN conjunct1, rule_format, of ?pr b1] b1 rbn(6)
  obtain rbam sf ribo_reads b2 where
    b2: "bam_filename mapped_sample = Some rbam"
    "Samfile_rb (fs (bam_world ribo_bam)) rbam = Inr sf"
    "fetch sf ''chrRibo'' = Inr ribo_reads"
    "fs b1 = (fs (bam_world ribo_bam))(?pr \<mapsto> BamFile \<lparr>references = sf_references sf,
                   reads = filter (\<lambda>r. qname r \<notin> qname ` set ribo_reads) (sf_reads sf)\<rparr>)"
    "cmds b1 = cmds (bam_world ribo_bam)"
    "get_ribosub_bam_reads mapped_sample ''chrRibo'' b1 = Inr (?pr, b2)"
    "fs b2 = fs b1" "cmds b2 = cmds b1"
    by blast
  from b2(1) ms(1) have "rbam = ''out/mapping/s1.bam''" by simp
  with b2(2) rb have sf: "sf = ?sf" by simp
  with b2(3) fe have rr: "ribo_reads = [mk_read ''Q1'' ''chrRibo'' 5 2]" by simp
  have bc: "fs b1 ?pr = Some (BamFile \<lparr>references = [''chr1'', ''chr2'', ''chrRibo''],
                              reads = [mk_read ''Q2'' ''chr1'' 200 2, mk_read ''Q2'' ''chr2'' 300 2]\<rparr>)"
    unfolding b2(4) sf rr using keep by simp
  from b2(5) have "cmds b1 = []" by (simp add: c0)
  with b1 rbn(6) bc b2 have D: "\<exists>w1 w2. get_ribosub_bam_reads mapped_sample ''chrRibo'' (bam_world ribo_bam) = Inr (?pr, w1)
        \<and> \<not> isfile (fs (bam_world ribo_bam)) ?pr
        \<and> fs w1 ?pr = Some (BamFile \<lparr>references = [''chr1'', ''chr2'', ''chrRibo''],
                              reads = [mk_read ''Q2'' ''chr1'' 200 2, mk_read ''Q2'' ''chr2'' 300 2]\<rparr>)
        \<and> cmds w1 = []
        \<and> get_ribosub_bam_reads mapped_sample ''chrRibo'' w1 = Inr (?pr, w2)
        \<and> fs w2 = fs w1 \<and> cmds w2 = cmds w1"
    by blast
  let ?ps = "''out/mapping/s1.sorted.bam''"
  from sort_example obtain s1 where
    s1: "sort_and_index_bam fake_tools ''out/mapping/s1.bam'' (bam_world multi_bam) = (?ps, s1)"
    "isfile (fs s1) ?ps" "isfile (fs s1) (?ps @ ''.bai'')" by blast
  have sn: "\<not> isfile (fs (bam_world multi_bam)) ?ps"
    by (simp add: bam_world_def isfile_def)
  have sh: "shell fake_tools = fake_shell" by (simp add: fake_tools_def)
  have nobai: "\<not> isfile (fake_shell ''samtools sort out/mapping/s1.bam out/mapping/s1.sorted''
                          (fs (bam_world multi_bam))) ''out/mapping/s1.sorted.bam.bai''"
    unfolding fake_sort by (simp add: bam_world_def isfile_def)
  from stages_skip_if_exists [where ext = fake_tools and bam_fname = "''out/mapping/s1.bam''"
      and w = "bam_world multi_bam",
      THEN conjunct2, THEN conjunct2, THEN conjunct2, THEN conjunct2, rule_format, of ?ps s1] s1 sn
  obtain s2 where
    s2: "cmds s1 = cmds (bam_world multi_bam) @ (''samtools sort '' @ ''out/mapping/s1.bam'' @ '' '' @ take (length ?ps - 4) ?ps)
            # (if isfile (shell fake_tools (''samtools sort '' @ ''out/mapping/s1.bam'' @ '' '' @ take (length ?ps - 4) ?ps)
                            (fs (bam_world multi_bam))) (?ps @ ''.bai'')
               then [] else [''samtools index '' @ ?ps])"
    "sort_and_index_bam fake_tools ''out/mapping/s1.bam'' s1 = (?ps, s2)"
    "cmds s2 = cmds s1 @ (if isfile (fs s1) (?ps @ ''.bai'') then [] else [''samtools index '' @ ?ps])"
    "fs s2 = (if isfile (fs s1) (?ps @ ''.bai'') then fs s1
              else shell fake_tools (''samtools index '' @ ?ps) (fs s1))"
    by blast
  from s2(1) nobai have sc: "cmds s1 = [''samtools sort out/mapping/s1.bam out/mapping/s1.sorted'',
                      ''samtools index out/mapping/s1.sorted.bam'']"
    unfolding sh c0 by simp
  from s2(3,4) s1(3) have "fs s2 = fs s1" "cmds s2 = cmds s1" by simp_all
  with s1 sn sc s2(2) have E: "\<exists>w1 w2. sort_and_index_bam fake_tools ''out/mapping/s1.bam'' (bam_world multi_bam) = (?ps, w1)
        \<and> \<not> isfile (fs (bam_world multi_bam)) ?ps \<and> isfile (fs w1) ?ps
        \<and> cmds w1 = [''samtools sort out/mapping/s1.bam out/mapping/s1.sorted'',
                      ''samtools index out/mapping/s1.sorted.bam'']
        \<and> sort_and_index_bam fake_tools ''out/mapping/s1.bam'' w1 = (?ps, w2)
        \<and> fs w2 = fs w1 \<and> cmds w2 = cmds w1"
    by blast
  from A B C D E show ?thesis by (intro conjI)
qed

end
